theory Spec2Isabelle
  imports Complex_Main "HOL-Library.Log_Nat"
begin

text \<open>
  A model of the value-moving code of the custodial wallet back end: the ledger
  (\<^verbatim>\<open>BalanceModel\<close>), the transfer route, account creation, block ingest and recovery, the
  deposit worker and bucket settlement. Each function of the source is a function on an
  explicit state of the store; what the chain, the clock and the store's failures
  contribute is an argument. The tasks on timers run one at a time here: interleavings
  of two tasks at their \<^verbatim>\<open>await\<close> points are not modelled.
\<close>

section \<open>JavaScript numbers\<close>

text \<open>
  A JavaScript number is an IEEE 754 double: \<^verbatim>\<open>NaN\<close>, one of the two infinities, or a
  finite value, which is a rational. The two zeros are one value here: no operation of
  the code below tells them apart (\<^verbatim>\<open>-0 < 0\<close> is false, \<^verbatim>\<open>-0 || 0\<close> is \<^verbatim>\<open>0\<close>, and
  \<^verbatim>\<open>(-0).toFixed(2)\<close> is \<^verbatim>\<open>"0.00"\<close>).
\<close>

datatype jsnum = NaN | PosInf | NegInf | Num rat

text \<open>
  Rounding a rational to the nearest double, ties to the even significand. For \<open>x > 0\<close>,
  \<open>ilog2 x\<close> is the exponent \<open>e\<close> with \<open>2\<^sup>e \<le> x < 2\<^sup>e\<^sup>+\<^sup>1\<close>; the doubles of that binade are the
  multiples of \<open>2\<^sup>e\<^sup>-\<^sup>5\<^sup>2\<close> (53 significant bits), and below \<open>2\<^sup>-\<^sup>1\<^sup>0\<^sup>2\<^sup>2\<close> the spacing stays
  \<open>2\<^sup>-\<^sup>1\<^sup>0\<^sup>7\<^sup>4\<close>. A result of magnitude \<open>2\<^sup>1\<^sup>0\<^sup>2\<^sup>4\<close> or more is an infinity.
\<close>

definition ilog2 :: "rat \<Rightarrow> int" where
  "ilog2 x = (if 1 \<le> x then bitlen \<lfloor>x\<rfloor> - 1 else - bitlen (\<lceil>1 / x\<rceil> - 1))"

definition quantum :: "rat \<Rightarrow> rat" where
  "quantum x = 2 powi (max (ilog2 \<bar>x\<bar>) (- 1022) - 52)"

definition round_half_even :: "rat \<Rightarrow> int" where
  "round_half_even t =
     (let n = \<lfloor>t\<rfloor>; r = t - of_int n
      in if r < 1 / 2 then n else if 1 / 2 < r then n + 1 else if even n then n else n + 1)"

definition to_double :: "rat \<Rightarrow> jsnum" where
  "to_double x =
     (if x = 0 then Num 0
      else (let y = quantum x * of_int (round_half_even (x / quantum x))
            in if 2 ^ 1024 \<le> \<bar>y\<bar> then (if x < 0 then NegInf else PosInf) else Num y))"

text \<open>
  \<^verbatim>\<open>a + b\<close> and \<^verbatim>\<open>a - b\<close>: the exact sum or difference, rounded. \<^verbatim>\<open>NaN\<close> propagates, and
  so do the infinities, except that \<open>\<infinity> - \<infinity>\<close> is \<^verbatim>\<open>NaN\<close>.
\<close>

fun js_add :: "jsnum \<Rightarrow> jsnum \<Rightarrow> jsnum" where
  "js_add NaN _ = NaN"
| "js_add _ NaN = NaN"
| "js_add (Num x) (Num y) = to_double (x + y)"
| "js_add PosInf NegInf = NaN"
| "js_add NegInf PosInf = NaN"
| "js_add PosInf _ = PosInf"
| "js_add NegInf _ = NegInf"
| "js_add _ PosInf = PosInf"
| "js_add _ NegInf = NegInf"

fun js_sub :: "jsnum \<Rightarrow> jsnum \<Rightarrow> jsnum" where
  "js_sub NaN _ = NaN"
| "js_sub _ NaN = NaN"
| "js_sub (Num x) (Num y) = to_double (x - y)"
| "js_sub PosInf PosInf = NaN"
| "js_sub NegInf NegInf = NaN"
| "js_sub PosInf _ = PosInf"
| "js_sub NegInf _ = NegInf"
| "js_sub _ PosInf = NegInf"
| "js_sub _ NegInf = PosInf"

text \<open>Comparisons with \<^verbatim>\<open>NaN\<close> are false, whichever side it stands on.\<close>

fun js_lt :: "jsnum \<Rightarrow> jsnum \<Rightarrow> bool" where
  "js_lt NaN _ = False"
| "js_lt _ NaN = False"
| "js_lt (Num x) (Num y) = (x < y)"
| "js_lt _ NegInf = False"
| "js_lt NegInf _ = True"
| "js_lt PosInf _ = False"
| "js_lt _ PosInf = True"

fun js_ge :: "jsnum \<Rightarrow> jsnum \<Rightarrow> bool" where
  "js_ge NaN _ = False"
| "js_ge _ NaN = False"
| "js_ge x y = (\<not> js_lt x y)"

text \<open>\<^verbatim>\<open>a !== b\<close> on numbers: \<^verbatim>\<open>NaN\<close> differs from everything, itself included.\<close>

fun js_neq :: "jsnum \<Rightarrow> jsnum \<Rightarrow> bool" where
  "js_neq NaN _ = True"
| "js_neq _ NaN = True"
| "js_neq x y = (x \<noteq> y)"

text \<open>\<^verbatim>\<open>x || 0\<close>: \<^verbatim>\<open>NaN\<close> and \<^verbatim>\<open>0\<close> are falsy.\<close>

fun js_or0 :: "jsnum \<Rightarrow> jsnum" where
  "js_or0 NaN = Num 0"
| "js_or0 x = x"

text \<open>\<^verbatim>\<open>Math.min\<close>.\<close>

fun js_min :: "jsnum \<Rightarrow> jsnum \<Rightarrow> jsnum" where
  "js_min NaN _ = NaN"
| "js_min _ NaN = NaN"
| "js_min x y = (if js_lt y x then y else x)"

section \<open>Amount strings\<close>

text \<open>
  The ledger keeps every amount as a string, reads it with \<^verbatim>\<open>parseFloat\<close> and writes it
  with \<^verbatim>\<open>toFixed(2)\<close>. An amount string is represented by what it spells: \<open>Dec x\<close> is a
  string whose numeric prefix has the exact decimal value \<open>x\<close>, \<open>StrInf\<close> and \<open>StrNegInf\<close>
  are \<^verbatim>\<open>"Infinity"\<close> and \<^verbatim>\<open>"-Infinity"\<close>, and \<open>StrNaN\<close> is a string with no numeric prefix,
  \<^verbatim>\<open>"NaN"\<close> among them. \<^verbatim>\<open>parseFloat\<close> rounds the value spelled to a double.
\<close>

datatype numstr = StrNaN | StrInf | StrNegInf | Dec rat

fun parseFloat :: "numstr \<Rightarrow> jsnum" where
  "parseFloat StrNaN = NaN"
| "parseFloat StrInf = PosInf"
| "parseFloat StrNegInf = NegInf"
| "parseFloat (Dec x) = to_double x"

text \<open>
  \<^verbatim>\<open>Number.prototype.toFixed(2)\<close>, applied to the exact value of the double: the sign is
  set aside and the integer \<open>n\<close> with \<open>n / 100\<close> nearest to the magnitude is chosen, the
  larger one on a tie. From \<open>10\<^sup>2\<^sup>1\<close> on the output is that of \<^verbatim>\<open>toString\<close>, in exponent
  notation, which \<^verbatim>\<open>parseFloat\<close> reads back as the same double; \<open>Dec x\<close> stands for that
  string.
\<close>

definition round2 :: "rat \<Rightarrow> rat" where
  "round2 x = of_int \<lfloor>x * 100 + 1 / 2\<rfloor> / 100"

fun toFixed2 :: "jsnum \<Rightarrow> numstr" where
  "toFixed2 NaN = StrNaN"
| "toFixed2 PosInf = StrInf"
| "toFixed2 NegInf = StrNegInf"
| "toFixed2 (Num x) =
     (if 10 ^ 21 \<le> \<bar>x\<bar> then Dec x
      else if x < 0 then Dec (- round2 (- x)) else Dec (round2 x))"

text \<open>A string that spells a number with at most two decimals: a whole number of hundredths.\<close>

fun two_decimals :: "numstr \<Rightarrow> bool" where
  "two_decimals (Dec x) = (of_int \<lfloor>x * 100\<rfloor> = x * 100)"
| "two_decimals _ = False"

text \<open>\<^verbatim>\<open>Number.prototype.toString\<close> on a natural number: its decimal digits.\<close>

definition digit :: "nat \<Rightarrow> char" where
  "digit n = ''0123456789'' ! n"

fun decimal :: "nat \<Rightarrow> string" where
  "decimal n = (if n < 10 then [digit n] else decimal (n div 10) @ [digit (n mod 10)])"

declare decimal.simps [simp del]

section \<open>Data model (src/db/models.ts)\<close>

record Account =
  acc_username :: string
  acc_address :: string
  encryptedPrivateKey :: string
  acc_timestamp :: int

record Balance =
  bal_username :: string
  bal_blockchain :: string
  bal_currency :: string
  amount :: numstr
  frozenAmount :: numstr

datatype deposit_status = pending | confirming | confirmed | credited | failed

text \<open>
  \<open>retries\<close> is optional in the source and only ever read as \<^verbatim>\<open>deposit.retries || 0\<close>,
  so an absent counter is \<open>0\<close>.
\<close>

record Deposit =
  dep_id :: string
  dep_username :: string
  dep_blockchain :: string
  dep_currency :: string
  dep_amount :: numstr
  dep_txHash :: string
  dep_fromAddress :: string
  dep_toAddress :: string
  dep_status :: deposit_status
  confirmations :: jsnum
  dep_requiredConfirmations :: int
  dep_timestamp :: int
  retries :: nat

datatype withdrawal_status = created | added_to_bucket | processing | completed | wd_failed

record Withdrawal =
  wd_id :: string
  wd_username :: string
  wd_blockchain :: string
  wd_currency :: string
  wd_amount :: numstr
  wd_toAddress :: string
  wd_status :: withdrawal_status
  wd_bucketId :: "string option"
  wd_txHash :: "string option"
  wd_timestamp :: int

record Bucket =
  bk_id :: string
  bk_blockchain :: string
  bk_currency :: string
  createdAt :: int
  expiresAt :: int
  withdrawalIds :: "string list"

text \<open>A cached block; \<open>blockData\<close> is the transaction list the provider returned.\<close>

record Tx =
  tx_hash :: string
  tx_from :: string
  tx_to :: "string option"
  tx_data :: string
  tx_value :: int

record BlockCache =
  bc_id :: string
  bc_blockchain :: string
  blockNumber :: int
  blockData :: "Tx list"
  bc_timestamp :: int
  bc_expiresAt :: int

section \<open>Errors\<close>

text \<open>
  Every \<^verbatim>\<open>throw\<close> of the source is a value. The first four are thrown by the repository's
  own code; \<open>DbError\<close> is a rejection of the LevelDB write and \<open>ChainError\<close> one of the chain
  adapter (RPC, signing, receipt wait, and the errors \<^verbatim>\<open>transferToHotWallet\<close> raises), each
  with the message the \<^verbatim>\<open>catch\<close> blocks inspect.
\<close>

datatype error =
    InsufficientAvailable
  | NegativeAmount
  | NegativeFrozenAmount
  | TypeError
  | DbError string
  | ChainError string

fun message :: "error \<Rightarrow> string" where
  "message InsufficientAvailable = ''Insufficient available balance to freeze''"
| "message NegativeAmount = ''Negative amount not allowed''"
| "message NegativeFrozenAmount = ''Negative frozen amount not allowed''"
| "message TypeError = ''Cannot read properties of undefined''"
| "message (DbError m) = m"
| "message (ChainError m) = m"

text \<open>\<^verbatim>\<open>String.prototype.includes\<close>.\<close>

fun starts_with :: "string \<Rightarrow> string \<Rightarrow> bool" where
  "starts_with s [] = True"
| "starts_with [] (c # cs) = False"
| "starts_with (x # xs) (c # cs) = (x = c \<and> starts_with xs cs)"

fun js_includes :: "string \<Rightarrow> string \<Rightarrow> bool" where
  "js_includes [] sub = (sub = [])"
| "js_includes (x # xs) sub = (starts_with (x # xs) sub \<or> js_includes xs sub)"

section \<open>The store (src/db/leveldb.ts) and the services' in-memory sets\<close>

text \<open>
  The store is a LevelDB behind an LRU cache. Keys are strings, each table under its own
  prefix, so a table is a map from the rest of the key to the record.

  \<^verbatim>\<open>Database.get\<close> returns the cached object itself when there is one, and caches the
  object it read otherwise. \<^verbatim>\<open>processDeposit\<close> then assigns to the fields of that object, so
  a later \<^verbatim>\<open>findById\<close> sees the assignments whether or not they were written;
  \<^verbatim>\<open>processBucket\<close> does the same to withdrawals. For these two tables the model
  therefore keeps both the written records (\<open>deposits\<close>, \<open>withdrawals\<close>) and the cached
  objects (\<open>deposit_cache\<close>, \<open>withdrawal_cache\<close>); expiry of a cache entry during a call
  is not modelled. Accounts, balances, buckets, cached blocks and the block counters are
  never assigned to after a read in the functions below; for them the cache always agrees
  with the written record and one map stands for both.

  A cached block is stored under \<^verbatim>\<open>blockCache:${network}:${blockNumber}\<close>. The number's
  decimal string has no colon, so the key determines the pair and the table is a map on
  pairs. A balance is stored under \<^verbatim>\<open>balance:${username}:${blockchain}:${currency}\<close>, which
  does not determine the triple; that table keeps the string key.

  \<open>pendingQueues\<close> holds a set for every chain and currency of the configuration, which
  are the only keys the queue workers run on, so it is a total function here.

  A write may be rejected by LevelDB. \<open>write_failures\<close> is the environment's schedule for
  the writes to come: \<open>Some m\<close> rejects the next write with message \<open>m\<close>, \<open>None\<close> lets it
  through, and past the end of the schedule every write succeeds. Reads do not fail.
\<close>

record state =
  accounts :: "string \<rightharpoonup> Account"
  balances :: "string \<rightharpoonup> Balance"
  deposits :: "string \<rightharpoonup> Deposit"
  deposit_cache :: "string \<rightharpoonup> Deposit"
  depositStartBlock :: "string \<rightharpoonup> int"
  withdrawals :: "string \<rightharpoonup> Withdrawal"
  withdrawal_cache :: "string \<rightharpoonup> Withdrawal"
  buckets :: "string \<rightharpoonup> Bucket"
  blockCaches :: "string \<times> int \<rightharpoonup> BlockCache"
  lastProcessedBlock :: "string \<rightharpoonup> int"
  activeAddresses :: "string set"
  processedTransactions :: "string set"
  pendingQueues :: "string \<Rightarrow> string set"
  processingBuckets :: "string set"
  write_failures :: "string option list"

definition db_write :: "(state \<Rightarrow> state) \<Rightarrow> state \<Rightarrow> (error + unit) \<times> state" where
  "db_write commit st =
     (case write_failures st of
        [] \<Rightarrow> (Inr (), commit st)
      | None # fs \<Rightarrow> (Inr (), commit (st\<lparr>write_failures := fs\<rparr>))
      | Some m # fs \<Rightarrow> (Inl (DbError m), st\<lparr>write_failures := fs\<rparr>))"

definition init_state :: state where
  "init_state =
     \<lparr>accounts = Map.empty, balances = Map.empty, deposits = Map.empty,
      deposit_cache = Map.empty, depositStartBlock = Map.empty, withdrawals = Map.empty,
      withdrawal_cache = Map.empty,
      buckets = Map.empty, blockCaches = Map.empty, lastProcessedBlock = Map.empty,
      activeAddresses = {}, processedTransactions = {}, pendingQueues = (\<lambda>_. {}),
      processingBuckets = {}, write_failures = []\<rparr>"

section \<open>BalanceModel (src/db/models.ts)\<close>

text \<open>
  Every write under \<^verbatim>\<open>balance:\<close> goes through \<^verbatim>\<open>updateBalance\<close>, which stores both amounts
  as \<^verbatim>\<open>toFixed(2)\<close> strings. The defaults of the form \<^verbatim>\<open>balance.frozenAmount || '0.00'\<close>
  replace a missing or empty string, which no writer produces; they are the identity
  here.
\<close>

definition balance_key :: "string \<Rightarrow> string \<Rightarrow> string \<Rightarrow> string" where
  "balance_key username blockchain currency = username @ '':'' @ blockchain @ '':'' @ currency"

definition getBalance :: "string \<Rightarrow> string \<Rightarrow> string \<Rightarrow> state \<Rightarrow> Balance" where
  "getBalance username blockchain currency st =
     (case balances st (balance_key username blockchain currency) of
        Some balance \<Rightarrow> balance
      | None \<Rightarrow> \<lparr>bal_username = username, bal_blockchain = blockchain,
                 bal_currency = currency, amount = Dec 0, frozenAmount = Dec 0\<rparr>)"

definition updateBalance :: "Balance \<Rightarrow> state \<Rightarrow> (error + unit) \<times> state" where
  "updateBalance balance st =
     (let key = balance_key (bal_username balance) (bal_blockchain balance) (bal_currency balance);
          parsedAmount = parseFloat (amount balance);
          parsedFrozenAmount = parseFloat (frozenAmount balance)
      in if js_lt parsedAmount (Num 0) then (Inl NegativeAmount, st)
         else if js_lt parsedFrozenAmount (Num 0) then (Inl NegativeFrozenAmount, st)
         else db_write
                (\<lambda>s. s\<lparr>balances := (balances s)(key \<mapsto>
                          balance\<lparr>amount := toFixed2 parsedAmount,
                                  frozenAmount := toFixed2 parsedFrozenAmount\<rparr>)\<rparr>)
                st)"

definition freezeBalance ::
  "string \<Rightarrow> string \<Rightarrow> string \<Rightarrow> numstr \<Rightarrow> state \<Rightarrow> (error + unit) \<times> state" where
  "freezeBalance username blockchain currency amountToFreeze st =
     (let balance = getBalance username blockchain currency st;
          available = parseFloat (amount balance);
          frozen = parseFloat (frozenAmount balance);
          amnt = parseFloat amountToFreeze
      in if js_lt available amnt then (Inl InsufficientAvailable, st)
         else updateBalance
                \<lparr>bal_username = username, bal_blockchain = blockchain, bal_currency = currency,
                 amount = toFixed2 (js_sub available amnt),
                 frozenAmount = toFixed2 (js_add frozen amnt)\<rparr>
                st)"

text \<open>The early \<^verbatim>\<open>return\<close> after the warning resolves the promise: it is a success.\<close>

definition unfreezeBalance ::
  "string \<Rightarrow> string \<Rightarrow> string \<Rightarrow> numstr \<Rightarrow> state \<Rightarrow> (error + unit) \<times> state" where
  "unfreezeBalance username blockchain currency amountToUnfreeze st =
     (let balance = getBalance username blockchain currency st;
          frozen = parseFloat (frozenAmount balance);
          amnt = parseFloat amountToUnfreeze
      in if js_lt frozen amnt then (Inr (), st)
         else updateBalance
                \<lparr>bal_username = username, bal_blockchain = blockchain, bal_currency = currency,
                 amount = toFixed2 (js_add (parseFloat (amount balance)) amnt),
                 frozenAmount = toFixed2 (js_sub frozen amnt)\<rparr>
                st)"

section \<open>Configuration (src/config/networks.ts)\<close>

text \<open>The amounts of the configuration are strings; the URLs are left out.\<close>

record TokenConfig =
  tok_address :: string
  tok_decimals :: nat
  tok_min_withdrawal :: numstr
  tok_max_withdrawal :: numstr
  tok_withdrawal_fee :: numstr
  tok_min_deposit :: numstr

record NetworkConfig =
  chainId :: int
  nativeCurrency :: string
  requiredConfirmations :: int
  min_withdrawal :: numstr
  max_withdrawal :: numstr
  withdrawal_fee :: numstr
  min_deposit :: numstr
  withdrawal_processor_contract_address :: string
  erc20Tokens :: "string \<rightharpoonup> TokenConfig"

definition networks :: "string \<rightharpoonup> NetworkConfig" where
  "networks =
     [''mind'' \<mapsto>
        \<lparr>chainId = 9996, nativeCurrency = ''MIND'', requiredConfirmations = 10,
         min_withdrawal = Dec 1, max_withdrawal = Dec 10000, withdrawal_fee = Dec 1,
         min_deposit = Dec (1 / 1000),
         withdrawal_processor_contract_address = ''0xe95b5c7B1bfFe1D1796e58Cb18da7D76100d6020'',
         erc20Tokens =
           [''USDT'' \<mapsto>
              \<lparr>tok_address = ''0x32a8a2052b48Da5FD253cC8B386B88B3E0BF50eE'', tok_decimals = 18,
               tok_min_withdrawal = Dec 1, tok_max_withdrawal = Dec 10000,
               tok_withdrawal_fee = Dec 1, tok_min_deposit = Dec (1 / 1000)\<rparr>,
            ''MUSD'' \<mapsto>
              \<lparr>tok_address = ''0xaC264f337b2780b9fd277cd9C9B2149B43F87904'', tok_decimals = 18,
               tok_min_withdrawal = Dec 1, tok_max_withdrawal = Dec 10000,
               tok_withdrawal_fee = Dec 1, tok_min_deposit = Dec (1 / 1000)\<rparr>]\<rparr>]"

section \<open>The transfer route (POST /send_balance_to_user)\<close>

text \<open>
  The route answers with a status code and a body, \<^verbatim>\<open>{error: ...}\<close> or \<^verbatim>\<open>{message: ...}\<close>. The
  error of the 400 answer is the template
  \<^verbatim>\<open>Insufficient available ${currency} balance (available: ${available}, frozen: ${frozen})\<close>;
  \<open>InsufficientBody currency available frozen\<close> stands for it, with the three values the
  template interpolates.

  The two \<^verbatim>\<open>updateBalance\<close> calls are the elements of one \<^verbatim>\<open>Promise.all\<close>: both are started
  whatever becomes of the other, each checks its record before it writes, and the store
  completes the two puts in an order of its own, the argument \<open>order\<close>; the schedule of
  write failures is consumed in that order. The route answers 500 when either call
  rejects. The broadcasts that follow a success go to the notification sink and change
  nothing here.
\<close>

datatype body =
    ErrorBody string
  | InsufficientBody string jsnum jsnum
  | MessageBody string

datatype response = Response int body

datatype put_order = SenderFirst | RecipientFirst

definition send_balance_to_user ::
  "put_order \<Rightarrow> string \<Rightarrow> string \<Rightarrow> string \<Rightarrow> string \<Rightarrow> numstr \<Rightarrow> state \<Rightarrow>
     response \<times> state" where
  "send_balance_to_user order username recipientUsername blockchain currency amnt st =
     (case accounts st username of
        None \<Rightarrow> (Response 404 (ErrorBody ''Sender not found''), st)
      | Some sender \<Rightarrow>
          (case accounts st recipientUsername of
             None \<Rightarrow> (Response 404 (ErrorBody ''Recipient not found''), st)
           | Some recipient \<Rightarrow>
               (let balance = getBalance username blockchain currency st;
                    available = js_or0 (parseFloat (amount balance));
                    frozen = js_or0 (parseFloat (frozenAmount balance));
                    parsedAmount = parseFloat amnt
                in if js_lt available parsedAmount
                   then (Response 400 (InsufficientBody currency available frozen), st)
                   else
                     (let newBalance =
                            \<lparr>bal_username = username, bal_blockchain = blockchain,
                             bal_currency = currency,
                             amount = toFixed2 (js_sub available parsedAmount),
                             frozenAmount = toFixed2 frozen\<rparr>;
                          recipientBalance = getBalance recipientUsername blockchain currency st;
                          newRecipientBalance =
                            \<lparr>bal_username = recipientUsername, bal_blockchain = blockchain,
                             bal_currency = currency,
                             amount =
                               toFixed2 (js_add (parseFloat (amount recipientBalance)) parsedAmount),
                             frozenAmount =
                               toFixed2 (parseFloat (frozenAmount recipientBalance))\<rparr>;
                          first = (case order of SenderFirst \<Rightarrow> newBalance
                                   | RecipientFirst \<Rightarrow> newRecipientBalance);
                          second = (case order of SenderFirst \<Rightarrow> newRecipientBalance
                                    | RecipientFirst \<Rightarrow> newBalance)
                      in case updateBalance first st of
                           (r1, st1) \<Rightarrow>
                             (case updateBalance second st1 of
                                (r2, st2) \<Rightarrow>
                                  (if isl r1 \<or> isl r2
                                   then (Response 500 (ErrorBody ''Internal server error''), st2)
                                   else (Response 200 (MessageBody ''Transfer successful''),
                                         st2)))))))"

section \<open>WalletService.generateAccount (src/blockchain/wallet.ts)\<close>

text \<open>
  What one call takes from outside the repository. \<open>sha256\<close> is the hex digest of Node's
  \<^verbatim>\<open>createHash('sha256')\<close>. \<open>createRandom\<close> is \<^verbatim>\<open>ethers.Wallet.createRandom\<close> as it answers on
  this call: the library makes a wallet with a random private key from the system's
  entropy source and mixes the \<^verbatim>\<open>extraEntropy\<close> it is given into that; the field maps the
  extra entropy to the address of the wallet made. \<open>new_encryptedPrivateKey\<close> is the
  outcome of \<^verbatim>\<open>encrypt\<close> on that wallet's key, and \<open>wallet_now\<close> is \<^verbatim>\<open>Date.now()\<close>. Two calls
  are two environments.
\<close>

record wallet_env =
  sha256 :: "string \<Rightarrow> string"
  createRandom :: "string \<Rightarrow> string"
  new_encryptedPrivateKey :: "error + string"
  wallet_now :: int

record AccountInfo =
  info_username :: string
  info_address :: string
  info_timestamp :: int

definition lower_char :: "char \<Rightarrow> char" where
  "lower_char c =
     (let n = (of_char c :: nat) in if 65 \<le> n \<and> n \<le> 90 then char_of (n + 32) else c)"

definition toLowerCase :: "string \<Rightarrow> string" where
  "toLowerCase s = map lower_char s"

definition addActiveAddress :: "string \<Rightarrow> state \<Rightarrow> state" where
  "addActiveAddress address st =
     st\<lparr>activeAddresses := insert (toLowerCase address) (activeAddresses st)\<rparr>"

definition generateAccount ::
  "wallet_env \<Rightarrow> string \<Rightarrow> state \<Rightarrow> (error + AccountInfo) \<times> state" where
  "generateAccount env username st =
     (case accounts st username of
        Some existingAccount \<Rightarrow>
          (Inr \<lparr>info_username = acc_username existingAccount,
                info_address = acc_address existingAccount,
                info_timestamp = acc_timestamp existingAccount\<rparr>, st)
      | None \<Rightarrow>
          (let hash = sha256 env username;
               entropy = hash;
               wallet_address = createRandom env entropy
           in case new_encryptedPrivateKey env of
                Inl e \<Rightarrow> (Inl e, st)
              | Inr encrypted \<Rightarrow>
                  (let account =
                         \<lparr>acc_username = username, acc_address = wallet_address,
                          encryptedPrivateKey = encrypted, acc_timestamp = wallet_now env\<rparr>
                   in case db_write (\<lambda>s. s\<lparr>accounts := (accounts s)(username \<mapsto> account)\<rparr>) st of
                        (Inl e, st1) \<Rightarrow> (Inl e, st1)
                      | (Inr _, st1) \<Rightarrow>
                          (Inr \<lparr>info_username = username, info_address = wallet_address,
                                info_timestamp = acc_timestamp account\<rparr>,
                           addActiveAddress wallet_address st1))))"

section \<open>Block ingest and recovery (src/blockchain/indexer.ts)\<close>

text \<open>
  The chain adapter as one tick of a periodic task sees it: the head it reports, the
  block it returns for a number (or the error it raises), and the time.
\<close>

record chain_env =
  getBlockNumber :: "error + int"
  getBlockWithTransactions :: "int \<Rightarrow> error + Tx list"
  chain_now :: int

definition BLOCK_CACHE_TTL_MS :: int where
  "BLOCK_CACHE_TTL_MS = 1000 * 60 * 60"

definition RECOVERY_LOOKBACK_BLOCKS :: int where
  "RECOVERY_LOOKBACK_BLOCKS = 1000"

text \<open>\<^verbatim>\<open>processBlock\<close> catches every error itself.\<close>

definition processBlock :: "chain_env \<Rightarrow> string \<Rightarrow> int \<Rightarrow> state \<Rightarrow> state" where
  "processBlock env network n st =
     (case getBlockWithTransactions env n of
        Inl e \<Rightarrow> st
      | Inr block \<Rightarrow>
          (let blockCache =
                 \<lparr>bc_id = network @ '':'' @ decimal (nat n), bc_blockchain = network,
                  blockNumber = n,
                  blockData = block, bc_timestamp = chain_now env,
                  bc_expiresAt = chain_now env + BLOCK_CACHE_TTL_MS\<rparr>
           in case db_write (\<lambda>s. s\<lparr>blockCaches := (blockCaches s)((network, n) \<mapsto> blockCache)\<rparr>) st of
                (Inl e, st1) \<Rightarrow> st1
              | (Inr _, st1) \<Rightarrow>
                  snd (db_write (\<lambda>s. s\<lparr>lastProcessedBlock := (lastProcessedBlock s)(network \<mapsto> n)\<rparr>)
                         st1)))"

text \<open>
  The loop of \<^verbatim>\<open>startBlockRecovery\<close>, from \<open>i\<close> to the head. It returns, with the state,
  the numbers of the blocks it replayed (those its \<^verbatim>\<open>Recovered block\<close> log lines name).
\<close>

function recover_from ::
  "chain_env \<Rightarrow> string \<Rightarrow> int \<Rightarrow> int \<Rightarrow> state \<Rightarrow> int list \<times> state" where
  "recover_from env network i currentBlock st =
     (if i \<le> currentBlock
      then (if blockCaches st (network, i) = None
            then (case recover_from env network (i + 1) currentBlock (processBlock env network i st) of
                    (replayed, st') \<Rightarrow> (i # replayed, st'))
            else recover_from env network (i + 1) currentBlock st)
      else ([], st))"
  by pat_completeness auto
termination
  by (relation "measure (\<lambda>(env, network, i, currentBlock, st). nat (currentBlock + 1 - i))") auto

text \<open>One tick of the recovery task. An error of \<^verbatim>\<open>getBlockNumber\<close> is caught and logged.\<close>

definition blockRecovery :: "chain_env \<Rightarrow> string \<Rightarrow> state \<Rightarrow> int list \<times> state" where
  "blockRecovery env network st =
     (case getBlockNumber env of
        Inl e \<Rightarrow> ([], st)
      | Inr currentBlock \<Rightarrow>
          (let lastProcessed = (case lastProcessedBlock st network of None \<Rightarrow> 0 | Some n \<Rightarrow> n);
               startBlock = max (lastProcessed - RECOVERY_LOOKBACK_BLOCKS) 0
           in if currentBlock \<le> lastProcessed then ([], st)
              else recover_from env network startBlock currentBlock st))"

section \<open>The deposit worker (IndexerService.processDeposit)\<close>

text \<open>
  What one call sees of the chain: the head \<^verbatim>\<open>getBlockNumber\<close> reports and the outcome of
  \<^verbatim>\<open>TransactionService.transferToHotWallet\<close>, the sweep's transaction hash or the error it
  throws. The sweep talks to the chain only; the note it leaves under \<^verbatim>\<open>gasFundingTx:\<close> is
  not read by the worker and is left out, as are the broadcasts.
\<close>

record deposit_env =
  env_blockNumber :: "error + int"
  env_sweep :: "error + string"

definition MAX_RETRIES :: nat where
  "MAX_RETRIES = 3"

text \<open>
  \<^verbatim>\<open>DepositModel.findById\<close> through the cache: the object returned is the cached one.
\<close>

definition findDeposit :: "string \<Rightarrow> state \<Rightarrow> Deposit option \<times> state" where
  "findDeposit txHash st =
     (case deposit_cache st txHash of
        Some d \<Rightarrow> (Some d, st)
      | None \<Rightarrow>
          (case deposits st txHash of
             Some d \<Rightarrow> (Some d, st\<lparr>deposit_cache := (deposit_cache st)(txHash \<mapsto> d)\<rparr>)
           | None \<Rightarrow> (None, st)))"

text \<open>
  An assignment to a field of the object \<^verbatim>\<open>findById\<close> returned for \<open>txHash\<close>: the cached
  object changes, the written record does not.
\<close>

definition assign_deposit :: "string \<Rightarrow> Deposit \<Rightarrow> state \<Rightarrow> state" where
  "assign_deposit txHash d st = st\<lparr>deposit_cache := (deposit_cache st)(txHash \<mapsto> d)\<rparr>"

text \<open>\<^verbatim>\<open>DepositModel.update\<close>: a put under the deposit's id, which also caches the object.\<close>

definition updateDeposit :: "Deposit \<Rightarrow> state \<Rightarrow> (error + unit) \<times> state" where
  "updateDeposit d st =
     db_write
       (\<lambda>s. s\<lparr>deposits := (deposits s)(dep_id d \<mapsto> d),
               deposit_cache := (deposit_cache s)(dep_id d \<mapsto> d)\<rparr>)
       st"

text \<open>
  The bookkeeping that ends a deposit: \<^verbatim>\<open>queue.delete\<close>, \<^verbatim>\<open>processedTransactions.add\<close>
  and the awaited \<^verbatim>\<open>db.del\<close> of the start block. (\<^verbatim>\<open>cleanupGasFundingTx\<close> is called with the
  deposit's hash, not awaited, and touches only the set of gas-funding hashes.)
\<close>

definition cleanup :: "string \<Rightarrow> string \<Rightarrow> state \<Rightarrow> (error + unit) \<times> state" where
  "cleanup queueKey txHash st =
     db_write
       (\<lambda>s. s\<lparr>depositStartBlock := (depositStartBlock s)(txHash := None)\<rparr>)
       (st\<lparr>pendingQueues := (pendingQueues st)(queueKey := pendingQueues st queueKey - {txHash}),
           processedTransactions := insert txHash (processedTransactions st)\<rparr>)"

definition finishDeposit :: "string \<Rightarrow> string \<Rightarrow> Deposit \<Rightarrow> state \<Rightarrow> (error + unit) \<times> state" where
  "finishDeposit queueKey txHash deposit st =
     (if dep_status deposit = credited \<or> dep_status deposit = failed
      then cleanup queueKey txHash st
      else (Inr (), st))"

text \<open>
  The first branch: store the deposit as confirmed, sweep, then assign \<open>credited\<close>, write
  the new balance and write the deposit. Each step is awaited; a step that throws leaves
  the rest undone.
\<close>

definition creditDeposit ::
  "deposit_env \<Rightarrow> string \<Rightarrow> string \<Rightarrow> Deposit \<Rightarrow> jsnum \<Rightarrow> state \<Rightarrow> (error + unit) \<times> state" where
  "creditDeposit env queueKey txHash deposit confs st =
     (let d1 = deposit\<lparr>dep_status := confirmed, confirmations := confs\<rparr>
      in case updateDeposit d1 (assign_deposit txHash d1 st) of
           (Inl e, st1) \<Rightarrow> (Inl e, st1)
         | (Inr _, st1) \<Rightarrow>
             (case env_sweep env of
                Inl e \<Rightarrow> (Inl e, st1)
              | Inr transferTxHash \<Rightarrow>
                  (let d2 = d1\<lparr>dep_status := credited, retries := 0\<rparr>;
                       st2 = assign_deposit txHash d2 st1;
                       balance = getBalance (dep_username d2) (dep_blockchain d2) (dep_currency d2) st2;
                       currentAmount = js_or0 (parseFloat (amount balance));
                       depositAmount = parseFloat (dep_amount d2);
                       newBalance =
                         \<lparr>bal_username = dep_username d2, bal_blockchain = dep_blockchain d2,
                          bal_currency = dep_currency d2,
                          amount = toFixed2 (js_add currentAmount depositAmount),
                          frozenAmount = toFixed2 (parseFloat (frozenAmount balance))\<rparr>
                   in case updateBalance newBalance st2 of
                        (Inl e, st3) \<Rightarrow> (Inl e, st3)
                      | (Inr _, st3) \<Rightarrow>
                          (case updateDeposit d2 st3 of
                             (Inl e, st4) \<Rightarrow> (Inl e, st4)
                           | (Inr _, st4) \<Rightarrow> finishDeposit queueKey txHash d2 st4))))"

text \<open>The body of the \<^verbatim>\<open>try\<close>. \<open>Inl\<close> is an exception on its way to the \<^verbatim>\<open>catch\<close>.\<close>

definition processDeposit_try ::
  "deposit_env \<Rightarrow> string \<Rightarrow> string \<Rightarrow> string \<Rightarrow> state \<Rightarrow> (error + unit) \<times> state" where
  "processDeposit_try env txHash network currency st =
     (let queueKey = network @ '':'' @ currency
      in case findDeposit txHash st of
           (None, st0) \<Rightarrow> cleanup queueKey txHash st0
         | (Some deposit, st0) \<Rightarrow>
             (case env_blockNumber env of
                Inl e \<Rightarrow> (Inl e, st0)
              | Inr currentBlock \<Rightarrow>
                  (case networks network of
                     None \<Rightarrow> (Inl TypeError, st0)
                   | Some networkConfig \<Rightarrow>
                       (let startBlock =
                              (case depositStartBlock st0 txHash of
                                 None \<Rightarrow> NaN
                               | Some n \<Rightarrow> Num (of_int n));
                            confs = js_add (js_sub (Num (of_int currentBlock)) startBlock) (Num 1);
                            required = Num (of_int (requiredConfirmations networkConfig))
                        in if js_ge confs required \<and> dep_status deposit \<noteq> confirmed
                           then creditDeposit env queueKey txHash deposit confs st0
                           else if js_neq confs (confirmations deposit)
                           then (let d1 = deposit\<lparr>confirmations := js_min confs required,
                                                 dep_status := confirming\<rparr>
                                 in case updateDeposit d1 (assign_deposit txHash d1 st0) of
                                      (Inl e, st1) \<Rightarrow> (Inl e, st1)
                                    | (Inr _, st1) \<Rightarrow> finishDeposit queueKey txHash d1 st1)
                           else finishDeposit queueKey txHash deposit st0))))"

text \<open>
  The \<^verbatim>\<open>catch\<close>. Its \<^verbatim>\<open>findById\<close> returns the cached object, with whatever the \<^verbatim>\<open>try\<close>
  assigned to it before it threw. An error raised here leaves \<^verbatim>\<open>processDeposit\<close>.
\<close>

definition processDeposit_catch ::
  "error \<Rightarrow> string \<Rightarrow> string \<Rightarrow> string \<Rightarrow> state \<Rightarrow> (error + unit) \<times> state" where
  "processDeposit_catch err txHash network currency st =
     (let queueKey = network @ '':'' @ currency
      in case findDeposit txHash st of
           (None, st0) \<Rightarrow> cleanup queueKey txHash st0
         | (Some deposit, st0) \<Rightarrow>
             (if js_includes (message err) ''Insufficient balance'' \<or>
                 js_includes (message err) ''Insufficient funds after gas''
              then (let d1 = deposit\<lparr>dep_status := failed\<rparr>
                    in case updateDeposit d1 (assign_deposit txHash d1 st0) of
                         (Inl e, st1) \<Rightarrow> (Inl e, st1)
                       | (Inr _, st1) \<Rightarrow> cleanup queueKey txHash st1)
              else (let n = retries deposit + 1
                    in if n > MAX_RETRIES
                       then (let d1 = deposit\<lparr>dep_status := failed, retries := n\<rparr>
                             in case updateDeposit d1 (assign_deposit txHash d1 st0) of
                                  (Inl e, st1) \<Rightarrow> (Inl e, st1)
                                | (Inr _, st1) \<Rightarrow> cleanup queueKey txHash st1)
                       else (let d1 = deposit\<lparr>retries := n\<rparr>
                             in updateDeposit d1 (assign_deposit txHash d1 st0)))))"

definition processDeposit ::
  "deposit_env \<Rightarrow> string \<Rightarrow> string \<Rightarrow> string \<Rightarrow> state \<Rightarrow> (error + unit) \<times> state" where
  "processDeposit env txHash network currency st =
     (case processDeposit_try env txHash network currency st of
        (Inr u, st') \<Rightarrow> (Inr u, st')
      | (Inl err, st') \<Rightarrow> processDeposit_catch err txHash network currency st')"

text \<open>
  One turn of the queue worker for one hash: the worker calls \<^verbatim>\<open>processDeposit\<close> for the
  hashes that are in the queue when its tick starts.
\<close>

definition workerVisit ::
  "deposit_env \<Rightarrow> string \<Rightarrow> string \<Rightarrow> string \<Rightarrow> state \<Rightarrow> state" where
  "workerVisit env txHash network currency st =
     (if txHash \<in> pendingQueues st (network @ '':'' @ currency)
      then snd (processDeposit env txHash network currency st)
      else st)"

fun workerVisits ::
  "deposit_env list \<Rightarrow> string \<Rightarrow> string \<Rightarrow> string \<Rightarrow> state \<Rightarrow> state" where
  "workerVisits [] txHash network currency st = st"
| "workerVisits (env # envs) txHash network currency st =
     workerVisits envs txHash network currency (workerVisit env txHash network currency st)"

section \<open>Bucket settlement (BatchProcessorService.processBucket)\<close>

text \<open>
  What one settlement sees of the chain. \<open>env_gasPrice\<close> is \<^verbatim>\<open>provider.getGasPrice\<close>.
  \<open>env_batch\<close> stands for everything between it and the receipt: the hot wallet's balance
  and allowance checks, the approval, the gas estimates, the batch call and \<^verbatim>\<open>tx.wait\<close>.
  None of these touches the store; together they either throw or yield the receipt's
  status and the transaction hash.
\<close>

record bucket_env =
  env_gasPrice :: "error + unit"
  env_batch :: "error + int \<times> string"
  bucket_now :: int

definition BUCKET_DURATION_MS :: int where
  "BUCKET_DURATION_MS = 1 * 60 * 1000"

definition bucket_id :: "string \<Rightarrow> string \<Rightarrow> int \<Rightarrow> string" where
  "bucket_id blockchain currency now =
     blockchain @ '':'' @ currency @ '':'' @ decimal (nat (now div BUCKET_DURATION_MS))"

text \<open>
  \<^verbatim>\<open>ethers.utils.parseUnits\<close> on the amount string of a withdrawal. It reads the digits of
  the string, not a double: it throws on a string that is not made of digits, a sign and
  a point, and on one with more fractional digits than the token has. The amount of a
  withdrawal is the output of \<^verbatim>\<open>toFixed(2)\<close>, which is in exponent notation from \<open>10\<^sup>2\<^sup>1\<close> on,
  and \<^verbatim>\<open>parseUnits\<close> throws on that, as it does on \<^verbatim>\<open>"NaN"\<close> and \<^verbatim>\<open>"Infinity"\<close>.
\<close>

definition parseUnits :: "numstr \<Rightarrow> nat \<Rightarrow> error + int" where
  "parseUnits v d =
     (case v of
        Dec x \<Rightarrow>
          (if 10 ^ 21 \<le> \<bar>x\<bar> then Inl (ChainError ''invalid decimal value'')
           else if of_int \<lfloor>x * 10 ^ d\<rfloor> = x * 10 ^ d then Inr \<lfloor>x * 10 ^ d\<rfloor>
           else Inl (ChainError ''fractional component exceeds decimals''))
      | _ \<Rightarrow> Inl (ChainError ''invalid decimal value''))"

definition findWithdrawal :: "string \<Rightarrow> state \<Rightarrow> Withdrawal option \<times> state" where
  "findWithdrawal wid st =
     (case withdrawal_cache st wid of
        Some w \<Rightarrow> (Some w, st)
      | None \<Rightarrow>
          (case withdrawals st wid of
             Some w \<Rightarrow> (Some w, st\<lparr>withdrawal_cache := (withdrawal_cache st)(wid \<mapsto> w)\<rparr>)
           | None \<Rightarrow> (None, st)))"

fun findWithdrawals :: "string list \<Rightarrow> state \<Rightarrow> Withdrawal option list \<times> state" where
  "findWithdrawals [] st = ([], st)"
| "findWithdrawals (wid # wids) st =
     (case findWithdrawal wid st of
        (w, st1) \<Rightarrow> (case findWithdrawals wids st1 of (ws, st2) \<Rightarrow> (w # ws, st2)))"

text \<open>
  An assignment to a field of a withdrawal object. The object is the cached one; it was
  fetched, and is written, under its own id.
\<close>

definition assign_withdrawal :: "Withdrawal \<Rightarrow> state \<Rightarrow> state" where
  "assign_withdrawal w st = st\<lparr>withdrawal_cache := (withdrawal_cache st)(wd_id w \<mapsto> w)\<rparr>"

definition updateWithdrawal :: "Withdrawal \<Rightarrow> state \<Rightarrow> (error + unit) \<times> state" where
  "updateWithdrawal w st =
     db_write
       (\<lambda>s. s\<lparr>withdrawals := (withdrawals s)(wd_id w \<mapsto> w),
               withdrawal_cache := (withdrawal_cache s)(wd_id w \<mapsto> w)\<rparr>)
       st"

definition updateBucket :: "Bucket \<Rightarrow> state \<Rightarrow> (error + unit) \<times> state" where
  "updateBucket bucket st =
     db_write (\<lambda>s. s\<lparr>buckets := (buckets s)(bk_id bucket \<mapsto> bucket)\<rparr>) st"

definition unitsOf :: "NetworkConfig \<Rightarrow> Withdrawal \<Rightarrow> error + int" where
  "unitsOf networkConfig w =
     (if wd_currency w = nativeCurrency networkConfig then parseUnits (wd_amount w) 18
      else (case erc20Tokens networkConfig (wd_currency w) of
              None \<Rightarrow> Inl TypeError
            | Some token \<Rightarrow> parseUnits (wd_amount w) (tok_decimals token)))"

text \<open>
  The loops over \<^verbatim>\<open>validWithdrawals\<close> return, with the outcome, the withdrawal objects as
  the loop left them: a later loop over the same array sees the fields assigned here.
\<close>

fun markProcessing ::
  "NetworkConfig \<Rightarrow> Withdrawal list \<Rightarrow> state \<Rightarrow> (error + unit) \<times> Withdrawal list \<times> state" where
  "markProcessing networkConfig [] st = (Inr (), [], st)"
| "markProcessing networkConfig (w # ws) st =
     (let w1 = w\<lparr>wd_status := processing\<rparr>
      in case updateWithdrawal w1 (assign_withdrawal w1 st) of
           (Inl e, st1) \<Rightarrow> (Inl e, w1 # ws, st1)
         | (Inr _, st1) \<Rightarrow>
             (case unitsOf networkConfig w1 of
                Inl e \<Rightarrow> (Inl e, w1 # ws, st1)
              | Inr units \<Rightarrow>
                  (case markProcessing networkConfig ws st1 of
                     (r, ws', st2) \<Rightarrow> (r, w1 # ws', st2))))"

text \<open>
  After a receipt with status 1: the frozen amount is reduced by the amount and the fee
  (the settle), and the withdrawal is written as completed, the two writes in one
  \<^verbatim>\<open>Promise.all\<close>.
\<close>

definition settleWithdrawal ::
  "string \<Rightarrow> jsnum \<Rightarrow> Withdrawal \<Rightarrow> state \<Rightarrow> (error + unit) \<times> Withdrawal \<times> state" where
  "settleWithdrawal txHash fee w st =
     (let totalReserved = js_add (parseFloat (wd_amount w)) fee;
          w1 = w\<lparr>wd_status := completed, wd_txHash := Some txHash\<rparr>;
          st0 = assign_withdrawal w1 st;
          balance = getBalance (wd_username w1) (wd_blockchain w1) (wd_currency w1) st0;
          newBalance =
            \<lparr>bal_username = wd_username w1, bal_blockchain = wd_blockchain w1,
             bal_currency = wd_currency w1,
             amount = toFixed2 (parseFloat (amount balance)),
             frozenAmount = toFixed2 (js_sub (parseFloat (frozenAmount balance)) totalReserved)\<rparr>
      in case updateBalance newBalance st0 of
           (r1, st1) \<Rightarrow>
             (case updateWithdrawal w1 st1 of
                (r2, st2) \<Rightarrow>
                  (case r1 of
                     Inl e \<Rightarrow> (Inl e, w1, st2)
                   | Inr _ \<Rightarrow> (case r2 of Inl e \<Rightarrow> (Inl e, w1, st2) | Inr _ \<Rightarrow> (Inr (), w1, st2)))))"

text \<open>
  The other branch of the receipt loop and the body of the \<^verbatim>\<open>catch\<close> loop are the same
  statements: mark the withdrawal failed, unfreeze the amount and the fee, write it.
\<close>

definition failWithdrawal ::
  "jsnum \<Rightarrow> Withdrawal \<Rightarrow> state \<Rightarrow> (error + unit) \<times> Withdrawal \<times> state" where
  "failWithdrawal fee w st =
     (let totalReserved = js_add (parseFloat (wd_amount w)) fee;
          w1 = w\<lparr>wd_status := wd_failed\<rparr>;
          st0 = assign_withdrawal w1 st
      in case unfreezeBalance (wd_username w1) (wd_blockchain w1) (wd_currency w1)
                (toFixed2 totalReserved) st0 of
           (Inl e, st1) \<Rightarrow> (Inl e, w1, st1)
         | (Inr _, st1) \<Rightarrow>
             (case updateWithdrawal w1 st1 of
                (Inl e, st2) \<Rightarrow> (Inl e, w1, st2)
              | (Inr _, st2) \<Rightarrow> (Inr (), w1, st2)))"

fun receiptLoop ::
  "int \<Rightarrow> string \<Rightarrow> jsnum \<Rightarrow> Withdrawal list \<Rightarrow> state \<Rightarrow>
     (error + unit) \<times> Withdrawal list \<times> state" where
  "receiptLoop status txHash fee [] st = (Inr (), [], st)"
| "receiptLoop status txHash fee (w # ws) st =
     (case (if status = 1 then settleWithdrawal txHash fee w st else failWithdrawal fee w st) of
        (Inl e, w1, st1) \<Rightarrow> (Inl e, w1 # ws, st1)
      | (Inr _, w1, st1) \<Rightarrow>
          (case receiptLoop status txHash fee ws st1 of
             (r, ws', st2) \<Rightarrow> (r, w1 # ws', st2)))"

fun catchLoop ::
  "jsnum \<Rightarrow> Withdrawal list \<Rightarrow> state \<Rightarrow> (error + unit) \<times> Withdrawal list \<times> state" where
  "catchLoop fee [] st = (Inr (), [], st)"
| "catchLoop fee (w # ws) st =
     (case failWithdrawal fee w st of
        (Inl e, w1, st1) \<Rightarrow> (Inl e, w1 # ws, st1)
      | (Inr _, w1, st1) \<Rightarrow>
          (case catchLoop fee ws st1 of
             (r, ws', st2) \<Rightarrow> (r, w1 # ws', st2)))"

text \<open>
  The inner \<^verbatim>\<open>try\<close>, its \<^verbatim>\<open>catch\<close>, which fails and unfreezes every valid withdrawal and
  throws the error on, and its \<^verbatim>\<open>finally\<close>, which empties the bucket and opens the bucket
  of the current window when that is another one.
\<close>

definition settleBucket ::
  "bucket_env \<Rightarrow> NetworkConfig \<Rightarrow> string \<Rightarrow> Bucket \<Rightarrow> Withdrawal list \<Rightarrow> state \<Rightarrow>
     (error + unit) \<times> state" where
  "settleBucket env networkConfig bucketId bucket validWithdrawals st =
     (let fee = parseFloat (withdrawal_fee networkConfig);
          tried =
            (case env_batch env of
               Inl err \<Rightarrow> (Inl err, validWithdrawals, st)
             | Inr (status, txHash) \<Rightarrow> receiptLoop status txHash fee validWithdrawals st);
          caught =
            (case tried of
               (Inr u, ws, st1) \<Rightarrow> (Inr u, st1)
             | (Inl err, ws, st1) \<Rightarrow>
                 (case catchLoop fee ws st1 of
                    (Inl e, ws', st2) \<Rightarrow> (Inl e, st2)
                  | (Inr _, ws', st2) \<Rightarrow> (Inl err, st2)));
          newBucketId = bucket_id (bk_blockchain bucket) (bk_currency bucket) (bucket_now env)
      in case updateBucket (bucket\<lparr>withdrawalIds := []\<rparr>) (snd caught) of
           (Inl e, st3) \<Rightarrow> (Inl e, st3)
         | (Inr _, st3) \<Rightarrow>
             (if newBucketId \<noteq> bucketId
              then (case updateBucket
                           \<lparr>bk_id = newBucketId, bk_blockchain = bk_blockchain bucket,
                            bk_currency = bk_currency bucket, createdAt = bucket_now env,
                            expiresAt = bucket_now env + BUCKET_DURATION_MS,
                            withdrawalIds = []\<rparr> st3 of
                      (Inl e, st4) \<Rightarrow> (Inl e, st4)
                    | (Inr _, st4) \<Rightarrow> (fst caught, st4))
              else (fst caught, st3)))"

text \<open>The body of the outer \<^verbatim>\<open>try\<close>; the outer \<^verbatim>\<open>catch\<close> only logs what it returns.\<close>

definition processBucket_try ::
  "bucket_env \<Rightarrow> string \<Rightarrow> state \<Rightarrow> (error + unit) \<times> state" where
  "processBucket_try env bucketId st =
     (case buckets st bucketId of
        None \<Rightarrow> (Inr (), st)
      | Some bucket \<Rightarrow>
          (case findWithdrawals (withdrawalIds bucket) st of
             (found, st0) \<Rightarrow>
               (let validWithdrawals =
                      filter (\<lambda>w. wd_status w = added_to_bucket)
                        (concat (map (\<lambda>w. case w of None \<Rightarrow> [] | Some x \<Rightarrow> [x]) found))
                in if validWithdrawals = []
                   then updateBucket (bucket\<lparr>withdrawalIds := []\<rparr>) st0
                   else (case networks (bk_blockchain bucket) of
                           None \<Rightarrow> (Inl TypeError, st0)
                         | Some networkConfig \<Rightarrow>
                             (case markProcessing networkConfig validWithdrawals st0 of
                                (Inl e, ws, st1) \<Rightarrow> (Inl e, st1)
                              | (Inr _, ws, st1) \<Rightarrow>
                                  (case env_gasPrice env of
                                     Inl e \<Rightarrow> (Inl e, st1)
                                   | Inr _ \<Rightarrow>
                                       settleBucket env networkConfig bucketId bucket ws st1))))))"

definition processBucket :: "bucket_env \<Rightarrow> string \<Rightarrow> state \<Rightarrow> state" where
  "processBucket env bucketId st =
     (if bucketId \<in> processingBuckets st then st
      else (case processBucket_try env bucketId
                   (st\<lparr>processingBuckets := insert bucketId (processingBuckets st)\<rparr>) of
              (r, st') \<Rightarrow> st'\<lparr>processingBuckets := processingBuckets st' - {bucketId}\<rparr>))"

section \<open>Predicates of the statements\<close>

text \<open>
  An amount in the range where the ledger's arithmetic is exact: at most two decimals,
  not negative and at most \<open>10\<^sup>1\<^sup>3\<close>.
\<close>

fun ledger_amount :: "numstr \<Rightarrow> bool" where
  "ledger_amount (Dec x) = (of_int \<lfloor>x * 100\<rfloor> = x * 100 \<and> 0 \<le> x \<and> x \<le> 10 ^ 13)"
| "ledger_amount _ = False"

text \<open>Two versions of one deposit: the fields the worker never assigns to agree.\<close>

definition same_deposit :: "Deposit \<Rightarrow> Deposit \<Rightarrow> bool" where
  "same_deposit d d' =
     (dep_id d' = dep_id d \<and> dep_username d' = dep_username d \<and>
      dep_blockchain d' = dep_blockchain d \<and> dep_currency d' = dep_currency d \<and>
      dep_amount d' = dep_amount d)"

text \<open>
  Between two calls of the worker the cache holds nothing for the deposit or the record
  as written.
\<close>

definition cache_coherent :: "string \<Rightarrow> state \<Rightarrow> bool" where
  "cache_coherent txHash st =
     (deposit_cache st txHash = None \<or> deposit_cache st txHash = deposits st txHash)"

text \<open>
  The balance record \<^verbatim>\<open>processDeposit\<close> writes when it credits deposit \<open>d\<close> in state \<open>st\<close>:
  the sum and the frozen amount are printed by \<^verbatim>\<open>processDeposit\<close> and read and printed
  again by \<^verbatim>\<open>updateBalance\<close>.
\<close>

definition credited_balance :: "Deposit \<Rightarrow> state \<Rightarrow> Balance" where
  "credited_balance d st =
     (let balance = getBalance (dep_username d) (dep_blockchain d) (dep_currency d) st
      in \<lparr>bal_username = dep_username d, bal_blockchain = dep_blockchain d,
          bal_currency = dep_currency d,
          amount =
            toFixed2 (parseFloat (toFixed2
              (js_add (js_or0 (parseFloat (amount balance))) (parseFloat (dep_amount d))))),
          frozenAmount =
            toFixed2 (parseFloat (toFixed2 (parseFloat (frozenAmount balance))))\<rparr>)"

text \<open>
  What holds of a state \<open>st\<close> reached from \<open>st0\<close> by visits of the worker to one deposit
  when no write fails: the balances are those of \<open>st0\<close>, or they are those of \<open>st0\<close> with
  the one credited record, the deposit is stored credited and it has left the queue.
\<close>

definition visit_inv :: "string \<Rightarrow> string \<Rightarrow> Deposit \<Rightarrow> state \<Rightarrow> state \<Rightarrow> bool" where
  "visit_inv txHash queueKey d st0 st =
     (write_failures st = [] \<and> cache_coherent txHash st \<and>
      (\<exists>d'. deposits st txHash = Some d' \<and> same_deposit d d' \<and>
            (balances st = balances st0 \<or>
             balances st =
               (balances st0)(balance_key (dep_username d) (dep_blockchain d) (dep_currency d) \<mapsto>
                  credited_balance d st0) \<and>
             dep_status d' = credited \<and> txHash \<notin> pendingQueues st queueKey)))"

section \<open>Example states\<close>

text \<open>One balance record, of alice on chain mind in MIND, and nothing else.\<close>

definition ledger_with :: "numstr \<Rightarrow> numstr \<Rightarrow> state" where
  "ledger_with a f =
     init_state\<lparr>balances :=
       [balance_key ''alice'' ''mind'' ''MIND'' \<mapsto>
          \<lparr>bal_username = ''alice'', bal_blockchain = ''mind'', bal_currency = ''MIND'',
           amount = a, frozenAmount = f\<rparr>]\<rparr>"

text \<open>
  Two accounts, alice with an available balance and bob with none, and a schedule of
  write failures.
\<close>

definition two_users :: "numstr \<Rightarrow> string option list \<Rightarrow> state" where
  "two_users a failures =
     init_state\<lparr>accounts :=
         [''alice'' \<mapsto> \<lparr>acc_username = ''alice'', acc_address = ''0xA1'',
                        encryptedPrivateKey = ''iv:key1'', acc_timestamp = 1\<rparr>,
          ''bob'' \<mapsto> \<lparr>acc_username = ''bob'', acc_address = ''0xB2'',
                      encryptedPrivateKey = ''iv:key2'', acc_timestamp = 2\<rparr>],
       balances :=
         [balance_key ''alice'' ''mind'' ''MIND'' \<mapsto>
            \<lparr>bal_username = ''alice'', bal_blockchain = ''mind'', bal_currency = ''MIND'',
             amount = a, frozenAmount = Dec 0\<rparr>],
       write_failures := failures\<rparr>"

text \<open>
  A call on which \<^verbatim>\<open>createRandom\<close> makes the wallet at the given address, whatever the extra
  entropy; the digest is a stand-in that returns its input.
\<close>

definition wallet_run :: "string \<Rightarrow> wallet_env" where
  "wallet_run address =
     \<lparr>sha256 = (\<lambda>s. s), createRandom = (\<lambda>entropy. address),
      new_encryptedPrivateKey = Inr ''iv:key3'', wallet_now = 3\<rparr>"

text \<open>A chain whose head is \<open>n\<close> and whose blocks are empty; a store that ingested up to \<open>n\<close>
  and whose block processor has since scanned and deleted every cached block.\<close>

definition chain_at :: "int \<Rightarrow> chain_env" where
  "chain_at n = \<lparr>getBlockNumber = Inr n, getBlockWithTransactions = (\<lambda>i. Inr []), chain_now = 0\<rparr>"

definition ingested_to :: "int \<Rightarrow> state" where
  "ingested_to n = init_state\<lparr>lastProcessedBlock := [''mind'' \<mapsto> n]\<rparr>"

text \<open>
  A native deposit of 5.00 MIND to alice, first seen in block 100, queued for the worker
  of mind and MIND; a chain at head \<open>n\<close> on which the sweep succeeds, and one on which it
  times out.
\<close>

definition deposit_T1 :: "deposit_status \<Rightarrow> jsnum \<Rightarrow> nat \<Rightarrow> Deposit" where
  "deposit_T1 s c r =
     \<lparr>dep_id = ''0xT1'', dep_username = ''alice'', dep_blockchain = ''mind'',
      dep_currency = ''MIND'', dep_amount = Dec 5, dep_txHash = ''0xT1'',
      dep_fromAddress = ''0xB0'', dep_toAddress = ''0xA1'', dep_status = s,
      confirmations = c, dep_requiredConfirmations = 10, dep_timestamp = 0, retries = r\<rparr>"

definition indexer_with :: "Deposit \<Rightarrow> string option list \<Rightarrow> state" where
  "indexer_with d failures =
     init_state\<lparr>deposits := [''0xT1'' \<mapsto> d],
       depositStartBlock := [''0xT1'' \<mapsto> 100],
       pendingQueues := (\<lambda>_. {})(''mind:MIND'' := {''0xT1''}),
       write_failures := failures\<rparr>"

definition chain_sweeps :: "int \<Rightarrow> deposit_env" where
  "chain_sweeps n = \<lparr>env_blockNumber = Inr n, env_sweep = Inr ''0xSWEEP''\<rparr>"

definition chain_sweep_fails :: "int \<Rightarrow> deposit_env" where
  "chain_sweep_fails n =
     \<lparr>env_blockNumber = Inr n, env_sweep = Inl (ChainError ''timeout'')\<rparr>"

text \<open>
  Withdrawals of 50.00 USDT by alice in the bucket of window 1, with the reserved amounts
  frozen; a settlement during which \<^verbatim>\<open>getGasPrice\<close> fails, and one whose batch succeeds.
\<close>

definition withdrawal_50 :: "string \<Rightarrow> Withdrawal" where
  "withdrawal_50 wid =
     \<lparr>wd_id = wid, wd_username = ''alice'', wd_blockchain = ''mind'', wd_currency = ''USDT'',
      wd_amount = Dec 50, wd_toAddress = ''0xD4'', wd_status = added_to_bucket,
      wd_bucketId = Some ''mind:USDT:1'', wd_txHash = None, wd_timestamp = 0\<rparr>"

definition bucket_state :: "string list \<Rightarrow> numstr \<Rightarrow> string option list \<Rightarrow> state" where
  "bucket_state wids f failures =
     init_state\<lparr>buckets :=
         [''mind:USDT:1'' \<mapsto>
            \<lparr>bk_id = ''mind:USDT:1'', bk_blockchain = ''mind'', bk_currency = ''USDT'',
             createdAt = 60000, expiresAt = 120000, withdrawalIds = wids\<rparr>],
       withdrawals := [''w1'' \<mapsto> withdrawal_50 ''w1'', ''w2'' \<mapsto> withdrawal_50 ''w2''],
       balances :=
         [balance_key ''alice'' ''mind'' ''USDT'' \<mapsto>
            \<lparr>bal_username = ''alice'', bal_blockchain = ''mind'', bal_currency = ''USDT'',
             amount = Dec 0, frozenAmount = f\<rparr>],
       write_failures := failures\<rparr>"

definition gas_price_fails :: bucket_env where
  "gas_price_fails =
     \<lparr>env_gasPrice = Inl (ChainError ''timeout''), env_batch = Inr (1, ''0xBATCH''),
      bucket_now = 119000\<rparr>"

definition batch_succeeds :: bucket_env where
  "batch_succeeds =
     \<lparr>env_gasPrice = Inr (), env_batch = Inr (1, ''0xBATCH''), bucket_now = 119000\<rparr>"

section \<open>Facts about the numbers\<close>

lemma floor_rat_numeral_div [simp]:
  "\<lfloor>(numeral a :: rat) / numeral b\<rfloor> = numeral a div numeral b"
  by (metis floor_divide_of_int_eq of_int_numeral)

lemma floor_rat_one_div [simp]:
  "\<lfloor>(1 :: rat) / numeral b\<rfloor> = 1 div numeral b"
  by (metis floor_divide_of_int_eq of_int_1 of_int_numeral)

subsection \<open>Rounding to a double\<close>

lemma ilog2_bounds:
  assumes "0 < x"
  shows "2 powi (ilog2 x) \<le> x \<and> x < 2 powi (ilog2 x + 1)"
proof (cases "1 \<le> x")
  case True
  define n where "n = \<lfloor>x\<rfloor>"
  have n: "1 \<le> n" using True n_def by linarith
  then have b: "2 ^ nat (bitlen n - 1) \<le> n" "n < 2 ^ nat (bitlen n)"
    using bitlen_bounds [of n] by auto
  have pos: "1 \<le> bitlen n" using n b(2)
    by (smt (verit) bitlen_def bitlen_nonneg nat_0_iff power_0)
  have "(2::rat) ^ nat (bitlen n - 1) \<le> of_int n"
    using b(1) by (metis of_int_le_iff of_int_numeral of_int_power)
  also have "\<dots> \<le> x" using n_def by simp
  finally have lo: "(2::rat) ^ nat (bitlen n - 1) \<le> x" .
  have "n + 1 \<le> 2 ^ nat (bitlen n)" using b(2) by simp
  then have "of_int (n + 1) \<le> (2::rat) ^ nat (bitlen n)"
    by (metis of_int_le_iff of_int_numeral of_int_power)
  moreover have "x < of_int (n + 1)" using n_def by linarith
  ultimately have hi: "x < (2::rat) ^ nat (bitlen n)" by linarith
  have e: "ilog2 x = bitlen n - 1" using True n_def by (simp add: ilog2_def)
  show ?thesis using lo hi pos by (simp add: e power_int_def)
next
  case False
  define y where "y = 1 / x"
  define m where "m = \<lceil>y\<rceil> - 1"
  have y: "1 < y" using False assms y_def by simp
  have m: "1 \<le> m" using y m_def by linarith
  then have b: "2 ^ nat (bitlen m - 1) \<le> m" "m < 2 ^ nat (bitlen m)"
    using bitlen_bounds [of m] by auto
  have pos: "1 \<le> bitlen m" using m b(2)
    by (smt (verit) bitlen_def bitlen_nonneg nat_0_iff power_0)
  have "m + 1 \<le> 2 ^ nat (bitlen m)" using b(2) by simp
  then have "of_int (m + 1) \<le> (2::rat) ^ nat (bitlen m)"
    by (metis of_int_le_iff of_int_numeral of_int_power)
  moreover have "y \<le> of_int (m + 1)" using m_def by simp
  ultimately have yle: "y \<le> (2::rat) ^ nat (bitlen m)" by linarith
  have "(2::rat) ^ nat (bitlen m - 1) \<le> of_int m"
    using b(1) by (metis of_int_le_iff of_int_numeral of_int_power)
  moreover have "of_int m < y" using m_def by linarith
  ultimately have ygt: "(2::rat) ^ nat (bitlen m - 1) < y" by linarith
  have e: "ilog2 x = - bitlen m" using False m_def y_def by (simp add: ilog2_def)
  have x: "x = 1 / y" using y_def by simp
  have lo: "1 / (2::rat) ^ nat (bitlen m) \<le> x"
    unfolding x using yle y by (simp add: frac_le)
  have hi: "x < 1 / (2::rat) ^ nat (bitlen m - 1)"
    unfolding x using ygt y by (simp add: frac_less2)
  show ?thesis
  proof (cases "bitlen m = 1")
    case True
    then show ?thesis using lo hi by (simp add: e power_int_def)
  next
    case F: False
    then have "2 \<le> bitlen m" using pos by simp
    then have "nat (bitlen m - 1) = nat (bitlen m) - 1" "\<not> 0 \<le> - bitlen m + 1" by simp_all
    then show ?thesis using lo hi pos
      by (simp add: e power_int_def inverse_eq_divide power_one_over nat_diff_distrib)
  qed
qed


lemma round_half_even_error: "\<bar>of_int (round_half_even t) - t\<bar> \<le> 1 / 2"
proof -
  have f: "of_int \<lfloor>t\<rfloor> \<le> t" "t < of_int \<lfloor>t\<rfloor> + 1" by linarith+
  consider "t - of_int \<lfloor>t\<rfloor> < 1 / 2" | "1 / 2 < t - of_int \<lfloor>t\<rfloor>" | "t - of_int \<lfloor>t\<rfloor> = 1 / 2"
    by linarith
  then show ?thesis
  proof cases
    case 1
    then have "round_half_even t = \<lfloor>t\<rfloor>" by (simp add: round_half_even_def)
    then show ?thesis using 1 f by simp
  next
    case 2
    then have "round_half_even t = \<lfloor>t\<rfloor> + 1" by (simp add: round_half_even_def)
    then show ?thesis using 2 f by simp
  next
    case 3
    then have "round_half_even t = \<lfloor>t\<rfloor> \<or> round_half_even t = \<lfloor>t\<rfloor> + 1"
      by (simp add: round_half_even_def Let_def)
    then show ?thesis using 3 f by auto
  qed
qed

lemma round_half_even_of_int [simp]: "round_half_even (of_int k) = k"
  by (simp add: round_half_even_def)

lemma round_half_even_nonneg: "0 \<le> t \<Longrightarrow> 0 \<le> round_half_even t"
proof -
  assume "0 \<le> t"
  then have "0 \<le> \<lfloor>t\<rfloor>" by simp
  then show ?thesis by (simp add: round_half_even_def Let_def)
qed

lemma quantum_pos: "0 < quantum x"
  by (simp add: quantum_def)

lemma quantum_le:
  assumes "x \<noteq> 0"
  shows "quantum x \<le> \<bar>x\<bar> / 2 ^ 52 + 1 / 2 ^ 1074"
proof (cases "- 1022 \<le> ilog2 \<bar>x\<bar>")
  case True
  then have "quantum x = 2 powi (ilog2 \<bar>x\<bar> - 52)" by (simp add: quantum_def max_def)
  also have "\<dots> = 2 powi (ilog2 \<bar>x\<bar>) / 2 ^ 52"
    by (simp add: power_int_diff)
  also have "\<dots> \<le> \<bar>x\<bar> / 2 ^ 52"
    using ilog2_bounds [of "\<bar>x\<bar>"] assms by (simp add: divide_right_mono)
  finally have "quantum x \<le> \<bar>x\<bar> / 2 ^ 52" .
  moreover have "(0::rat) \<le> 1 / 2 ^ 1074" by simp
  ultimately show ?thesis by linarith
next
  case False
  then have "quantum x = 2 powi (- 1074)" by (simp add: quantum_def max_def)
  also have "\<dots> = 1 / 2 ^ 1074" by (simp add: power_int_def inverse_eq_divide power_one_over)
  finally have "quantum x = 1 / 2 ^ 1074" .
  moreover have "0 \<le> \<bar>x\<bar> / 2 ^ 52" by simp
  ultimately show ?thesis by linarith
qed

lemma to_double_error:
  assumes "\<bar>x\<bar> < 2 ^ 1023"
  shows "\<exists>y. to_double x = Num y \<and> \<bar>y - x\<bar> \<le> \<bar>x\<bar> / 2 ^ 53 + 1 / 2 ^ 1075"
proof (cases "x = 0")
  case True
  then show ?thesis by (simp add: to_double_def)
next
  case False
  define q where "q = quantum x"
  define k where "k = round_half_even (x / q)"
  define y where "y = q * of_int k"
  have q: "0 < q" by (simp add: q_def quantum_pos)
  have "y - x = q * (of_int k - x / q)"
    using q by (simp add: y_def right_diff_distrib)
  then have "\<bar>y - x\<bar> = q * \<bar>of_int k - x / q\<bar>"
    using q by (simp add: abs_mult)
  also have "\<dots> \<le> q * (1 / 2)"
    using round_half_even_error [of "x / q"] q unfolding k_def
    by (intro mult_left_mono) simp_all
  finally have e1: "\<bar>y - x\<bar> \<le> q / 2" by simp
  have "q \<le> \<bar>x\<bar> / 2 ^ 52 + 1 / 2 ^ 1074"
    using quantum_le [OF False] by (simp add: q_def)
  then have "q / 2 \<le> (\<bar>x\<bar> / 2 ^ 52 + 1 / 2 ^ 1074) / 2" by simp
  also have "\<dots> = \<bar>x\<bar> / 2 ^ 53 + 1 / 2 ^ 1075" by (simp add: add_divide_distrib)
  finally have e2: "\<bar>y - x\<bar> \<le> \<bar>x\<bar> / 2 ^ 53 + 1 / 2 ^ 1075" using e1 by linarith
  have "\<bar>x\<bar> / 2 ^ 53 \<le> \<bar>x\<bar> / 2" by (simp add: divide_le_eq)
  moreover have "(1::rat) / 2 ^ 1075 \<le> 1" by simp
  moreover have "(1::rat) + 2 ^ 1023 / 2 + 2 ^ 1023 \<le> 2 ^ 1024" by simp
  ultimately have "\<bar>y - x\<bar> + \<bar>x\<bar> < 2 ^ 1024" using e2 assms by linarith
  then have "\<bar>y\<bar> < 2 ^ 1024" by linarith
  then have "to_double x = Num y"
    using False by (simp add: to_double_def y_def k_def q_def Let_def)
  then show ?thesis using e2 by blast
qed


lemma to_double_dyadic:
  assumes n: "\<bar>n\<bar> < 2 ^ 53" and j: "- 1074 \<le> j" "j \<le> 970"
  shows "to_double (of_int n * 2 powi j) = Num (of_int n * 2 powi j)"
proof (cases "n = 0")
  case True
  then show ?thesis by (simp add: to_double_def)
next
  case False
  define x :: rat where "x = of_int n * 2 powi j"
  have x0: "x \<noteq> 0" using False by (simp add: x_def)
  have absx: "\<bar>x\<bar> = of_int \<bar>n\<bar> * 2 powi j" by (simp add: x_def abs_mult power_int_abs)
  have "(of_int \<bar>n\<bar> :: rat) < of_int (2 ^ 53)" using n by (simp only: of_int_less_iff)
  then have "(of_int \<bar>n\<bar> :: rat) < 2 ^ 53" by simp
  then have "\<bar>x\<bar> < 2 ^ 53 * 2 powi j"
    unfolding absx by (intro mult_strict_right_mono) simp_all
  also have "\<dots> = 2 powi (53 + j)" by (simp add: power_int_add)
  finally have hi: "\<bar>x\<bar> < 2 powi (53 + j)" .
  define e where "e = ilog2 \<bar>x\<bar>"
  have "2 powi e \<le> \<bar>x\<bar>" using ilog2_bounds [of "\<bar>x\<bar>"] x0 by (simp add: e_def)
  then have "(2::rat) powi e < 2 powi (53 + j)" using hi by linarith
  then have "e < 53 + j"
    using power_int_increasing [of "53 + j" e "2::rat"] by (cases "e < 53 + j") auto
  define m where "m = max e (- 1022)"
  have m: "m \<le> 52 + j" using \<open>e < 53 + j\<close> j by (simp add: m_def)
  define d where "d = nat (j - m + 52)"
  have q: "quantum x = 2 powi (m - 52)" by (simp add: quantum_def m_def e_def)
  have "x / quantum x = x / 2 powi (m - 52)" by (simp only: q)
  also have "\<dots> = of_int n * (2 powi j / 2 powi (m - 52))" by (simp add: x_def)
  also have "2 powi j / 2 powi (m - 52) = (2::rat) powi (j - (m - 52))"
    by (simp add: power_int_diff)
  also have "\<dots> = 2 ^ d" using m by (simp add: d_def power_int_def)
  finally have "x / quantum x = of_int (n * 2 ^ d)" by simp
  then have r: "round_half_even (x / quantum x) = n * 2 ^ d"
    by (simp only: round_half_even_of_int)
  have "(2::rat) ^ d = 2 powi (j - (m - 52))" using m by (simp add: d_def power_int_def)
  then have "quantum x * of_int (n * 2 ^ d) = of_int n * (2 powi (m - 52) * 2 powi (j - (m - 52)))"
    by (simp only: q of_int_mult of_int_power of_int_numeral mult_ac)
  also have "2 powi (m - 52) * 2 powi (j - (m - 52)) = (2::rat) powi j"
    by (simp flip: power_int_add)
  finally have "quantum x * of_int (n * 2 ^ d) = x" by (simp only: x_def)
  then have y: "quantum x * of_int (round_half_even (x / quantum x)) = x"
    by (simp only: r)
  have "(2::rat) powi (53 + j) \<le> 2 powi 1023"
    using j by (intro power_int_increasing) simp_all
  then have "\<bar>x\<bar> < 2 ^ 1024" using hi by simp
  then show ?thesis using x0 y unfolding x_def [symmetric] by (simp add: to_double_def Let_def)
qed

lemma to_double_of_int: "\<bar>n\<bar> < 2 ^ 53 \<Longrightarrow> to_double (of_int n) = Num (of_int n)"
  using to_double_dyadic [of n 0] by simp

lemma to_double_numeral [simp]:
  "numeral w < (2 ^ 53 :: int) \<Longrightarrow> to_double (numeral w) = Num (numeral w)"
  using to_double_of_int [of "numeral w"] by simp

lemma to_double_neg_numeral [simp]:
  "numeral w < (2 ^ 53 :: int) \<Longrightarrow> to_double (- numeral w) = Num (- numeral w)"
  using to_double_of_int [of "- numeral w"] by simp

lemma to_double_0 [simp]: "to_double 0 = Num 0"
  by (simp add: to_double_def)

lemma to_double_1 [simp]: "to_double 1 = Num 1"
  using to_double_of_int [of 1] by simp

lemma to_double_minus_1 [simp]: "to_double (- 1) = Num (- 1)"
  using to_double_of_int [of "- 1"] by simp

text \<open>
  How a double is checked: \<open>x\<close> lies in the binade of \<open>e\<close> and \<open>n\<close> is the multiple of the
  spacing strictly nearest to it.
\<close>

lemma round_half_even_eqI:
  assumes "\<bar>of_int n - t\<bar> < 1 / 2"
  shows "round_half_even t = n"
proof (cases "of_int n \<le> t")
  case True
  then have "\<lfloor>t\<rfloor> = n" using assms by linarith
  then show ?thesis using assms True by (simp add: round_half_even_def)
next
  case False
  then have f: "\<lfloor>t\<rfloor> = n - 1" using assms by linarith
  then have "1 / 2 < t - of_int \<lfloor>t\<rfloor>" using assms False by simp
  then have "round_half_even t = \<lfloor>t\<rfloor> + 1" by (simp add: round_half_even_def)
  then show ?thesis using f by simp
qed

lemma ilog2_eqI:
  assumes "2 powi e \<le> x" and "x < 2 powi (e + 1)"
  shows "ilog2 x = e"
proof -
  have "0 < (2::rat) powi e" by simp
  then have "0 < x" using assms(1) by linarith
  from ilog2_bounds [OF this]
  have b: "2 powi (ilog2 x) \<le> x" "x < 2 powi (ilog2 x + 1)" by simp_all
  have "(2::rat) powi e < 2 powi (ilog2 x + 1)" using assms(1) b(2) by linarith
  then have "e < ilog2 x + 1"
    using power_int_increasing [of "ilog2 x + 1" e "2::rat"] by (cases "e < ilog2 x + 1") auto
  moreover have "(2::rat) powi (ilog2 x) < 2 powi (e + 1)" using assms(2) b(1) by linarith
  then have "ilog2 x < e + 1"
    using power_int_increasing [of "e + 1" "ilog2 x" "2::rat"] by (cases "ilog2 x < e + 1") auto
  ultimately show ?thesis by simp
qed

lemma to_double_eqI:
  assumes lo: "2 powi e \<le> \<bar>x\<bar>" and hi: "\<bar>x\<bar> < 2 powi (e + 1)"
    and range: "- 1022 \<le> e" "e \<le> 1022"
    and n: "\<bar>of_int n * 2 powi (e - 52) - x\<bar> < 2 powi (e - 52) / 2"
  shows "to_double x = Num (of_int n * 2 powi (e - 52))"
proof -
  define q :: rat where "q = 2 powi (e - 52)"
  have q: "0 < q" by (simp add: q_def)
  have "0 < (2::rat) powi e" by simp
  then have "0 < \<bar>x\<bar>" using lo by linarith
  then have x0: "x \<noteq> 0" by simp
  have "ilog2 \<bar>x\<bar> = e" using lo hi by (rule ilog2_eqI)
  then have qx: "quantum x = q" using range by (simp add: quantum_def q_def max_def)
  have "of_int n - x / q = (of_int n * q - x) / q" using q by (simp add: diff_divide_distrib)
  then have "\<bar>of_int n - x / q\<bar> = \<bar>of_int n * q - x\<bar> / q" using q by (simp add: abs_divide)
  also have "\<dots> < (q / 2) / q"
    using n q unfolding q_def [symmetric] by (intro divide_strict_right_mono) simp_all
  finally have "\<bar>of_int n - x / q\<bar> < 1 / 2" using q by simp
  then have r: "round_half_even (x / q) = n" by (rule round_half_even_eqI)
  define B :: rat where "B = 2 ^ 1023"
  have "(2::rat) powi (e + 1) \<le> 2 powi 1023" using range by (intro power_int_increasing) simp_all
  then have b1: "\<bar>x\<bar> < B" using hi by (simp add: B_def)
  have "q \<le> 2 powi 970"
    unfolding q_def using range by (intro power_int_increasing) simp_all
  then have b2: "q / 2 \<le> B" by (simp add: B_def)
  have b3: "\<bar>of_int n * q - x\<bar> < q / 2" using n by (simp only: q_def)
  have "\<bar>of_int n * q\<bar> < 2 * B" using b1 b2 b3 by linarith
  then have small: "\<not> 2 ^ 1024 \<le> \<bar>q * of_int n\<bar>" by (simp add: B_def mult.commute)
  have y: "quantum x * of_int (round_half_even (x / quantum x)) = q * of_int n"
    by (simp only: qx r)
  have "to_double x = Num (q * of_int n)"
    using x0 small unfolding to_double_def Let_def y by simp
  then show ?thesis by (simp add: q_def mult.commute)
qed

subsection \<open>Two decimals\<close>

lemma two_decimals_iff: "two_decimals v \<longleftrightarrow> (\<exists>k. v = Dec (of_int k / 100))"
proof (cases v)
  case (Dec x)
  show ?thesis
  proof
    assume "two_decimals v"
    then have "of_int \<lfloor>x * 100\<rfloor> = x * 100"
      using Dec by (simp only: two_decimals.simps)
    then have "x = of_int \<lfloor>x * 100\<rfloor> / 100" by linarith
    then show "\<exists>k. v = Dec (of_int k / 100)" using Dec by blast
  next
    assume "\<exists>k. v = Dec (of_int k / 100)"
    then obtain k where "x = of_int k / 100" using Dec by auto
    then have "x * 100 = of_int k" by simp
    then have "of_int \<lfloor>x * 100\<rfloor> = x * 100" by simp
    then show "two_decimals v" using Dec by (simp only: two_decimals.simps)
  qed
qed simp_all

text \<open>A double within half a hundredth of \<open>k / 100\<close> is printed as \<open>k / 100\<close>.\<close>

lemma toFixed2_near:
  assumes near: "\<bar>y - of_int k / 100\<bar> < 1 / 200" and small: "\<bar>y\<bar> < 10 ^ 21"
  shows "toFixed2 (Num y) = Dec (of_int k / 100)"
proof (cases "y < 0")
  case False
  have "of_int k \<le> y * 100 + 1 / 2" "y * 100 + 1 / 2 < of_int k + 1"
    using near by linarith+
  then have "\<lfloor>y * 100 + 1 / 2\<rfloor> = k" by linarith
  then show ?thesis using False small by (simp add: round2_def)
next
  case True
  have "- of_int k \<le> - y * 100 + 1 / 2" "- y * 100 + 1 / 2 < - of_int k + 1"
    using near by linarith+
  then have "of_int (- k) \<le> - y * 100 + 1 / 2" "- y * 100 + 1 / 2 < of_int (- k) + 1"
    by simp_all
  then have "\<lfloor>- y * 100 + 1 / 2\<rfloor> = - k" by (rule floor_unique)
  then show ?thesis using True small by (simp add: round2_def)
qed

text \<open>
  The rounding error of a double of magnitude at most \<open>10\<^sup>1\<^sup>3\<close>, and of one at most
  \<open>2 \<sqdot> 10\<^sup>1\<^sup>3 + 1\<close>.
\<close>

lemma powers_of_ten:
  "(10 :: rat) ^ 13 = 10000000000000" "(10 :: rat) ^ 21 = 1000000000000000000000"
  by simp_all

lemma to_double_near:
  assumes "\<bar>x\<bar> \<le> 10 ^ 13"
  shows "\<exists>y. to_double x = Num y \<and> \<bar>y - x\<bar> \<le> 112 / 100000"
proof -
  have "\<bar>x\<bar> < 2 ^ 1023" using assms by simp
  from to_double_error [OF this] obtain y
    where y: "to_double x = Num y" "\<bar>y - x\<bar> \<le> \<bar>x\<bar> / 2 ^ 53 + 1 / 2 ^ 1075"
    by blast
  have "\<bar>x\<bar> / 2 ^ 53 \<le> 10 ^ 13 / 2 ^ 53" using assms by (simp add: divide_right_mono)
  moreover have "(10 ^ 13 / 2 ^ 53 + 1 / 2 ^ 1075 :: rat) \<le> 112 / 100000" by simp
  ultimately have "\<bar>y - x\<bar> \<le> 112 / 100000" using y(2) by linarith
  with y(1) show ?thesis by blast
qed

lemma to_double_near2:
  assumes "\<bar>x\<bar> \<le> 2 * 10 ^ 13 + 1"
  shows "\<exists>y. to_double x = Num y \<and> \<bar>y - x\<bar> \<le> 223 / 100000"
proof -
  have "\<bar>x\<bar> < 2 ^ 1023" using assms by simp
  from to_double_error [OF this] obtain y
    where y: "to_double x = Num y" "\<bar>y - x\<bar> \<le> \<bar>x\<bar> / 2 ^ 53 + 1 / 2 ^ 1075"
    by blast
  have "\<bar>x\<bar> / 2 ^ 53 \<le> (2 * 10 ^ 13 + 1) / 2 ^ 53" using assms by (simp add: divide_right_mono)
  moreover have "((2 * 10 ^ 13 + 1) / 2 ^ 53 + 1 / 2 ^ 1075 :: rat) \<le> 223 / 100000" by simp
  ultimately have "\<bar>y - x\<bar> \<le> 223 / 100000" using y(2) by linarith
  with y(1) show ?thesis by blast
qed

text \<open>
  Reading a string of hundredths and printing it again gives the string back, up to
  \<open>2 \<sqdot> 10\<^sup>1\<^sup>3\<close>.
\<close>

lemma toFixed2_parseFloat:
  assumes "\<bar>of_int k / 100 :: rat\<bar> \<le> 2 * 10 ^ 13"
  shows "toFixed2 (parseFloat (Dec (of_int k / 100))) = Dec (of_int k / 100)"
proof -
  from to_double_near2 [of "of_int k / 100"] assms obtain y
    where y: "to_double (of_int k / 100) = Num y" "\<bar>y - of_int k / 100\<bar> \<le> 223 / 100000"
    by auto
  have "\<bar>y\<bar> < 10 ^ 21" using y(2) assms unfolding powers_of_ten by linarith
  moreover have "\<bar>y - of_int k / 100\<bar> < 1 / 200" using y(2) by linarith
  ultimately show ?thesis using toFixed2_near [of y k] y(1) by (simp del: toFixed2.simps)
qed

text \<open>
  On strings of hundredths of magnitude at most \<open>10\<^sup>1\<^sup>3\<close> the comparison, the sum and the
  difference of the doubles, printed with two decimals, are those of the decimals.
\<close>

lemma js_lt_hundredths:
  assumes "\<bar>of_int k / 100 :: rat\<bar> \<le> 10 ^ 13" and "\<bar>of_int l / 100 :: rat\<bar> \<le> 10 ^ 13"
  shows "js_lt (parseFloat (Dec (of_int k / 100))) (parseFloat (Dec (of_int l / 100))) \<longleftrightarrow>
         k < l"
proof -
  from to_double_near [OF assms(1)] obtain a
    where a: "to_double (of_int k / 100) = Num a" "\<bar>a - of_int k / 100\<bar> \<le> 112 / 100000"
    by blast
  from to_double_near [OF assms(2)] obtain b
    where b: "to_double (of_int l / 100) = Num b" "\<bar>b - of_int l / 100\<bar> \<le> 112 / 100000"
    by blast
  have "a < b \<longleftrightarrow> k < l"
  proof
    assume "a < b"
    then have "(of_int k :: rat) < of_int l + 1" using a(2) b(2) by linarith
    then have "k < l + 1" by (metis of_int_1 of_int_add of_int_less_iff)
    moreover have "k \<noteq> l" using \<open>a < b\<close> a(1) b(1) by auto
    ultimately show "k < l" by simp
  next
    assume "k < l"
    then have "k + 1 \<le> l" by simp
    then have "(of_int k :: rat) + 1 \<le> of_int l" by (metis of_int_1 of_int_add of_int_le_iff)
    then show "a < b" using a(2) b(2) by linarith
  qed
  then show ?thesis using a(1) b(1) by simp
qed

lemma js_sub_hundredths:
  assumes "\<bar>of_int k / 100 :: rat\<bar> \<le> 10 ^ 13" and "\<bar>of_int l / 100 :: rat\<bar> \<le> 10 ^ 13"
  shows "toFixed2 (js_sub (parseFloat (Dec (of_int k / 100))) (parseFloat (Dec (of_int l / 100)))) =
         Dec (of_int (k - l) / 100)"
proof -
  from to_double_near [OF assms(1)] obtain a
    where a: "to_double (of_int k / 100) = Num a" "\<bar>a - of_int k / 100\<bar> \<le> 112 / 100000"
    by blast
  from to_double_near [OF assms(2)] obtain b
    where b: "to_double (of_int l / 100) = Num b" "\<bar>b - of_int l / 100\<bar> \<le> 112 / 100000"
    by blast
  have "\<bar>a - b\<bar> \<le> 2 * 10 ^ 13 + 1" using a(2) b(2) assms unfolding powers_of_ten by linarith
  from to_double_near2 [OF this] obtain c
    where c: "to_double (a - b) = Num c" "\<bar>c - (a - b)\<bar> \<le> 223 / 100000"
    by blast
  have "\<bar>c - (of_int k / 100 - of_int l / 100)\<bar> < 1 / 200" using a(2) b(2) c(2) by linarith
  then have near: "\<bar>c - of_int (k - l) / 100\<bar> < 1 / 200" by (simp add: diff_divide_distrib)
  have "\<bar>c\<bar> < 10 ^ 21" using a(2) b(2) c(2) assms unfolding powers_of_ten by linarith
  from toFixed2_near [OF near this] show ?thesis
    using a(1) b(1) c(1) by (simp del: toFixed2.simps)
qed

lemma js_add_hundredths:
  assumes "\<bar>of_int k / 100 :: rat\<bar> \<le> 10 ^ 13" and "\<bar>of_int l / 100 :: rat\<bar> \<le> 10 ^ 13"
  shows "toFixed2 (js_add (parseFloat (Dec (of_int k / 100))) (parseFloat (Dec (of_int l / 100)))) =
         Dec (of_int (k + l) / 100)"
proof -
  from to_double_near [OF assms(1)] obtain a
    where a: "to_double (of_int k / 100) = Num a" "\<bar>a - of_int k / 100\<bar> \<le> 112 / 100000"
    by blast
  from to_double_near [OF assms(2)] obtain b
    where b: "to_double (of_int l / 100) = Num b" "\<bar>b - of_int l / 100\<bar> \<le> 112 / 100000"
    by blast
  have "\<bar>a + b\<bar> \<le> 2 * 10 ^ 13 + 1" using a(2) b(2) assms unfolding powers_of_ten by linarith
  from to_double_near2 [OF this] obtain c
    where c: "to_double (a + b) = Num c" "\<bar>c - (a + b)\<bar> \<le> 223 / 100000"
    by blast
  have "\<bar>c - (of_int k / 100 + of_int l / 100)\<bar> < 1 / 200" using a(2) b(2) c(2) by linarith
  then have near: "\<bar>c - of_int (k + l) / 100\<bar> < 1 / 200" by (simp add: add_divide_distrib)
  have "\<bar>c\<bar> < 10 ^ 21" using a(2) b(2) c(2) assms unfolding powers_of_ten by linarith
  from toFixed2_near [OF near this] show ?thesis
    using a(1) b(1) c(1) by (simp del: toFixed2.simps)
qed

text \<open>A double that is not negative is printed as a string that is not negative.\<close>

lemma to_double_nonneg:
  assumes "0 \<le> x"
  shows "to_double x = PosInf \<or> (\<exists>y. to_double x = Num y \<and> 0 \<le> y)"
proof (cases "x = 0")
  case True
  then show ?thesis by simp
next
  case False
  have "0 \<le> x / quantum x" using assms quantum_pos [of x] by simp
  then have "0 \<le> quantum x * of_int (round_half_even (x / quantum x))"
    using round_half_even_nonneg quantum_pos [of x] by simp
  then show ?thesis using False assms by (simp add: to_double_def Let_def)
qed

lemma round2_nonneg: "0 \<le> x \<Longrightarrow> 0 \<le> round2 x"
proof -
  assume "0 \<le> x"
  then have "0 \<le> \<lfloor>x * 100 + 1 / 2\<rfloor>" by simp
  then show ?thesis by (simp add: round2_def)
qed

lemma toFixed2_nonneg:
  assumes "v \<noteq> NaN" and "\<not> js_lt v (Num 0)"
  shows "js_ge (parseFloat (toFixed2 v)) (Num 0)"
proof (cases v)
  case (Num x)
  then have x: "0 \<le> x" using assms by simp
  then obtain z where z: "toFixed2 v = Dec z" "0 \<le> z"
    using Num round2_nonneg [of x] by (cases "10 ^ 21 \<le> \<bar>x\<bar>") auto
  from to_double_nonneg [OF z(2)] show ?thesis using z(1) by auto
qed (use assms in simp_all)

section \<open>The ledger: updateBalance, freezeBalance, unfreezeBalance\<close>

lemma getBalance_ledger_with [simp]:
  "getBalance ''alice'' ''mind'' ''MIND'' (ledger_with a f) =
     \<lparr>bal_username = ''alice'', bal_blockchain = ''mind'', bal_currency = ''MIND'',
      amount = a, frozenAmount = f\<rparr>"
  by (simp add: getBalance_def ledger_with_def)

text \<open>
  \<^verbatim>\<open>updateBalance\<close> either throws and leaves the balances as they were, or writes the one
  record it was given, each amount read and printed with two decimals.
\<close>

lemma updateBalance_cases:
  "updateBalance balance st = (r, st') \<Longrightarrow>
     (\<exists>e. r = Inl e \<and> e \<noteq> InsufficientAvailable \<and> balances st' = balances st) \<or>
     (r = Inr () \<and>
      balances st' =
        (balances st)(balance_key (bal_username balance) (bal_blockchain balance)
                        (bal_currency balance) \<mapsto>
           balance\<lparr>amount := toFixed2 (parseFloat (amount balance)),
                   frozenAmount := toFixed2 (parseFloat (frozenAmount balance))\<rparr>))"
  by (auto simp: updateBalance_def db_write_def Let_def
      split: if_splits list.splits option.splits)

text \<open>
  The guard of \<^verbatim>\<open>updateBalance\<close>: an update whose available or frozen amount is negative
  throws and leaves the state as it was.
\<close>

theorem updateBalance_rejects_negative:
  "js_lt (parseFloat (amount balance)) (Num 0) \<or>
   js_lt (parseFloat (frozenAmount balance)) (Num 0) \<Longrightarrow>
   updateBalance balance st = (Inl NegativeAmount, st) \<or>
   updateBalance balance st = (Inl NegativeFrozenAmount, st)"
  by (auto simp: updateBalance_def Let_def)

theorem updateBalance_rejects_negative_witness:
  "js_lt (parseFloat (amount \<lparr>bal_username = ''alice'', bal_blockchain = ''mind'',
                  bal_currency = ''MIND'', amount = Dec (- 1), frozenAmount = Dec 0\<rparr>)) (Num 0) \<and>
   updateBalance \<lparr>bal_username = ''alice'', bal_blockchain = ''mind'', bal_currency = ''MIND'',
                  amount = Dec (- 1), frozenAmount = Dec 0\<rparr> (ledger_with (Dec 5) (Dec 0)) =
     (Inl NegativeAmount, ledger_with (Dec 5) (Dec 0))"
proof -
  let ?b = "\<lparr>bal_username = ''alice'', bal_blockchain = ''mind'', bal_currency = ''MIND'',
             amount = Dec (- 1), frozenAmount = Dec 0\<rparr>"
  have neg: "js_lt (parseFloat (amount ?b)) (Num 0)" by simp
  then have "js_lt (parseFloat (amount ?b)) (Num 0) \<or>
             js_lt (parseFloat (frozenAmount ?b)) (Num 0)" by simp
  from updateBalance_rejects_negative [OF this, of "ledger_with (Dec 5) (Dec 0)"] neg
  show ?thesis by (simp add: updateBalance_def)
qed

text \<open>
  A record that \<^verbatim>\<open>updateBalance\<close> commits from amounts that are numbers has available and
  frozen \<open>\<ge> 0\<close>.
\<close>

theorem updateBalance_commits_nonnegative:
  assumes "parseFloat (amount balance) \<noteq> NaN" and "parseFloat (frozenAmount balance) \<noteq> NaN"
    and "updateBalance balance st = (Inr (), st')"
  shows "\<exists>b. balances st' (balance_key (bal_username balance) (bal_blockchain balance)
                  (bal_currency balance)) = Some b \<and>
             js_ge (parseFloat (amount b)) (Num 0) \<and>
             js_ge (parseFloat (frozenAmount b)) (Num 0)"
proof -
  from assms(3) have pos: "\<not> js_lt (parseFloat (amount balance)) (Num 0)"
    "\<not> js_lt (parseFloat (frozenAmount balance)) (Num 0)"
    by (auto simp: updateBalance_def Let_def split: if_splits)
  from updateBalance_cases [OF assms(3)]
  have "balances st' (balance_key (bal_username balance) (bal_blockchain balance)
          (bal_currency balance)) =
        Some (balance\<lparr>amount := toFixed2 (parseFloat (amount balance)),
                      frozenAmount := toFixed2 (parseFloat (frozenAmount balance))\<rparr>)"
    by auto
  moreover have "js_ge (parseFloat (toFixed2 (parseFloat (amount balance)))) (Num 0)"
    "js_ge (parseFloat (toFixed2 (parseFloat (frozenAmount balance)))) (Num 0)"
    using pos assms(1,2) by (simp_all add: toFixed2_nonneg)
  ultimately show ?thesis by simp
qed

theorem updateBalance_commits_nonnegative_witness:
  "parseFloat (amount \<lparr>bal_username = ''alice'', bal_blockchain = ''mind'',
           bal_currency = ''MIND'', amount = Dec 7, frozenAmount = Dec 0\<rparr>) \<noteq> NaN \<and>
   parseFloat (frozenAmount \<lparr>bal_username = ''alice'', bal_blockchain = ''mind'',
           bal_currency = ''MIND'', amount = Dec 7, frozenAmount = Dec 0\<rparr>) \<noteq> NaN \<and>
   fst (updateBalance \<lparr>bal_username = ''alice'', bal_blockchain = ''mind'',
           bal_currency = ''MIND'', amount = Dec 7, frozenAmount = Dec 0\<rparr> init_state) = Inr () \<and>
   (\<exists>b. balances (snd (updateBalance \<lparr>bal_username = ''alice'', bal_blockchain = ''mind'',
            bal_currency = ''MIND'', amount = Dec 7, frozenAmount = Dec 0\<rparr> init_state))
           (balance_key ''alice'' ''mind'' ''MIND'') = Some b \<and>
        js_ge (parseFloat (amount b)) (Num 0) \<and> js_ge (parseFloat (frozenAmount b)) (Num 0))"
proof -
  let ?b = "\<lparr>bal_username = ''alice'', bal_blockchain = ''mind'', bal_currency = ''MIND'',
             amount = Dec 7, frozenAmount = Dec 0\<rparr>"
  have ok: "fst (updateBalance ?b init_state) = Inr ()"
    by (simp add: updateBalance_def db_write_def init_state_def)
  then have run: "updateBalance ?b init_state = (Inr (), snd (updateBalance ?b init_state))"
    by (metis prod.collapse)
  have n1: "parseFloat (amount ?b) \<noteq> NaN" and n2: "parseFloat (frozenAmount ?b) \<noteq> NaN"
    by simp_all
  from updateBalance_commits_nonnegative [OF n1 n2 run] ok n1 n2 show ?thesis by simp
qed

text \<open>
  Claim C3, at the input where the code departs from it. On the zero balance,
  \<^verbatim>\<open>freezeBalance\<close> with an amount string that is not a number (\<^verbatim>\<open>parseFloat\<close> gives
  \<^verbatim>\<open>NaN\<close>) passes the check \<^verbatim>\<open>available < amount\<close> and both checks of \<^verbatim>\<open>updateBalance\<close>,
  which compare with \<^verbatim>\<open><\<close> only; the record is written with available and frozen
  \<^verbatim>\<open>"NaN"\<close>, and \<^verbatim>\<open>NaN\<close> is not \<open>\<ge> 0\<close>. The transfer route does not check its amount either:
  such an amount is answered with 200 and both parties' available balances are written
  as \<^verbatim>\<open>"NaN"\<close>.
\<close>

theorem freezeBalance_NaN_committed:
  "fst (freezeBalance ''alice'' ''mind'' ''MIND'' StrNaN init_state) = Inr () \<and>
   getBalance ''alice'' ''mind'' ''MIND''
     (snd (freezeBalance ''alice'' ''mind'' ''MIND'' StrNaN init_state)) =
     \<lparr>bal_username = ''alice'', bal_blockchain = ''mind'', bal_currency = ''MIND'',
      amount = StrNaN, frozenAmount = StrNaN\<rparr> \<and>
   \<not> js_ge (parseFloat StrNaN) (Num 0) \<and>
   fst (send_balance_to_user SenderFirst ''alice'' ''bob'' ''mind'' ''MIND'' StrNaN
          (two_users (Dec 10) [])) =
     Response 200 (MessageBody ''Transfer successful'') \<and>
   amount (getBalance ''alice'' ''mind'' ''MIND''
     (snd (send_balance_to_user SenderFirst ''alice'' ''bob'' ''mind'' ''MIND'' StrNaN
             (two_users (Dec 10) [])))) = StrNaN \<and>
   amount (getBalance ''bob'' ''mind'' ''MIND''
     (snd (send_balance_to_user SenderFirst ''alice'' ''bob'' ''mind'' ''MIND'' StrNaN
             (two_users (Dec 10) [])))) = StrNaN"
  by (simp add: freezeBalance_def send_balance_to_user_def updateBalance_def db_write_def
      init_state_def two_users_def getBalance_def balance_key_def Let_def round2_def)

text \<open>What \<^verbatim>\<open>freezeBalance\<close> does, in one equation.\<close>

lemma freezeBalance_unfold:
  "freezeBalance username blockchain currency a st =
     (if js_lt (parseFloat (amount (getBalance username blockchain currency st))) (parseFloat a)
      then (Inl InsufficientAvailable, st)
      else updateBalance
             \<lparr>bal_username = username, bal_blockchain = blockchain, bal_currency = currency,
              amount = toFixed2 (js_sub (parseFloat (amount (getBalance username blockchain
                           currency st))) (parseFloat a)),
              frozenAmount = toFixed2 (js_add (parseFloat (frozenAmount (getBalance username
                           blockchain currency st))) (parseFloat a))\<rparr> st)"
  by (simp add: freezeBalance_def Let_def)

lemma freezeBalance_general:
  "(fst (freezeBalance username blockchain currency a st) = Inl InsufficientAvailable \<longleftrightarrow>
      js_lt (parseFloat (amount (getBalance username blockchain currency st))) (parseFloat a)) \<and>
   (\<forall>e. fst (freezeBalance username blockchain currency a st) = Inl e \<longrightarrow>
      balances (snd (freezeBalance username blockchain currency a st)) = balances st) \<and>
   (fst (freezeBalance username blockchain currency a st) = Inr () \<longrightarrow>
      amount (getBalance username blockchain currency
                (snd (freezeBalance username blockchain currency a st))) =
        toFixed2 (parseFloat (toFixed2
          (js_sub (parseFloat (amount (getBalance username blockchain currency st)))
             (parseFloat a)))) \<and>
      frozenAmount (getBalance username blockchain currency
                (snd (freezeBalance username blockchain currency a st))) =
        toFixed2 (parseFloat (toFixed2
          (js_add (parseFloat (frozenAmount (getBalance username blockchain currency st)))
             (parseFloat a)))))"
proof -
  let ?b = "getBalance username blockchain currency st"
  let ?new = "\<lparr>bal_username = username, bal_blockchain = blockchain, bal_currency = currency,
                 amount = toFixed2 (js_sub (parseFloat (amount ?b)) (parseFloat a)),
                 frozenAmount = toFixed2 (js_add (parseFloat (frozenAmount ?b)) (parseFloat a))\<rparr>"
  show ?thesis
  proof (cases "js_lt (parseFloat (amount ?b)) (parseFloat a)")
    case True
    then show ?thesis by (simp add: freezeBalance_unfold)
  next
    case False
    then have eq: "freezeBalance username blockchain currency a st = updateBalance ?new st"
      by (simp add: freezeBalance_unfold)
    obtain r st' where u: "updateBalance ?new st = (r, st')"
      by (cases "updateBalance ?new st")
    from updateBalance_cases [OF u] show ?thesis
    proof
      assume "\<exists>e. r = Inl e \<and> e \<noteq> InsufficientAvailable \<and> balances st' = balances st"
      then show ?thesis using False eq u by auto
    next
      assume ok: "r = Inr () \<and>
        balances st' =
          (balances st)(balance_key (bal_username ?new) (bal_blockchain ?new)
                          (bal_currency ?new) \<mapsto>
             ?new\<lparr>amount := toFixed2 (parseFloat (amount ?new)),
                   frozenAmount := toFixed2 (parseFloat (frozenAmount ?new))\<rparr>)"
      then have a': "amount (getBalance username blockchain currency st') =
            toFixed2 (parseFloat (toFixed2 (js_sub (parseFloat (amount ?b)) (parseFloat a))))"
        and f': "frozenAmount (getBalance username blockchain currency st') =
            toFixed2 (parseFloat (toFixed2 (js_add (parseFloat (frozenAmount ?b)) (parseFloat a))))"
        by (simp_all add: getBalance_def)
      show ?thesis
        using False eq u ok a' f' by (auto simp del: toFixed2.simps parseFloat.simps)
    qed
  qed
qed

text \<open>
  Claim C4, amended. \<^verbatim>\<open>freezeBalance\<close> fails with the insufficient-available error exactly
  when the available balance, read as a double, is less than the amount read as a double;
  whenever it fails the stored balances are unchanged; when it succeeds the stored
  available is the difference of the two doubles and the stored frozen the sum, each
  printed with two decimals by \<^verbatim>\<open>toFixed(2)\<close>, read and printed again. When the stored
  amounts and the amount asked for have at most two decimals and are at most \<open>10\<^sup>1\<^sup>3\<close> in
  magnitude, this is exact: the call fails with that error exactly when available is
  less than the amount, and a call that succeeds moves exactly the amount.
\<close>

theorem freezeBalance_effect:
  "(fst (freezeBalance username blockchain currency a st) = Inl InsufficientAvailable \<longleftrightarrow>
      js_lt (parseFloat (amount (getBalance username blockchain currency st))) (parseFloat a)) \<and>
   (\<forall>e. fst (freezeBalance username blockchain currency a st) = Inl e \<longrightarrow>
      balances (snd (freezeBalance username blockchain currency a st)) = balances st) \<and>
   (fst (freezeBalance username blockchain currency a st) = Inr () \<longrightarrow>
      amount (getBalance username blockchain currency
                (snd (freezeBalance username blockchain currency a st))) =
        toFixed2 (parseFloat (toFixed2
          (js_sub (parseFloat (amount (getBalance username blockchain currency st)))
             (parseFloat a)))) \<and>
      frozenAmount (getBalance username blockchain currency
                (snd (freezeBalance username blockchain currency a st))) =
        toFixed2 (parseFloat (toFixed2
          (js_add (parseFloat (frozenAmount (getBalance username blockchain currency st)))
             (parseFloat a))))) \<and>
   (\<forall>x f v.
      amount (getBalance username blockchain currency st) = Dec x \<and>
      frozenAmount (getBalance username blockchain currency st) = Dec f \<and> a = Dec v \<and>
      two_decimals (Dec x) \<and> two_decimals (Dec f) \<and> two_decimals (Dec v) \<and>
      \<bar>x\<bar> \<le> 10 ^ 13 \<and> \<bar>f\<bar> \<le> 10 ^ 13 \<and> \<bar>v\<bar> \<le> 10 ^ 13 \<longrightarrow>
      (fst (freezeBalance username blockchain currency a st) = Inl InsufficientAvailable \<longleftrightarrow>
         x < v) \<and>
      (fst (freezeBalance username blockchain currency a st) = Inr () \<longrightarrow>
         amount (getBalance username blockchain currency
                   (snd (freezeBalance username blockchain currency a st))) = Dec (x - v) \<and>
         frozenAmount (getBalance username blockchain currency
                   (snd (freezeBalance username blockchain currency a st))) = Dec (f + v)))"
proof -
  note general = freezeBalance_general [of username blockchain currency a st]
  have exact: "(fst (freezeBalance username blockchain currency a st) =
                  Inl InsufficientAvailable \<longleftrightarrow> x < v) \<and>
      (fst (freezeBalance username blockchain currency a st) = Inr () \<longrightarrow>
         amount (getBalance username blockchain currency
                   (snd (freezeBalance username blockchain currency a st))) = Dec (x - v) \<and>
         frozenAmount (getBalance username blockchain currency
                   (snd (freezeBalance username blockchain currency a st))) = Dec (f + v))"
    if h: "amount (getBalance username blockchain currency st) = Dec x \<and>
      frozenAmount (getBalance username blockchain currency st) = Dec f \<and> a = Dec v \<and>
      two_decimals (Dec x) \<and> two_decimals (Dec f) \<and> two_decimals (Dec v) \<and>
      \<bar>x\<bar> \<le> 10 ^ 13 \<and> \<bar>f\<bar> \<le> 10 ^ 13 \<and> \<bar>v\<bar> \<le> 10 ^ 13" for x f v
  proof -
    from h obtain k l m where k: "x = of_int k / 100" and l: "f = of_int l / 100"
      and m: "v = of_int m / 100"
      unfolding two_decimals_iff by auto
    have bk: "\<bar>of_int k / 100 :: rat\<bar> \<le> 10 ^ 13" and bl: "\<bar>of_int l / 100 :: rat\<bar> \<le> 10 ^ 13"
      and bm: "\<bar>of_int m / 100 :: rat\<bar> \<le> 10 ^ 13"
      using h k l m by simp_all
    have lt: "js_lt (parseFloat (Dec x)) (parseFloat (Dec v)) \<longleftrightarrow> x < v"
      using js_lt_hundredths [OF bk bm] by (simp add: k m divide_less_cancel)
    have "toFixed2 (js_sub (parseFloat (Dec x)) (parseFloat (Dec v))) =
            Dec (of_int (k - m) / 100)"
      unfolding k m by (rule js_sub_hundredths [OF bk bm])
    moreover have "\<bar>of_int (k - m) / 100 :: rat\<bar> \<le> 2 * 10 ^ 13"
      using bk bm by (simp add: diff_divide_distrib)
    ultimately have s: "toFixed2 (parseFloat (toFixed2
            (js_sub (parseFloat (Dec x)) (parseFloat (Dec v))))) = Dec (x - v)"
      using toFixed2_parseFloat [of "k - m"] by (simp add: k m diff_divide_distrib)
    have "toFixed2 (js_add (parseFloat (Dec f)) (parseFloat (Dec v))) =
            Dec (of_int (l + m) / 100)"
      unfolding l m by (rule js_add_hundredths [OF bl bm])
    moreover have "\<bar>of_int (l + m) / 100 :: rat\<bar> \<le> 2 * 10 ^ 13"
      using bl bm by (simp add: add_divide_distrib)
    ultimately have t: "toFixed2 (parseFloat (toFixed2
            (js_add (parseFloat (Dec f)) (parseFloat (Dec v))))) = Dec (f + v)"
      using toFixed2_parseFloat [of "l + m"] by (simp add: l m add_divide_distrib)
    from general h lt s t show ?thesis by simp
  qed
  from general exact show ?thesis by blast
qed

text \<open>
  The theorem at two inputs: 51.00 frozen out of 100.00 succeeds and moves 51.00;
  51.00 out of 50.00 fails with the insufficient-available error and changes nothing.
\<close>

theorem freezeBalance_effect_witness:
  "amount (getBalance ''alice'' ''mind'' ''MIND'' (ledger_with (Dec 100) (Dec 0))) = Dec 100 \<and>
   frozenAmount (getBalance ''alice'' ''mind'' ''MIND'' (ledger_with (Dec 100) (Dec 0))) = Dec 0 \<and>
   two_decimals (Dec 100) \<and> two_decimals (Dec 0) \<and> two_decimals (Dec 51) \<and>
   \<bar>100 :: rat\<bar> \<le> 10 ^ 13 \<and> \<bar>0 :: rat\<bar> \<le> 10 ^ 13 \<and> \<bar>51 :: rat\<bar> \<le> 10 ^ 13 \<and>
   fst (freezeBalance ''alice'' ''mind'' ''MIND'' (Dec 51) (ledger_with (Dec 100) (Dec 0))) =
     Inr () \<and>
   amount (getBalance ''alice'' ''mind'' ''MIND''
     (snd (freezeBalance ''alice'' ''mind'' ''MIND'' (Dec 51) (ledger_with (Dec 100) (Dec 0))))) =
     Dec 49 \<and>
   frozenAmount (getBalance ''alice'' ''mind'' ''MIND''
     (snd (freezeBalance ''alice'' ''mind'' ''MIND'' (Dec 51) (ledger_with (Dec 100) (Dec 0))))) =
     Dec 51 \<and>
   fst (freezeBalance ''alice'' ''mind'' ''MIND'' (Dec 51) (ledger_with (Dec 50) (Dec 0))) =
     Inl InsufficientAvailable \<and>
   balances (snd (freezeBalance ''alice'' ''mind'' ''MIND'' (Dec 51) (ledger_with (Dec 50) (Dec 0)))) =
     balances (ledger_with (Dec 50) (Dec 0))"
proof -
  have pre: "amount (getBalance ''alice'' ''mind'' ''MIND'' (ledger_with (Dec 100) (Dec 0))) =
        Dec 100 \<and>
      frozenAmount (getBalance ''alice'' ''mind'' ''MIND'' (ledger_with (Dec 100) (Dec 0))) =
        Dec 0 \<and> Dec 51 = Dec 51 \<and>
      two_decimals (Dec 100) \<and> two_decimals (Dec 0) \<and> two_decimals (Dec 51) \<and>
      \<bar>100 :: rat\<bar> \<le> 10 ^ 13 \<and> \<bar>0 :: rat\<bar> \<le> 10 ^ 13 \<and> \<bar>51 :: rat\<bar> \<le> 10 ^ 13"
    by simp
  have pre': "amount (getBalance ''alice'' ''mind'' ''MIND'' (ledger_with (Dec 50) (Dec 0))) =
        Dec 50 \<and>
      frozenAmount (getBalance ''alice'' ''mind'' ''MIND'' (ledger_with (Dec 50) (Dec 0))) =
        Dec 0 \<and> Dec 51 = Dec 51 \<and>
      two_decimals (Dec 50) \<and> two_decimals (Dec 0) \<and> two_decimals (Dec 51) \<and>
      \<bar>50 :: rat\<bar> \<le> 10 ^ 13 \<and> \<bar>0 :: rat\<bar> \<le> 10 ^ 13 \<and> \<bar>51 :: rat\<bar> \<le> 10 ^ 13"
    by simp
  have ok: "fst (freezeBalance ''alice'' ''mind'' ''MIND'' (Dec 51)
                  (ledger_with (Dec 100) (Dec 0))) = Inr ()"
    by (simp add: freezeBalance_unfold updateBalance_def db_write_def ledger_with_def
        init_state_def getBalance_def Let_def round2_def)
  note good = freezeBalance_effect
    [of "''alice''" "''mind''" "''MIND''" "Dec 51" "ledger_with (Dec 100) (Dec 0)"]
  note bad = freezeBalance_effect
    [of "''alice''" "''mind''" "''MIND''" "Dec 51" "ledger_with (Dec 50) (Dec 0)"]
  from good pre ok
  have moved: "amount (getBalance ''alice'' ''mind'' ''MIND''
        (snd (freezeBalance ''alice'' ''mind'' ''MIND'' (Dec 51)
               (ledger_with (Dec 100) (Dec 0))))) = Dec (100 - 51) \<and>
      frozenAmount (getBalance ''alice'' ''mind'' ''MIND''
        (snd (freezeBalance ''alice'' ''mind'' ''MIND'' (Dec 51)
               (ledger_with (Dec 100) (Dec 0))))) = Dec (0 + 51)"
    by blast
  from bad pre'
  have "fst (freezeBalance ''alice'' ''mind'' ''MIND'' (Dec 51)
               (ledger_with (Dec 50) (Dec 0))) = Inl InsufficientAvailable \<longleftrightarrow>
        (50 :: rat) < 51"
    by blast
  then have fail: "fst (freezeBalance ''alice'' ''mind'' ''MIND'' (Dec 51)
                    (ledger_with (Dec 50) (Dec 0))) = Inl InsufficientAvailable"
    by simp
  from bad fail
  have same: "balances (snd (freezeBalance ''alice'' ''mind'' ''MIND'' (Dec 51)
                    (ledger_with (Dec 50) (Dec 0)))) = balances (ledger_with (Dec 50) (Dec 0))"
    by blast
  from pre ok moved fail same show ?thesis by simp
qed

text \<open>
  The doubles of two examples. The double nearest to 0.01 is \<open>5764607523034235 / 2\<^sup>5\<^sup>9\<close>;
  100000000000000 minus that is rounded to 99999999999999.984375, which is also the
  double nearest to 99999999999999.98. The double nearest to 0.004 is
  \<open>4611686018427388 / 2\<^sup>6\<^sup>0\<close>, and 1 minus that is rounded to a double that prints as 1.00.
\<close>

lemma double_cent:
  "to_double (1 / 100) = Num (5764607523034235 / 576460752303423488)"
  "to_double (5764607523034235 / 576460752303423488) =
     Num (5764607523034235 / 576460752303423488)"
  using to_double_eqI [of "- 7" "1 / 100" 5764607523034235]
    to_double_eqI [of "- 7" "5764607523034235 / 576460752303423488" 5764607523034235]
  by simp_all

lemma double_1e14_minus_cent:
  "to_double (57646075230342343035392476965765 / 576460752303423488) =
     Num (6399999999999999 / 64)"
  "to_double (4999999999999999 / 50) = Num (6399999999999999 / 64)"
  using to_double_eqI [of 46 "57646075230342343035392476965765 / 576460752303423488"
      6399999999999999]
    to_double_eqI [of 46 "4999999999999999 / 50" 6399999999999999]
  by simp_all

lemma double_4_thousandths:
  "to_double (1 / 250) = Num (1152921504606847 / 288230376151711744)"
  "to_double (1152921504606847 / 288230376151711744) =
     Num (1152921504606847 / 288230376151711744)"
  "to_double (287077454647104897 / 288230376151711744) =
     Num (2242792614430507 / 2251799813685248)"
  using to_double_eqI [of "- 8" "1 / 250" 4611686018427388]
    to_double_eqI [of "- 8" "1152921504606847 / 288230376151711744" 4611686018427388]
    to_double_eqI [of "- 1" "287077454647104897 / 288230376151711744" 8971170457722028]
  by simp_all

text \<open>
  Claim C4 as stated fails. With 100000000000000.00 available, freezing 0.01 succeeds;
  the double nearest to the difference is 99999999999999.984375, and the stored
  available is 99999999999999.98, not 99999999999999.99, while 0.01 is added to frozen.
\<close>

theorem freezeBalance_exact_counterexample:
  "\<not> (\<forall>username blockchain currency st x f v.
        amount (getBalance username blockchain currency st) = Dec x \<and>
        frozenAmount (getBalance username blockchain currency st) = Dec f \<and>
        fst (freezeBalance username blockchain currency (Dec v) st) = Inr () \<longrightarrow>
        amount (getBalance username blockchain currency
                  (snd (freezeBalance username blockchain currency (Dec v) st))) = Dec (x - v) \<and>
        frozenAmount (getBalance username blockchain currency
                  (snd (freezeBalance username blockchain currency (Dec v) st))) = Dec (f + v))"
proof
  assume claim: "\<forall>username blockchain currency st x f v.
        amount (getBalance username blockchain currency st) = Dec x \<and>
        frozenAmount (getBalance username blockchain currency st) = Dec f \<and>
        fst (freezeBalance username blockchain currency (Dec v) st) = Inr () \<longrightarrow>
        amount (getBalance username blockchain currency
                  (snd (freezeBalance username blockchain currency (Dec v) st))) = Dec (x - v) \<and>
        frozenAmount (getBalance username blockchain currency
                  (snd (freezeBalance username blockchain currency (Dec v) st))) = Dec (f + v)"
  let ?st = "ledger_with (Dec 100000000000000) (Dec 0)"
  let ?r = "freezeBalance ''alice'' ''mind'' ''MIND'' (Dec (1 / 100)) ?st"
  have ok: "fst ?r = Inr ()"
    by (simp add: freezeBalance_unfold updateBalance_def db_write_def ledger_with_def
        init_state_def getBalance_def Let_def round2_def double_cent double_1e14_minus_cent)
  have after: "amount (getBalance ''alice'' ''mind'' ''MIND'' (snd ?r)) =
                 Dec (4999999999999999 / 50)"
    by (simp add: freezeBalance_unfold updateBalance_def db_write_def ledger_with_def
        init_state_def getBalance_def Let_def round2_def double_cent double_1e14_minus_cent)
  have "amount (getBalance ''alice'' ''mind'' ''MIND'' ?st) = Dec 100000000000000 \<and>
        frozenAmount (getBalance ''alice'' ''mind'' ''MIND'' ?st) = Dec 0 \<and>
        fst ?r = Inr ()"
    using ok by simp
  from claim [rule_format, OF this] after show False by simp
qed

text \<open>
  An amount with a third decimal is not moved exactly either: freezing 0.004 out of an
  available 1.00 succeeds, and both stored amounts stay as they were.
\<close>

lemma freezeBalance_third_decimal:
  "fst (freezeBalance ''alice'' ''mind'' ''MIND'' (Dec (4 / 1000)) (ledger_with (Dec 1) (Dec 0))) =
     Inr () \<and>
   getBalance ''alice'' ''mind'' ''MIND''
     (snd (freezeBalance ''alice'' ''mind'' ''MIND'' (Dec (4 / 1000))
             (ledger_with (Dec 1) (Dec 0)))) =
     \<lparr>bal_username = ''alice'', bal_blockchain = ''mind'', bal_currency = ''MIND'',
      amount = Dec 1, frozenAmount = Dec 0\<rparr>"
  by (simp add: freezeBalance_unfold updateBalance_def db_write_def ledger_with_def
      init_state_def getBalance_def Let_def round2_def double_4_thousandths)

text \<open>
  Beyond the exact range a string of hundredths is not even stored as it is: the double
  nearest to 100000000000000.99 is 100000000000000.984375, and \<^verbatim>\<open>updateBalance\<close> writes
  the amount as 100000000000000.98.
\<close>

lemma double_1e14_99:
  "to_double (10000000000000099 / 100) = Num (6400000000000063 / 64)"
  using to_double_eqI [of 46 "10000000000000099 / 100" 6400000000000063] by simp

lemma updateBalance_rewrites_large:
  "amount (getBalance ''alice'' ''mind'' ''MIND''
     (snd (updateBalance
             \<lparr>bal_username = ''alice'', bal_blockchain = ''mind'', bal_currency = ''MIND'',
              amount = Dec (10000000000000099 / 100), frozenAmount = Dec 0\<rparr> init_state))) =
     Dec (5000000000000049 / 50)"
  by (simp add: updateBalance_def db_write_def init_state_def getBalance_def Let_def round2_def
      double_1e14_99)

text \<open>
  Claim C5, amended. \<^verbatim>\<open>unfreezeBalance\<close> with an amount greater than the frozen balance
  returns without throwing and moves nothing: the state is unchanged.
\<close>

theorem unfreezeBalance_over_frozen:
  "js_lt (parseFloat (frozenAmount (getBalance username blockchain currency st)))
     (parseFloat a) \<Longrightarrow>
   unfreezeBalance username blockchain currency a st = (Inr (), st)"
  by (simp add: unfreezeBalance_def Let_def)

text \<open>The theorem at frozen 5.00 and amount 10.00.\<close>

theorem unfreezeBalance_over_frozen_witness:
  "js_lt (parseFloat (frozenAmount (getBalance ''alice'' ''mind'' ''MIND''
            (ledger_with (Dec 0) (Dec 5))))) (parseFloat (Dec 10)) \<and>
   unfreezeBalance ''alice'' ''mind'' ''MIND'' (Dec 10) (ledger_with (Dec 0) (Dec 5)) =
     (Inr (), ledger_with (Dec 0) (Dec 5))"
  using unfreezeBalance_over_frozen
    [of "''alice''" "''mind''" "''MIND''" "ledger_with (Dec 0) (Dec 5)" "Dec 10"]
  by simp

text \<open>
  Claim C5 as stated fails: with 5.00 frozen, unfreezing 10.00 does not move
  \<open>min 10.00 5.00\<close>; frozen stays 5.00 and available stays 0.00.
\<close>

theorem unfreezeBalance_min_counterexample:
  "\<not> (\<forall>username blockchain currency a st.
        js_lt (parseFloat (frozenAmount (getBalance username blockchain currency st)))
          (parseFloat a) \<longrightarrow>
        (let before = getBalance username blockchain currency st;
             after = getBalance username blockchain currency
                       (snd (unfreezeBalance username blockchain currency a st));
             moved = js_min (parseFloat a) (parseFloat (frozenAmount before))
         in frozenAmount after = toFixed2 (js_sub (parseFloat (frozenAmount before)) moved) \<and>
            amount after = toFixed2 (js_add (parseFloat (amount before)) moved)))"
proof
  assume claim: "\<forall>username blockchain currency a st.
        js_lt (parseFloat (frozenAmount (getBalance username blockchain currency st)))
          (parseFloat a) \<longrightarrow>
        (let before = getBalance username blockchain currency st;
             after = getBalance username blockchain currency
                       (snd (unfreezeBalance username blockchain currency a st));
             moved = js_min (parseFloat a) (parseFloat (frozenAmount before))
         in frozenAmount after = toFixed2 (js_sub (parseFloat (frozenAmount before)) moved) \<and>
            amount after = toFixed2 (js_add (parseFloat (amount before)) moved))"
  have "unfreezeBalance ''alice'' ''mind'' ''MIND'' (Dec 10) (ledger_with (Dec 0) (Dec 5)) =
          (Inr (), ledger_with (Dec 0) (Dec 5))"
    by (simp add: unfreezeBalance_def)
  with claim [rule_format, of "''alice''" "''mind''" "''MIND''" "ledger_with (Dec 0) (Dec 5)"
      "Dec 10"]
  show False by (simp add: Let_def round2_def)
qed

section \<open>The transfer route\<close>

lemma to_double_not_NaN [simp]: "to_double x \<noteq> NaN"
  by (simp add: to_double_def Let_def)

lemma js_or0_id: "v \<noteq> NaN \<Longrightarrow> js_or0 v = v"
  by (cases v) simp_all

lemma parseFloat_nonneg: "0 \<le> x \<Longrightarrow> \<not> js_lt (parseFloat (Dec x)) (Num 0)"
  using to_double_nonneg [of x] by auto

lemma ledger_amount_iff:
  "ledger_amount v \<longleftrightarrow> (\<exists>k. v = Dec (of_int k / 100) \<and> 0 \<le> k \<and> of_int k / 100 \<le> (10 ^ 13 :: rat))"
proof (cases v)
  case (Dec x)
  show ?thesis
  proof
    assume l: "ledger_amount v"
    then have "two_decimals v" using Dec by simp
    then obtain k where k: "v = Dec (of_int k / 100)" unfolding two_decimals_iff by blast
    then have "0 \<le> (of_int k :: rat) / 100" "of_int k / 100 \<le> (10 ^ 13 :: rat)"
      using l by simp_all
    then show "\<exists>k. v = Dec (of_int k / 100) \<and> 0 \<le> k \<and> of_int k / 100 \<le> (10 ^ 13 :: rat)"
      using k by auto
  next
    assume "\<exists>k. v = Dec (of_int k / 100) \<and> 0 \<le> k \<and> of_int k / 100 \<le> (10 ^ 13 :: rat)"
    then obtain k where k: "v = Dec (of_int k / 100)" "0 \<le> k" "of_int k / 100 \<le> (10 ^ 13 :: rat)"
      by blast
    have "two_decimals v" unfolding two_decimals_iff using k(1) by blast
    then show "ledger_amount v" using k by simp
  qed
qed simp_all

text \<open>An amount in the exact range is stored as it is, and passes the guards.\<close>

lemma ledger_amount_stored:
  assumes "ledger_amount v"
  shows "toFixed2 (parseFloat v) = v" and "\<not> js_lt (parseFloat v) (Num 0)"
    and "js_or0 (parseFloat v) = parseFloat v"
proof -
  from assms obtain k where k: "v = Dec (of_int k / 100)" "0 \<le> k"
    "of_int k / 100 \<le> (10 ^ 13 :: rat)"
    unfolding ledger_amount_iff by blast
  have "\<bar>of_int k / 100 :: rat\<bar> \<le> 2 * 10 ^ 13" using k(2,3) by simp
  then show "toFixed2 (parseFloat v) = v" unfolding k(1) by (rule toFixed2_parseFloat)
  have "0 \<le> (of_int k :: rat) / 100" using k(2) by simp
  then show "\<not> js_lt (parseFloat v) (Num 0)" unfolding k(1) by (rule parseFloat_nonneg)
  show "js_or0 (parseFloat v) = parseFloat v" unfolding k(1) by (simp add: js_or0_id)
qed

lemma updateBalance_ok:
  assumes "write_failures st = []"
    and "\<not> js_lt (parseFloat (amount b)) (Num 0)"
    and "\<not> js_lt (parseFloat (frozenAmount b)) (Num 0)"
  shows "updateBalance b st =
           (Inr (),
            st\<lparr>balances :=
                 (balances st)(balance_key (bal_username b) (bal_blockchain b) (bal_currency b) \<mapsto>
                    b\<lparr>amount := toFixed2 (parseFloat (amount b)),
                      frozenAmount := toFixed2 (parseFloat (frozenAmount b))\<rparr>)\<rparr>)"
  using assms by (simp add: updateBalance_def db_write_def Let_def)

lemma getBalance_balances:
  "balances st' = balances st \<Longrightarrow> getBalance u b c st' = getBalance u b c st"
  by (simp add: getBalance_def)

text \<open>
  An update that writes the frozen amount already stored under its key changes no frozen
  amount.
\<close>

lemma updateBalance_keeps_frozen:
  assumes u: "updateBalance b st = (r, st')"
    and f: "toFixed2 (parseFloat (frozenAmount b)) =
            frozenAmount (getBalance (bal_username b) (bal_blockchain b) (bal_currency b) st)"
  shows "frozenAmount (getBalance u bc c st') = frozenAmount (getBalance u bc c st)"
proof -
  from updateBalance_cases [OF u] show ?thesis
  proof
    assume "\<exists>e. r = Inl e \<and> e \<noteq> InsufficientAvailable \<and> balances st' = balances st"
    then have "balances st' = balances st" by blast
    then show ?thesis by (simp add: getBalance_def)
  next
    assume "r = Inr () \<and>
      balances st' =
        (balances st)(balance_key (bal_username b) (bal_blockchain b) (bal_currency b) \<mapsto>
           b\<lparr>amount := toFixed2 (parseFloat (amount b)),
             frozenAmount := toFixed2 (parseFloat (frozenAmount b))\<rparr>)"
    then show ?thesis
      using f by (auto simp: getBalance_def split: option.splits simp del: toFixed2.simps
          parseFloat.simps)
  qed
qed

text \<open>
  Whatever the amount, whichever writes fail and in whichever order the two puts
  complete, the transfer leaves frozen amounts of the exact range alone.
\<close>

lemma send_frozen_unchanged:
  assumes sf: "ledger_amount (frozenAmount (getBalance username blockchain currency st))"
    and rf: "ledger_amount (frozenAmount (getBalance recipientUsername blockchain currency st))"
  shows "frozenAmount (getBalance u bc c
           (snd (send_balance_to_user order username recipientUsername blockchain currency a st))) =
         frozenAmount (getBalance u bc c st)"
proof -
  let ?sb = "getBalance username blockchain currency st"
  let ?rb = "getBalance recipientUsername blockchain currency st"
  let ?nb = "\<lparr>bal_username = username, bal_blockchain = blockchain, bal_currency = currency,
               amount = toFixed2 (js_sub (js_or0 (parseFloat (amount ?sb))) (parseFloat a)),
               frozenAmount = toFixed2 (js_or0 (parseFloat (frozenAmount ?sb)))\<rparr>"
  let ?nr = "\<lparr>bal_username = recipientUsername, bal_blockchain = blockchain,
               bal_currency = currency,
               amount = toFixed2 (js_add (parseFloat (amount ?rb)) (parseFloat a)),
               frozenAmount = toFixed2 (parseFloat (frozenAmount ?rb))\<rparr>"
  have fs: "toFixed2 (parseFloat (frozenAmount ?nb)) = frozenAmount ?sb"
    using ledger_amount_stored [OF sf] by (simp del: toFixed2.simps parseFloat.simps)
  have fr: "toFixed2 (parseFloat (frozenAmount ?nr)) = frozenAmount ?rb"
    using ledger_amount_stored [OF rf] by (simp del: toFixed2.simps parseFloat.simps)
  have two: "frozenAmount (getBalance u bc c st2) = frozenAmount (getBalance u bc c st)"
    if "updateBalance b1 st = (r1, st1)" and "updateBalance b2 st1 = (r2, st2)"
      and "b1 = ?nb \<and> b2 = ?nr \<or> b1 = ?nr \<and> b2 = ?nb" for b1 b2 r1 r2 st1 st2
  proof -
    have k1: "toFixed2 (parseFloat (frozenAmount b1)) =
        frozenAmount (getBalance (bal_username b1) (bal_blockchain b1) (bal_currency b1) st)"
      using that(3) fs fr by auto
    have k2: "toFixed2 (parseFloat (frozenAmount b2)) =
        frozenAmount (getBalance (bal_username b2) (bal_blockchain b2) (bal_currency b2) st)"
      using that(3) fs fr by auto
    note keep1 = updateBalance_keeps_frozen [OF that(1) k1]
    from k2 have "toFixed2 (parseFloat (frozenAmount b2)) =
        frozenAmount (getBalance (bal_username b2) (bal_blockchain b2) (bal_currency b2) st1)"
      by (simp only: keep1)
    from updateBalance_keeps_frozen [OF that(2) this] keep1 show ?thesis by simp
  qed
  show ?thesis
  proof (cases "accounts st username")
    case None
    then show ?thesis by (simp add: send_balance_to_user_def)
  next
    case (Some s)
    show ?thesis
    proof (cases "accounts st recipientUsername")
      case None
      then show ?thesis using Some by (simp add: send_balance_to_user_def)
    next
      case (Some r)
      show ?thesis
      proof (cases "js_lt (js_or0 (parseFloat (amount ?sb))) (parseFloat a)")
        case True
        then show ?thesis using Some \<open>accounts st username = Some s\<close>
          by (simp add: send_balance_to_user_def Let_def)
      next
        case False
        show ?thesis
        proof (cases order)
          case SenderFirst
          obtain r1 st1 where u1: "updateBalance ?nb st = (r1, st1)"
            by (cases "updateBalance ?nb st")
          obtain r2 st2 where u2: "updateBalance ?nr st1 = (r2, st2)"
            by (cases "updateBalance ?nr st1")
          have "snd (send_balance_to_user order username recipientUsername blockchain
                       currency a st) = st2"
            using False Some \<open>accounts st username = Some s\<close> SenderFirst u1 u2
            by (simp add: send_balance_to_user_def Let_def del: toFixed2.simps parseFloat.simps)
          then show ?thesis using two [OF u1 u2] by simp
        next
          case RecipientFirst
          obtain r1 st1 where u1: "updateBalance ?nr st = (r1, st1)"
            by (cases "updateBalance ?nr st")
          obtain r2 st2 where u2: "updateBalance ?nb st1 = (r2, st2)"
            by (cases "updateBalance ?nb st1")
          have "snd (send_balance_to_user order username recipientUsername blockchain
                       currency a st) = st2"
            using False Some \<open>accounts st username = Some s\<close> RecipientFirst u1 u2
            by (simp add: send_balance_to_user_def Let_def del: toFixed2.simps parseFloat.simps)
          then show ?thesis using two [OF u1 u2] by simp
        qed
      qed
    qed
  qed
qed

text \<open>
  With no write failing, two distinct balance records and amounts of the exact range, the
  transfer is refused untouched or commits both sides exactly, in either order of the
  two puts.
\<close>

lemma send_both_or_neither:
  assumes nofail: "write_failures st = []"
    and sender: "accounts st username = Some sender"
    and recipient: "accounts st recipientUsername = Some recipient"
    and keys: "balance_key username blockchain currency \<noteq>
               balance_key recipientUsername blockchain currency"
    and a: "a = Dec x" "ledger_amount a"
    and sa: "amount (getBalance username blockchain currency st) = Dec p"
      "ledger_amount (amount (getBalance username blockchain currency st))"
    and sf: "ledger_amount (frozenAmount (getBalance username blockchain currency st))"
    and ra: "amount (getBalance recipientUsername blockchain currency st) = Dec u"
      "ledger_amount (amount (getBalance recipientUsername blockchain currency st))"
    and rf: "ledger_amount (frozenAmount (getBalance recipientUsername blockchain currency st))"
  shows "if p < x
         then send_balance_to_user order username recipientUsername blockchain currency a st =
                (Response 400
                   (InsufficientBody currency
                      (js_or0 (parseFloat (amount (getBalance username blockchain currency st))))
                      (js_or0 (parseFloat (frozenAmount (getBalance username blockchain
                                                            currency st))))), st)
         else (let st' = snd (send_balance_to_user order username recipientUsername blockchain
                                currency a st)
               in fst (send_balance_to_user order username recipientUsername blockchain
                         currency a st) =
                    Response 200 (MessageBody ''Transfer successful'') \<and>
                  amount (getBalance username blockchain currency st') = Dec (p - x) \<and>
                  amount (getBalance recipientUsername blockchain currency st') = Dec (u + x) \<and>
                  (\<forall>k. k \<noteq> balance_key username blockchain currency \<and>
                       k \<noteq> balance_key recipientUsername blockchain currency \<longrightarrow>
                       balances st' k = balances st k))"
proof -
  let ?sb = "getBalance username blockchain currency st"
  let ?rb = "getBalance recipientUsername blockchain currency st"
  let ?q = "frozenAmount ?sb"
  let ?v = "frozenAmount ?rb"
  from a obtain kx where kx: "x = of_int kx / 100" "0 \<le> kx" "of_int kx / 100 \<le> (10 ^ 13 :: rat)"
    unfolding ledger_amount_iff by auto
  from sa obtain kp where kp: "p = of_int kp / 100" "0 \<le> kp" "of_int kp / 100 \<le> (10 ^ 13 :: rat)"
    unfolding ledger_amount_iff by auto
  from ra obtain ku where ku: "u = of_int ku / 100" "0 \<le> ku" "of_int ku / 100 \<le> (10 ^ 13 :: rat)"
    unfolding ledger_amount_iff by auto
  have bx: "\<bar>of_int kx / 100 :: rat\<bar> \<le> 10 ^ 13" using kx by simp
  have bp: "\<bar>of_int kp / 100 :: rat\<bar> \<le> 10 ^ 13" using kp by simp
  have bu: "\<bar>of_int ku / 100 :: rat\<bar> \<le> 10 ^ 13" using ku by simp
  have or0: "js_or0 (parseFloat (Dec p)) = parseFloat (Dec p)" by (simp add: js_or0_id)
  have lt: "js_lt (parseFloat (Dec p)) (parseFloat (Dec x)) \<longleftrightarrow> p < x"
    using js_lt_hundredths [OF bp bx] by (simp add: kp kx divide_less_cancel)
  show ?thesis
  proof (cases "p < x")
    case True
    then show ?thesis
      using sender recipient a(1) sa(1) lt or0
      by (simp add: send_balance_to_user_def Let_def del: parseFloat.simps)
  next
    case False
    then have px: "kx \<le> kp" using kp kx by (simp add: divide_le_cancel)
    have s1: "toFixed2 (js_sub (parseFloat (Dec p)) (parseFloat (Dec x))) = Dec (p - x)"
      using js_sub_hundredths [OF bp bx] by (simp add: kp kx diff_divide_distrib)
    have s2: "toFixed2 (js_add (parseFloat (Dec u)) (parseFloat (Dec x))) = Dec (u + x)"
      using js_add_hundredths [OF bu bx] by (simp add: ku kx add_divide_distrib)
    have "\<bar>of_int (kp - kx) / 100 :: rat\<bar> \<le> 2 * 10 ^ 13"
      using bp px kp(2) kx(2) by (simp add: diff_divide_distrib)
    from toFixed2_parseFloat [OF this]
    have t1: "toFixed2 (parseFloat (Dec (p - x))) = Dec (p - x)"
      by (simp add: kp kx diff_divide_distrib)
    have "\<bar>of_int (ku + kx) / 100 :: rat\<bar> \<le> 2 * 10 ^ 13"
      using bu bx by (simp add: add_divide_distrib)
    from toFixed2_parseFloat [OF this]
    have t2: "toFixed2 (parseFloat (Dec (u + x))) = Dec (u + x)"
      by (simp add: ku kx add_divide_distrib)
    have "0 \<le> p - x" using False by simp
    then have g1: "\<not> js_lt (parseFloat (Dec (p - x))) (Num 0)" by (rule parseFloat_nonneg)
    have "0 \<le> u + x" using ku kx by simp
    then have g2: "\<not> js_lt (parseFloat (Dec (u + x))) (Num 0)" by (rule parseFloat_nonneg)
    note q = ledger_amount_stored [OF sf]
    note v = ledger_amount_stored [OF rf]
    let ?ks = "balance_key username blockchain currency"
    let ?kr = "balance_key recipientUsername blockchain currency"
    let ?nb = "\<lparr>bal_username = username, bal_blockchain = blockchain, bal_currency = currency,
                 amount = Dec (p - x), frozenAmount = ?q\<rparr>"
    let ?nr = "\<lparr>bal_username = recipientUsername, bal_blockchain = blockchain,
                 bal_currency = currency, amount = Dec (u + x), frozenAmount = ?v\<rparr>"
    have ub: "updateBalance ?nb s =
        (Inr (), s\<lparr>balances := (balances s)(?ks \<mapsto> ?nb)\<rparr>)" if "write_failures s = []" for s
      using updateBalance_ok [of s ?nb] that g1 q t1
      by (simp del: toFixed2.simps parseFloat.simps)
    have ur: "updateBalance ?nr s =
        (Inr (), s\<lparr>balances := (balances s)(?kr \<mapsto> ?nr)\<rparr>)" if "write_failures s = []" for s
      using updateBalance_ok [of s ?nr] that g2 v t2
      by (simp del: toFixed2.simps parseFloat.simps)
    have nlt: "\<not> js_lt (parseFloat (Dec p)) (parseFloat (Dec x))" using lt False by simp
    show ?thesis
    proof (cases order)
      case SenderFirst
      let ?st1 = "st\<lparr>balances := (balances st)(?ks \<mapsto> ?nb)\<rparr>"
      let ?st2 = "?st1\<lparr>balances := (balances ?st1)(?kr \<mapsto> ?nr)\<rparr>"
      have u1: "updateBalance ?nb st = (Inr (), ?st1)" using ub nofail by simp
      have u2: "updateBalance ?nr ?st1 = (Inr (), ?st2)" using ur [of ?st1] nofail by simp
      have run: "send_balance_to_user order username recipientUsername blockchain currency a st =
                   (Response 200 (MessageBody ''Transfer successful''), ?st2)"
        using nlt sender recipient a(1) sa(1) ra(1) or0 s1 s2 q v u1 u2 SenderFirst
        by (simp add: send_balance_to_user_def Let_def del: toFixed2.simps parseFloat.simps)
      have g1: "getBalance username blockchain currency ?st2 = ?nb"
        using keys by (simp add: getBalance_def)
      have g2: "getBalance recipientUsername blockchain currency ?st2 = ?nr"
        by (simp add: getBalance_def)
      show ?thesis
        using False run g1 g2 by (simp add: Let_def del: toFixed2.simps parseFloat.simps)
    next
      case RecipientFirst
      let ?st1 = "st\<lparr>balances := (balances st)(?kr \<mapsto> ?nr)\<rparr>"
      let ?st2 = "?st1\<lparr>balances := (balances ?st1)(?ks \<mapsto> ?nb)\<rparr>"
      have u1: "updateBalance ?nr st = (Inr (), ?st1)" using ur nofail by simp
      have u2: "updateBalance ?nb ?st1 = (Inr (), ?st2)" using ub [of ?st1] nofail by simp
      have run: "send_balance_to_user order username recipientUsername blockchain currency a st =
                   (Response 200 (MessageBody ''Transfer successful''), ?st2)"
        using nlt sender recipient a(1) sa(1) ra(1) or0 s1 s2 q v u1 u2 RecipientFirst
        by (simp add: send_balance_to_user_def Let_def del: toFixed2.simps parseFloat.simps)
      have g1: "getBalance username blockchain currency ?st2 = ?nb"
        by (simp add: getBalance_def)
      have g2: "getBalance recipientUsername blockchain currency ?st2 = ?nr"
        using keys by (simp add: getBalance_def)
      show ?thesis
        using False run g1 g2 by (simp add: Let_def del: toFixed2.simps parseFloat.simps)
    qed
  qed
qed

text \<open>
  Claim C6, amended. The transfer changes no frozen amount that has at most two decimals
  and lies between 0 and \<open>10\<^sup>1\<^sup>3\<close>, whatever the amount, the order of the two puts and the
  writes that fail. When no store write fails, sender and recipient have distinct balance
  records, and the amount and the stored balances have at most two decimals and lie
  between 0 and \<open>10\<^sup>1\<^sup>3\<close>, then either the sender's available is below the amount and
  nothing is written (status 400), or both writes commit: the sender's available goes
  down by exactly the amount, the recipient's goes up by exactly the amount, no other
  record changes, and the route answers 200.
\<close>

theorem send_balance_to_user_effect:
  "(ledger_amount (frozenAmount (getBalance username blockchain currency st)) \<and>
    ledger_amount (frozenAmount (getBalance recipientUsername blockchain currency st)) \<longrightarrow>
      frozenAmount (getBalance username blockchain currency
        (snd (send_balance_to_user order username recipientUsername blockchain currency a st))) =
      frozenAmount (getBalance username blockchain currency st) \<and>
      frozenAmount (getBalance recipientUsername blockchain currency
        (snd (send_balance_to_user order username recipientUsername blockchain currency a st))) =
      frozenAmount (getBalance recipientUsername blockchain currency st)) \<and>
   (\<forall>x p u.
      write_failures st = [] \<and>
      accounts st username \<noteq> None \<and> accounts st recipientUsername \<noteq> None \<and>
      balance_key username blockchain currency \<noteq>
        balance_key recipientUsername blockchain currency \<and>
      a = Dec x \<and>
      amount (getBalance username blockchain currency st) = Dec p \<and>
      amount (getBalance recipientUsername blockchain currency st) = Dec u \<and>
      ledger_amount a \<and>
      ledger_amount (amount (getBalance username blockchain currency st)) \<and>
      ledger_amount (frozenAmount (getBalance username blockchain currency st)) \<and>
      ledger_amount (amount (getBalance recipientUsername blockchain currency st)) \<and>
      ledger_amount (frozenAmount (getBalance recipientUsername blockchain currency st)) \<longrightarrow>
      (if p < x
       then send_balance_to_user order username recipientUsername blockchain currency a st =
              (Response 400
                 (InsufficientBody currency
                    (js_or0 (parseFloat (amount (getBalance username blockchain currency st))))
                    (js_or0 (parseFloat (frozenAmount (getBalance username blockchain
                                                          currency st))))), st)
       else (let st' = snd (send_balance_to_user order username recipientUsername blockchain
                              currency a st)
             in fst (send_balance_to_user order username recipientUsername blockchain
                       currency a st) =
                  Response 200 (MessageBody ''Transfer successful'') \<and>
                amount (getBalance username blockchain currency st') = Dec (p - x) \<and>
                amount (getBalance recipientUsername blockchain currency st') = Dec (u + x) \<and>
                (\<forall>k. k \<noteq> balance_key username blockchain currency \<and>
                     k \<noteq> balance_key recipientUsername blockchain currency \<longrightarrow>
                     balances st' k = balances st k))))"
proof (intro conjI impI allI)
  assume "ledger_amount (frozenAmount (getBalance username blockchain currency st)) \<and>
    ledger_amount (frozenAmount (getBalance recipientUsername blockchain currency st))"
  then show "frozenAmount (getBalance username blockchain currency
        (snd (send_balance_to_user order username recipientUsername blockchain currency a st))) =
      frozenAmount (getBalance username blockchain currency st)"
    and "frozenAmount (getBalance recipientUsername blockchain currency
        (snd (send_balance_to_user order username recipientUsername blockchain currency a st))) =
      frozenAmount (getBalance recipientUsername blockchain currency st)"
    using send_frozen_unchanged [of username blockchain currency st recipientUsername]
    by simp_all
next
  fix x p u
  assume h: "write_failures st = [] \<and>
      accounts st username \<noteq> None \<and> accounts st recipientUsername \<noteq> None \<and>
      balance_key username blockchain currency \<noteq>
        balance_key recipientUsername blockchain currency \<and>
      a = Dec x \<and>
      amount (getBalance username blockchain currency st) = Dec p \<and>
      amount (getBalance recipientUsername blockchain currency st) = Dec u \<and>
      ledger_amount a \<and>
      ledger_amount (amount (getBalance username blockchain currency st)) \<and>
      ledger_amount (frozenAmount (getBalance username blockchain currency st)) \<and>
      ledger_amount (amount (getBalance recipientUsername blockchain currency st)) \<and>
      ledger_amount (frozenAmount (getBalance recipientUsername blockchain currency st))"
  then obtain sender recipient where
    acc: "accounts st username = Some sender" "accounts st recipientUsername = Some recipient"
    by auto
  from h have h1: "write_failures st = []"
    and h2: "balance_key username blockchain currency \<noteq>
             balance_key recipientUsername blockchain currency"
    and h3: "a = Dec x" "ledger_amount a"
    and h4: "amount (getBalance username blockchain currency st) = Dec p"
      "ledger_amount (amount (getBalance username blockchain currency st))"
    and h5: "ledger_amount (frozenAmount (getBalance username blockchain currency st))"
    and h6: "amount (getBalance recipientUsername blockchain currency st) = Dec u"
      "ledger_amount (amount (getBalance recipientUsername blockchain currency st))"
    and h7: "ledger_amount (frozenAmount (getBalance recipientUsername blockchain currency st))"
    by blast+
  show "if p < x
       then send_balance_to_user order username recipientUsername blockchain currency a st =
              (Response 400
                 (InsufficientBody currency
                    (js_or0 (parseFloat (amount (getBalance username blockchain currency st))))
                    (js_or0 (parseFloat (frozenAmount (getBalance username blockchain
                                                          currency st))))), st)
       else (let st' = snd (send_balance_to_user order username recipientUsername blockchain
                              currency a st)
             in fst (send_balance_to_user order username recipientUsername blockchain
                       currency a st) =
                  Response 200 (MessageBody ''Transfer successful'') \<and>
                amount (getBalance username blockchain currency st') = Dec (p - x) \<and>
                amount (getBalance recipientUsername blockchain currency st') = Dec (u + x) \<and>
                (\<forall>k. k \<noteq> balance_key username blockchain currency \<and>
                     k \<noteq> balance_key recipientUsername blockchain currency \<longrightarrow>
                     balances st' k = balances st k))"
    by (rule send_both_or_neither [OF h1 acc h2 h3 h4 h5 h6 h7])
qed

text \<open>
  The theorem at a transfer of 5.00 MIND from alice, who has 10.00, to bob, and at one of
  20.00, which is refused.
\<close>

theorem send_balance_to_user_effect_witness:
  "write_failures (two_users (Dec 10) []) = [] \<and>
   accounts (two_users (Dec 10) []) ''alice'' \<noteq> None \<and>
   accounts (two_users (Dec 10) []) ''bob'' \<noteq> None \<and>
   balance_key ''alice'' ''mind'' ''MIND'' \<noteq> balance_key ''bob'' ''mind'' ''MIND'' \<and>
   ledger_amount (Dec 5) \<and> ledger_amount (Dec 20) \<and>
   amount (getBalance ''alice'' ''mind'' ''MIND'' (two_users (Dec 10) [])) = Dec 10 \<and>
   amount (getBalance ''bob'' ''mind'' ''MIND'' (two_users (Dec 10) [])) = Dec 0 \<and>
   ledger_amount (amount (getBalance ''alice'' ''mind'' ''MIND'' (two_users (Dec 10) []))) \<and>
   ledger_amount (frozenAmount (getBalance ''alice'' ''mind'' ''MIND'' (two_users (Dec 10) []))) \<and>
   ledger_amount (amount (getBalance ''bob'' ''mind'' ''MIND'' (two_users (Dec 10) []))) \<and>
   ledger_amount (frozenAmount (getBalance ''bob'' ''mind'' ''MIND'' (two_users (Dec 10) []))) \<and>
   fst (send_balance_to_user RecipientFirst ''alice'' ''bob'' ''mind'' ''MIND'' (Dec 5)
          (two_users (Dec 10) [])) =
     Response 200 (MessageBody ''Transfer successful'') \<and>
   amount (getBalance ''alice'' ''mind'' ''MIND''
     (snd (send_balance_to_user RecipientFirst ''alice'' ''bob'' ''mind'' ''MIND'' (Dec 5)
             (two_users (Dec 10) [])))) = Dec 5 \<and>
   amount (getBalance ''bob'' ''mind'' ''MIND''
     (snd (send_balance_to_user RecipientFirst ''alice'' ''bob'' ''mind'' ''MIND'' (Dec 5)
             (two_users (Dec 10) [])))) = Dec 5 \<and>
   frozenAmount (getBalance ''alice'' ''mind'' ''MIND''
     (snd (send_balance_to_user RecipientFirst ''alice'' ''bob'' ''mind'' ''MIND'' (Dec 5)
             (two_users (Dec 10) [])))) = Dec 0 \<and>
   send_balance_to_user SenderFirst ''alice'' ''bob'' ''mind'' ''MIND'' (Dec 20)
       (two_users (Dec 10) []) =
     (Response 400 (InsufficientBody ''MIND'' (Num 10) (Num 0)), two_users (Dec 10) [])"
proof -
  let ?st = "two_users (Dec 10) []"
  have ga: "getBalance ''alice'' ''mind'' ''MIND'' ?st =
              \<lparr>bal_username = ''alice'', bal_blockchain = ''mind'', bal_currency = ''MIND'',
               amount = Dec 10, frozenAmount = Dec 0\<rparr>"
    by (simp add: getBalance_def two_users_def init_state_def)
  have gb: "getBalance ''bob'' ''mind'' ''MIND'' ?st =
              \<lparr>bal_username = ''bob'', bal_blockchain = ''mind'', bal_currency = ''MIND'',
               amount = Dec 0, frozenAmount = Dec 0\<rparr>"
    by (simp add: getBalance_def two_users_def init_state_def balance_key_def)
  have pre: "write_failures ?st = [] \<and> accounts ?st ''alice'' \<noteq> None \<and>
      accounts ?st ''bob'' \<noteq> None \<and>
      balance_key ''alice'' ''mind'' ''MIND'' \<noteq> balance_key ''bob'' ''mind'' ''MIND''"
    by (simp add: two_users_def init_state_def balance_key_def)
  have va: "ledger_amount (Dec 5) \<and> ledger_amount (Dec 20) \<and> ledger_amount (Dec 10) \<and>
      ledger_amount (Dec 0)"
    by simp
  note t5 = send_balance_to_user_effect
    [of "''alice''" "''mind''" "''MIND''" ?st "''bob''" RecipientFirst "Dec 5"]
  note t20 = send_balance_to_user_effect
    [of "''alice''" "''mind''" "''MIND''" ?st "''bob''" SenderFirst "Dec 20"]
  from t5 pre va ga gb
  have five: "fst (send_balance_to_user RecipientFirst ''alice'' ''bob'' ''mind'' ''MIND'' (Dec 5) ?st) =
       Response 200 (MessageBody ''Transfer successful'') \<and>
     amount (getBalance ''alice'' ''mind'' ''MIND''
       (snd (send_balance_to_user RecipientFirst ''alice'' ''bob'' ''mind'' ''MIND'' (Dec 5) ?st))) =
       Dec 5 \<and>
     amount (getBalance ''bob'' ''mind'' ''MIND''
       (snd (send_balance_to_user RecipientFirst ''alice'' ''bob'' ''mind'' ''MIND'' (Dec 5) ?st))) =
       Dec 5 \<and>
     frozenAmount (getBalance ''alice'' ''mind'' ''MIND''
       (snd (send_balance_to_user RecipientFirst ''alice'' ''bob'' ''mind'' ''MIND'' (Dec 5) ?st))) =
       Dec 0"
    by (simp add: Let_def)
  from t20 pre va ga gb
  have twenty: "send_balance_to_user SenderFirst ''alice'' ''bob'' ''mind'' ''MIND'' (Dec 20) ?st =
     (Response 400 (InsufficientBody ''MIND'' (Num 10) (Num 0)), ?st)"
    by (simp add: Let_def)
  from pre va ga gb five twenty show ?thesis by simp
qed

text \<open>
  Claim C6 as stated fails. The two balance writes are separate puts: when the sender's
  write is accepted and the recipient's is rejected, alice is debited 5.00 and bob is
  credited nothing.
\<close>

theorem send_balance_to_user_atomic_counterexample:
  "\<not> (\<forall>order username recipientUsername blockchain currency a st.
        (let st' = snd (send_balance_to_user order username recipientUsername blockchain
                          currency a st)
         in balances st' = balances st \<or>
            (amount (getBalance username blockchain currency st') =
               toFixed2 (js_sub (parseFloat (amount (getBalance username blockchain currency st)))
                  (parseFloat a)) \<and>
             amount (getBalance recipientUsername blockchain currency st') =
               toFixed2 (js_add (parseFloat (amount (getBalance recipientUsername blockchain
                                                       currency st))) (parseFloat a)))))"
proof
  assume claim: "\<forall>order username recipientUsername blockchain currency a st.
        (let st' = snd (send_balance_to_user order username recipientUsername blockchain
                          currency a st)
         in balances st' = balances st \<or>
            (amount (getBalance username blockchain currency st') =
               toFixed2 (js_sub (parseFloat (amount (getBalance username blockchain currency st)))
                  (parseFloat a)) \<and>
             amount (getBalance recipientUsername blockchain currency st') =
               toFixed2 (js_add (parseFloat (amount (getBalance recipientUsername blockchain
                                                       currency st))) (parseFloat a))))"
  let ?st = "two_users (Dec 10) [None, Some ''IO error'']"
  let ?st' = "snd (send_balance_to_user SenderFirst ''alice'' ''bob'' ''mind'' ''MIND'' (Dec 5) ?st)"
  have alice: "balances ?st' (balance_key ''alice'' ''mind'' ''MIND'') =
                 Some \<lparr>bal_username = ''alice'', bal_blockchain = ''mind'',
                       bal_currency = ''MIND'', amount = Dec 5, frozenAmount = Dec 0\<rparr>"
    by (simp add: send_balance_to_user_def updateBalance_def db_write_def getBalance_def
        two_users_def init_state_def balance_key_def Let_def round2_def)
  have bob: "balances ?st' (balance_key ''bob'' ''mind'' ''MIND'') = None"
    by (simp add: send_balance_to_user_def updateBalance_def db_write_def getBalance_def
        two_users_def init_state_def balance_key_def Let_def round2_def)
  have before: "balances ?st (balance_key ''alice'' ''mind'' ''MIND'') =
                 Some \<lparr>bal_username = ''alice'', bal_blockchain = ''mind'',
                       bal_currency = ''MIND'', amount = Dec 10, frozenAmount = Dec 0\<rparr>"
    by (simp add: two_users_def init_state_def)
  have "balances ?st' (balance_key ''alice'' ''mind'' ''MIND'') \<noteq>
        balances ?st (balance_key ''alice'' ''mind'' ''MIND'')"
    unfolding alice before by simp
  then have changed: "balances ?st' \<noteq> balances ?st" by metis
  have b': "amount (getBalance ''bob'' ''mind'' ''MIND'' ?st') = Dec 0"
    using bob by (simp add: getBalance_def)
  have b0: "amount (getBalance ''bob'' ''mind'' ''MIND'' ?st) = Dec 0"
    by (simp add: getBalance_def two_users_def init_state_def balance_key_def)
  from claim [rule_format, of SenderFirst "''alice''" "''bob''" "''mind''" "''MIND''" "Dec 5" ?st]
    changed
  have "amount (getBalance ''bob'' ''mind'' ''MIND'' ?st') =
          toFixed2 (js_add (parseFloat (amount (getBalance ''bob'' ''mind'' ''MIND'' ?st)))
             (parseFloat (Dec 5)))"
    by (simp add: Let_def del: toFixed2.simps parseFloat.simps)
  then show False unfolding b' b0 by (simp add: round2_def)
qed

text \<open>
  The route does not check the sign of the amount. With \<^verbatim>\<open>amount = -5\<close> and two empty
  balances the sender's record is written with 5.00 and the recipient's update throws
  on its negative amount: the route answers 500 and the 5.00 stay.
\<close>

lemma send_negative_amount:
  "fst (send_balance_to_user SenderFirst ''alice'' ''bob'' ''mind'' ''MIND'' (Dec (- 5))
          (two_users (Dec 0) [])) = Response 500 (ErrorBody ''Internal server error'') \<and>
   getBalance ''alice'' ''mind'' ''MIND''
     (snd (send_balance_to_user SenderFirst ''alice'' ''bob'' ''mind'' ''MIND'' (Dec (- 5))
             (two_users (Dec 0) []))) =
     \<lparr>bal_username = ''alice'', bal_blockchain = ''mind'', bal_currency = ''MIND'',
      amount = Dec 5, frozenAmount = Dec 0\<rparr> \<and>
   balances (snd (send_balance_to_user SenderFirst ''alice'' ''bob'' ''mind'' ''MIND'' (Dec (- 5))
             (two_users (Dec 0) []))) (balance_key ''bob'' ''mind'' ''MIND'') = None"
  by (simp add: send_balance_to_user_def updateBalance_def db_write_def getBalance_def
      two_users_def init_state_def balance_key_def Let_def round2_def)

text \<open>
  Beyond \<open>10\<^sup>1\<^sup>3\<close> the doubles are too coarse for the hundredths: when alice holds
  100000000000000.00 and sends 0.01, both writes commit, bob receives 0.01 and alice is
  left with 99999999999999.98.
\<close>

lemma send_large_balance:
  "fst (send_balance_to_user SenderFirst ''alice'' ''bob'' ''mind'' ''MIND'' (Dec (1 / 100))
          (two_users (Dec 100000000000000) [])) =
     Response 200 (MessageBody ''Transfer successful'') \<and>
   amount (getBalance ''alice'' ''mind'' ''MIND''
     (snd (send_balance_to_user SenderFirst ''alice'' ''bob'' ''mind'' ''MIND'' (Dec (1 / 100))
             (two_users (Dec 100000000000000) [])))) = Dec (4999999999999999 / 50) \<and>
   amount (getBalance ''bob'' ''mind'' ''MIND''
     (snd (send_balance_to_user SenderFirst ''alice'' ''bob'' ''mind'' ''MIND'' (Dec (1 / 100))
             (two_users (Dec 100000000000000) [])))) = Dec (1 / 100)"
  by (simp add: send_balance_to_user_def updateBalance_def db_write_def getBalance_def
      two_users_def init_state_def balance_key_def Let_def round2_def double_cent
      double_1e14_minus_cent)

section \<open>WalletService.generateAccount\<close>

text \<open>
  Claim C10. When an account record exists for the username, \<^verbatim>\<open>generateAccount\<close> returns
  its username, address and timestamp and leaves the whole state as it was: no account
  is written and no address is added, whatever wallet the environment would have made.
\<close>

theorem generateAccount_existing:
  "accounts st username = Some existingAccount \<Longrightarrow>
   generateAccount env username st =
     (Inr \<lparr>info_username = acc_username existingAccount,
           info_address = acc_address existingAccount,
           info_timestamp = acc_timestamp existingAccount\<rparr>, st)"
  by (simp add: generateAccount_def)

text \<open>The theorem at alice, whose account exists.\<close>

theorem generateAccount_existing_witness:
  "accounts (two_users (Dec 0) []) ''alice'' =
     Some \<lparr>acc_username = ''alice'', acc_address = ''0xA1'',
           encryptedPrivateKey = ''iv:key1'', acc_timestamp = 1\<rparr> \<and>
   generateAccount (wallet_run ''0xC3'') ''alice'' (two_users (Dec 0) []) =
     (Inr \<lparr>info_username = ''alice'', info_address = ''0xA1'', info_timestamp = 1\<rparr>,
      two_users (Dec 0) [])"
proof -
  have a: "accounts (two_users (Dec 0) []) ''alice'' =
     Some \<lparr>acc_username = ''alice'', acc_address = ''0xA1'',
           encryptedPrivateKey = ''iv:key1'', acc_timestamp = 1\<rparr>"
    by (simp add: two_users_def init_state_def)
  from generateAccount_existing [OF a, of "wallet_run ''0xC3''"] a show ?thesis by simp
qed

text \<open>
  Claim C9, amended. For a username with no account, \<^verbatim>\<open>generateAccount\<close> hashes the
  username, hands the digest to \<^verbatim>\<open>createRandom\<close> as extra entropy, and returns the address
  of the wallet \<^verbatim>\<open>createRandom\<close> made on that call. When the key is encrypted and the account
  is written, that address is stored with the account and added to the active addresses,
  and every later call for the username returns it, whatever wallet the library would
  make then: the same username yields the same address through the stored account, not
  through the derivation.
\<close>

theorem generateAccount_new:
  assumes "accounts st username = None"
    and "new_encryptedPrivateKey env = Inr encrypted"
    and "write_failures st = []"
  shows "fst (generateAccount env username st) =
           Inr \<lparr>info_username = username,
                 info_address = createRandom env (sha256 env username),
                 info_timestamp = wallet_now env\<rparr> \<and>
         accounts (snd (generateAccount env username st)) username =
           Some \<lparr>acc_username = username,
                  acc_address = createRandom env (sha256 env username),
                  encryptedPrivateKey = encrypted, acc_timestamp = wallet_now env\<rparr> \<and>
         toLowerCase (createRandom env (sha256 env username)) \<in>
           activeAddresses (snd (generateAccount env username st)) \<and>
         (\<forall>env'. fst (generateAccount env' username (snd (generateAccount env username st))) =
                  fst (generateAccount env username st))"
  using assms
  by (simp add: generateAccount_def db_write_def addActiveAddress_def Let_def)

text \<open>The theorem at carol, who has no account, on a call that makes the wallet 0xC3.\<close>

theorem generateAccount_new_witness:
  "accounts (two_users (Dec 0) []) ''carol'' = None \<and>
   new_encryptedPrivateKey (wallet_run ''0xC3'') = Inr ''iv:key3'' \<and>
   write_failures (two_users (Dec 0) []) = [] \<and>
   fst (generateAccount (wallet_run ''0xC3'') ''carol'' (two_users (Dec 0) [])) =
     Inr \<lparr>info_username = ''carol'', info_address = ''0xC3'', info_timestamp = 3\<rparr> \<and>
   fst (generateAccount (wallet_run ''0xC4'') ''carol''
          (snd (generateAccount (wallet_run ''0xC3'') ''carol'' (two_users (Dec 0) [])))) =
     Inr \<lparr>info_username = ''carol'', info_address = ''0xC3'', info_timestamp = 3\<rparr>"
proof -
  have h1: "accounts (two_users (Dec 0) []) ''carol'' = None"
    by (simp add: two_users_def init_state_def)
  have h2: "new_encryptedPrivateKey (wallet_run ''0xC3'') = Inr ''iv:key3''"
    by (simp add: wallet_run_def)
  have h3: "write_failures (two_users (Dec 0) []) = []"
    by (simp add: two_users_def init_state_def)
  from generateAccount_new [OF h1 h2 h3] h1 h2 h3 show ?thesis
    by (simp add: wallet_run_def)
qed

text \<open>
  Claim C9 as stated fails. The address is not determined by the username: two calls
  for carol from the same state, with the same digest, return the addresses of the two
  wallets \<^verbatim>\<open>createRandom\<close> made, 0xC3 and 0xC4.
\<close>

theorem generateAccount_deterministic_counterexample:
  "\<not> (\<forall>env env' username st i i'.
        sha256 env' = sha256 env \<and>
        fst (generateAccount env username st) = Inr i \<and>
        fst (generateAccount env' username st) = Inr i' \<longrightarrow>
        info_address i' = info_address i)"
proof
  assume claim: "\<forall>env env' username st i i'.
        sha256 env' = sha256 env \<and>
        fst (generateAccount env username st) = Inr i \<and>
        fst (generateAccount env' username st) = Inr i' \<longrightarrow>
        info_address i' = info_address i"
  have "sha256 (wallet_run ''0xC4'') = sha256 (wallet_run ''0xC3'') \<and>
        fst (generateAccount (wallet_run ''0xC3'') ''carol'' init_state) =
          Inr \<lparr>info_username = ''carol'', info_address = ''0xC3'', info_timestamp = 3\<rparr> \<and>
        fst (generateAccount (wallet_run ''0xC4'') ''carol'' init_state) =
          Inr \<lparr>info_username = ''carol'', info_address = ''0xC4'', info_timestamp = 3\<rparr>"
    by (simp add: generateAccount_def db_write_def wallet_run_def init_state_def Let_def)
  from claim [rule_format, OF this] show False by simp
qed

section \<open>Block recovery\<close>

lemma processBlock_other:
  "k \<noteq> (network, n) \<Longrightarrow> blockCaches (processBlock env network n st) k = blockCaches st k"
  by (auto simp: processBlock_def db_write_def Let_def
      split: sum.splits list.splits option.splits prod.splits)

text \<open>The loop replays the blocks from \<open>i\<close> to the head that have no cache entry when it starts.\<close>

lemma recover_from_replayed:
  "fst (recover_from env network i currentBlock st) =
     filter (\<lambda>j. blockCaches st (network, j) = None) [i..currentBlock]"
proof (induction env network i currentBlock st rule: recover_from.induct)
  case (1 env network i currentBlock st)
  show ?case
  proof (cases "i \<le> currentBlock")
    case False
    then show ?thesis by simp
  next
    case True
    then have up: "[i..currentBlock] = i # [i + 1..currentBlock]"
      by (simp add: upto_rec1)
    have later: "filter (\<lambda>j. blockCaches (processBlock env network i st) (network, j) = None)
                   [i + 1..currentBlock] =
                 filter (\<lambda>j. blockCaches st (network, j) = None) [i + 1..currentBlock]"
      by (rule filter_cong) (auto simp: processBlock_other)
    show ?thesis
    proof (cases "blockCaches st (network, i) = None")
      case True
      with \<open>i \<le> currentBlock\<close> "1.IH"(1) later up show ?thesis
        by (simp add: split_beta recover_from.simps [of env network i]
            del: recover_from.simps upto.simps)
    next
      case False
      with \<open>i \<le> currentBlock\<close> "1.IH"(2) up show ?thesis
        by (auto simp add: recover_from.simps [of env network i]
            simp del: recover_from.simps upto.simps)
    qed
  qed
qed

text \<open>
  Claim C8, amended. One tick of block recovery replays nothing when the head cannot be
  read or is not past the last processed block; otherwise it replays exactly the blocks
  from \<open>max (last_processed - 1000) 0\<close> to the head that have no cache entry, in
  ascending order. A block with a cache entry is never replayed; a block at or below
  the last processed one is replayed when its entry is gone.
\<close>

theorem blockRecovery_replayed:
  "fst (blockRecovery env network st) =
     (case getBlockNumber env of
        Inl e \<Rightarrow> []
      | Inr currentBlock \<Rightarrow>
          (let lastProcessed = (case lastProcessedBlock st network of None \<Rightarrow> 0 | Some n \<Rightarrow> n)
           in if currentBlock \<le> lastProcessed then []
              else filter (\<lambda>i. blockCaches st (network, i) = None)
                     [max (lastProcessed - 1000) 0..currentBlock]))"
  by (simp add: blockRecovery_def recover_from_replayed RECOVERY_LOOKBACK_BLOCKS_def Let_def
      split: sum.splits del: recover_from.simps)

text \<open>
  The theorem with blocks up to 1 ingested, no cache entry left and the head at 2: blocks
  0, 1 and 2 are replayed.
\<close>

theorem blockRecovery_replayed_witness:
  "fst (blockRecovery (chain_at 2) ''mind'' (ingested_to 1)) = [0, 1, 2]"
  using blockRecovery_replayed [of "chain_at 2" "''mind''" "ingested_to 1"]
  by (simp add: chain_at_def ingested_to_def init_state_def upto_rec1)

text \<open>
  Claim C8 as stated fails. With blocks up to 1 ingested and their cache entries already
  scanned and deleted, a tick at head 2 replays blocks 0 and 1 again, although
  \<open>1 \<le> last_processed\<close>.
\<close>

theorem blockRecovery_last_processed_counterexample:
  "\<not> (\<forall>env network st.
        \<forall>i \<in> set (fst (blockRecovery env network st)).
          blockCaches st (network, i) = None \<and>
          (case lastProcessedBlock st network of None \<Rightarrow> 0 | Some n \<Rightarrow> n) < i)"
proof
  assume claim: "\<forall>env network st.
        \<forall>i \<in> set (fst (blockRecovery env network st)).
          blockCaches st (network, i) = None \<and>
          (case lastProcessedBlock st network of None \<Rightarrow> 0 | Some n \<Rightarrow> n) < i"
  have "fst (blockRecovery (chain_at 2) ''mind'' (ingested_to 1)) = [0, 1, 2]"
    by (simp add: blockRecovery_def recover_from_replayed RECOVERY_LOOKBACK_BLOCKS_def
        chain_at_def ingested_to_def init_state_def Let_def upto_rec1
        del: recover_from.simps)
  then have "1 \<in> set (fst (blockRecovery (chain_at 2) ''mind'' (ingested_to 1)))" by simp
  with claim have "(case lastProcessedBlock (ingested_to 1) ''mind'' of None \<Rightarrow> 0 | Some n \<Rightarrow> n) < 1"
    by blast
  then show False by (simp add: ingested_to_def init_state_def)
qed

section \<open>The deposit worker\<close>

lemma getBalance_frame [simp]:
  "getBalance u b c (st\<lparr>deposit_cache := dc\<rparr>) = getBalance u b c st"
  "getBalance u b c (st\<lparr>deposits := ds\<rparr>) = getBalance u b c st"
  "getBalance u b c (st\<lparr>pendingQueues := pq\<rparr>) = getBalance u b c st"
  "getBalance u b c (st\<lparr>processedTransactions := pt\<rparr>) = getBalance u b c st"
  "getBalance u b c (st\<lparr>depositStartBlock := sb\<rparr>) = getBalance u b c st"
  "getBalance u b c (st\<lparr>write_failures := fs\<rparr>) = getBalance u b c st"
  by (simp_all add: getBalance_def)

lemma db_write_nofail:
  "write_failures st = [] \<Longrightarrow> db_write commit st = (Inr (), commit st)"
  by (simp add: db_write_def)

lemma same_deposit_refl [simp]: "same_deposit d d"
  by (simp add: same_deposit_def)

lemma findDeposit_coherent:
  assumes "deposits st txHash = Some d" and "cache_coherent txHash st"
  shows "findDeposit txHash st =
           (Some d, st\<lparr>deposit_cache := (deposit_cache st)(txHash \<mapsto> d)\<rparr>)"
proof (cases "deposit_cache st txHash")
  case None
  then show ?thesis using assms by (simp add: findDeposit_def)
next
  case (Some c)
  then have hit: "deposit_cache st txHash = Some d"
    using assms by (simp add: cache_coherent_def)
  then have "(deposit_cache st)(txHash \<mapsto> d) = deposit_cache st"
    by (simp add: map_upd_triv)
  then show ?thesis using hit by (simp add: findDeposit_def)
qed

text \<open>
  The crediting branch when no write fails: it throws before the balance is touched, or
  it returns with the one credited record written, the deposit stored credited and the
  hash out of the queue.
\<close>

lemma creditDeposit_nofail:
  assumes "write_failures st0 = []" and "dep_id d = txHash"
  shows "case creditDeposit env queueKey txHash d confs st0 of
           (Inl e, st1) \<Rightarrow>
             write_failures st1 = [] \<and> balances st1 = balances st0 \<and>
             (\<exists>dc. deposit_cache st1 txHash = Some dc \<and> same_deposit d dc) \<and>
             (\<exists>dd. deposits st1 txHash = Some dd \<and> same_deposit d dd)
         | (Inr u, st1) \<Rightarrow>
             write_failures st1 = [] \<and>
             balances st1 =
               (balances st0)(balance_key (dep_username d) (dep_blockchain d) (dep_currency d) \<mapsto>
                  credited_balance d st0) \<and>
             (\<exists>d'. deposits st1 txHash = Some d' \<and> deposit_cache st1 txHash = Some d' \<and>
                   same_deposit d d' \<and> dep_status d' = credited) \<and>
             txHash \<notin> pendingQueues st1 queueKey"
  using assms
  by (simp add: creditDeposit_def updateDeposit_def assign_deposit_def db_write_nofail
      updateBalance_def finishDeposit_def cleanup_def Let_def
      credited_balance_def same_deposit_def
      split: sum.splits del: toFixed2.simps parseFloat.simps)

lemma catch_nofail:
  assumes "write_failures st1 = []" and "deposit_cache st1 txHash = Some dc"
    and "dep_id dc = txHash"
  shows "write_failures (snd (processDeposit_catch err txHash network currency st1)) = [] \<and>
         balances (snd (processDeposit_catch err txHash network currency st1)) = balances st1 \<and>
         (\<exists>d'. deposits (snd (processDeposit_catch err txHash network currency st1)) txHash =
                 Some d' \<and>
               deposit_cache (snd (processDeposit_catch err txHash network currency st1)) txHash =
                 Some d' \<and>
               same_deposit dc d')"
proof -
  have find: "findDeposit txHash st1 = (Some dc, st1)"
    using assms by (simp add: findDeposit_def)
  show ?thesis
    using assms
    by (simp add: processDeposit_catch_def find updateDeposit_def assign_deposit_def
        db_write_nofail cleanup_def Let_def same_deposit_def)
qed

lemma try_nofail:
  assumes nofail: "write_failures st = []"
    and dep: "deposits st txHash = Some d"
    and id: "dep_id d = txHash"
    and coh: "cache_coherent txHash st"
  shows "case processDeposit_try env txHash network currency st of
           (Inl e, st1) \<Rightarrow>
             write_failures st1 = [] \<and> balances st1 = balances st \<and>
             (\<exists>dc. deposit_cache st1 txHash = Some dc \<and> same_deposit d dc)
         | (Inr u, st1) \<Rightarrow>
             write_failures st1 = [] \<and>
             (\<exists>d'. deposits st1 txHash = Some d' \<and> deposit_cache st1 txHash = Some d' \<and>
                   same_deposit d d' \<and>
                   (balances st1 = balances st \<or>
                    balances st1 =
                      (balances st)(balance_key (dep_username d) (dep_blockchain d)
                                      (dep_currency d) \<mapsto> credited_balance d st) \<and>
                    dep_status d' = credited \<and>
                    txHash \<notin> pendingQueues st1 (network @ '':'' @ currency)))"
proof -
  let ?st0 = "st\<lparr>deposit_cache := (deposit_cache st)(txHash \<mapsto> d)\<rparr>"
  let ?q = "network @ '':'' @ currency"
  have find: "findDeposit txHash st = (Some d, ?st0)"
    using dep coh by (rule findDeposit_coherent)
  have nf0: "write_failures ?st0 = []" using nofail by simp
  show ?thesis
  proof (cases "env_blockNumber env")
    case (Inl e)
    then show ?thesis using nofail by (simp add: processDeposit_try_def find)
  next
    case (Inr currentBlock)
    show ?thesis
    proof (cases "networks network")
      case None
      then show ?thesis using Inr nofail by (simp add: processDeposit_try_def find)
    next
      case (Some networkConfig)
      define startBlock where
        "startBlock =
           (case depositStartBlock ?st0 txHash of None \<Rightarrow> NaN | Some n \<Rightarrow> Num (of_int n))"
      define confs where
        "confs = js_add (js_sub (Num (of_int currentBlock)) startBlock) (Num 1)"
      define required where "required = Num (of_int (requiredConfirmations networkConfig))"
      show ?thesis
      proof (cases "js_ge confs required \<and> dep_status d \<noteq> confirmed")
        case True
        then have run: "processDeposit_try env txHash network currency st =
                          creditDeposit env ?q txHash d confs ?st0"
          using Inr Some
          by (simp add: processDeposit_try_def find Let_def confs_def required_def
              startBlock_def)
        show ?thesis
          using creditDeposit_nofail [OF nf0 id, where env = env and queueKey = ?q
              and confs = confs] dep
          unfolding run
          by (auto simp: credited_balance_def split: sum.splits prod.splits)
      next
        case False
        show ?thesis
        proof (cases "js_neq confs (confirmations d)")
          case True
          then show ?thesis
            using False Inr Some nofail id dep
            by (auto simp add: processDeposit_try_def find Let_def confs_def required_def
                startBlock_def updateDeposit_def assign_deposit_def db_write_nofail
                finishDeposit_def same_deposit_def)
        next
          case neq: False
          then show ?thesis
            using False Inr Some nofail id dep
            by (auto simp add: processDeposit_try_def find Let_def confs_def required_def
                startBlock_def finishDeposit_def cleanup_def db_write_nofail)
        qed
      qed
    qed
  qed
qed

text \<open>One call of \<^verbatim>\<open>processDeposit\<close> when no write fails.\<close>

lemma processDeposit_step:
  assumes nofail: "write_failures st = []"
    and dep: "deposits st txHash = Some d"
    and id: "dep_id d = txHash"
    and coh: "cache_coherent txHash st"
  shows "write_failures (snd (processDeposit env txHash network currency st)) = [] \<and>
         (\<exists>d'. deposits (snd (processDeposit env txHash network currency st)) txHash = Some d' \<and>
               deposit_cache (snd (processDeposit env txHash network currency st)) txHash =
                 Some d' \<and>
               same_deposit d d' \<and>
               (balances (snd (processDeposit env txHash network currency st)) = balances st \<or>
                balances (snd (processDeposit env txHash network currency st)) =
                  (balances st)(balance_key (dep_username d) (dep_blockchain d)
                                  (dep_currency d) \<mapsto> credited_balance d st) \<and>
                dep_status d' = credited \<and>
                txHash \<notin> pendingQueues (snd (processDeposit env txHash network currency st))
                            (network @ '':'' @ currency)))"
proof (cases "processDeposit_try env txHash network currency st")
  case (Pair r st1)
  show ?thesis
  proof (cases r)
    case (Inr u)
    then show ?thesis
      using try_nofail [OF nofail dep id coh, where env = env and network = network
          and currency = currency] Pair
      by (simp add: processDeposit_def)
  next
    case (Inl err)
    with try_nofail [OF nofail dep id coh, where env = env and network = network
        and currency = currency] Pair
    obtain dc where st1: "write_failures st1 = []" "balances st1 = balances st"
      "deposit_cache st1 txHash = Some dc" "same_deposit d dc"
      by auto
    then have "dep_id dc = txHash" using id by (simp add: same_deposit_def)
    from catch_nofail [OF st1(1) st1(3) this, where err = err and network = network
        and currency = currency] st1 Inl Pair
    show ?thesis
      by (auto simp: processDeposit_def same_deposit_def)
  qed
qed

lemma credited_balance_cong:
  "balances st = balances st0 \<Longrightarrow> same_deposit d d' \<Longrightarrow>
   credited_balance d' st = credited_balance d st0"
  by (simp add: credited_balance_def getBalance_def same_deposit_def)

lemma visit_inv_step:
  assumes inv: "visit_inv txHash (network @ '':'' @ currency) d st0 st"
    and did: "dep_id d = txHash"
  shows "visit_inv txHash (network @ '':'' @ currency) d st0
           (workerVisit env txHash network currency st)"
proof (cases "txHash \<in> pendingQueues st (network @ '':'' @ currency)")
  case False
  then show ?thesis using inv by (simp add: workerVisit_def)
next
  case True
  from inv obtain d' where d': "write_failures st = []" "cache_coherent txHash st"
    "deposits st txHash = Some d'" "same_deposit d d'"
    and out: "balances st = balances st0 \<or>
             balances st =
               (balances st0)(balance_key (dep_username d) (dep_blockchain d) (dep_currency d) \<mapsto>
                  credited_balance d st0) \<and>
             dep_status d' = credited \<and> txHash \<notin> pendingQueues st (network @ '':'' @ currency)"
    by (auto simp: visit_inv_def)
  from out True have same: "balances st = balances st0" by blast
  have id: "dep_id d' = txHash" using did d'(4) by (simp add: same_deposit_def)
  let ?st' = "snd (processDeposit env txHash network currency st)"
  from processDeposit_step [OF d'(1) d'(3) id d'(2), where env = env and network = network
      and currency = currency]
  obtain d'' where s: "write_failures ?st' = []" "deposits ?st' txHash = Some d''"
    "deposit_cache ?st' txHash = Some d''" "same_deposit d' d''"
    and o: "balances ?st' = balances st \<or>
            balances ?st' =
              (balances st)(balance_key (dep_username d') (dep_blockchain d') (dep_currency d') \<mapsto>
                 credited_balance d' st) \<and>
            dep_status d'' = credited \<and>
            txHash \<notin> pendingQueues ?st' (network @ '':'' @ currency)"
    by blast
  have sd: "same_deposit d d''" using d'(4) s(4) by (simp add: same_deposit_def)
  have coh: "cache_coherent txHash ?st'" using s by (simp add: cache_coherent_def)
  have cb: "credited_balance d' st = credited_balance d st0"
    using same d'(4) by (rule credited_balance_cong)
  have key: "balance_key (dep_username d') (dep_blockchain d') (dep_currency d') =
             balance_key (dep_username d) (dep_blockchain d) (dep_currency d)"
    using d'(4) by (simp add: same_deposit_def)
  show ?thesis
    using True s coh sd o same cb key
    by (auto simp: visit_inv_def workerVisit_def)
qed

lemma visit_inv_run:
  assumes "visit_inv txHash (network @ '':'' @ currency) d st0 st" and "dep_id d = txHash"
  shows "visit_inv txHash (network @ '':'' @ currency) d st0
           (workerVisits envs txHash network currency st)"
  using assms
proof (induction envs arbitrary: st)
  case Nil
  then show ?case by simp
next
  case (Cons env envs)
  from visit_inv_step [OF Cons.prems(1) Cons.prems(2), where env = env]
  have "visit_inv txHash (network @ '':'' @ currency) d st0
          (workerVisit env txHash network currency st)" .
  from Cons.IH [OF this Cons.prems(2)] show ?case by simp
qed

lemmas deposit_eval =
  workerVisit_def processDeposit_def processDeposit_try_def processDeposit_catch_def
  creditDeposit_def finishDeposit_def cleanup_def updateDeposit_def assign_deposit_def
  findDeposit_def updateBalance_def db_write_def getBalance_def balance_key_def
  networks_def MAX_RETRIES_def Let_def round2_def
  deposit_T1_def indexer_with_def chain_sweeps_def chain_sweep_fails_def init_state_def

text \<open>The credited record when the amounts are in the exact range.\<close>

lemma credit_exact:
  assumes "ledger_amount (Dec p)" and "ledger_amount (Dec x)"
  shows "toFixed2 (parseFloat (toFixed2
           (js_add (js_or0 (parseFloat (Dec p))) (parseFloat (Dec x))))) = Dec (p + x)"
proof -
  from assms(1) obtain kp where kp: "p = of_int kp / 100" "0 \<le> kp"
    "of_int kp / 100 \<le> (10 ^ 13 :: rat)"
    unfolding ledger_amount_iff by auto
  from assms(2) obtain kx where kx: "x = of_int kx / 100" "0 \<le> kx"
    "of_int kx / 100 \<le> (10 ^ 13 :: rat)"
    unfolding ledger_amount_iff by auto
  have bp: "\<bar>of_int kp / 100 :: rat\<bar> \<le> 10 ^ 13" using kp by simp
  have bx: "\<bar>of_int kx / 100 :: rat\<bar> \<le> 10 ^ 13" using kx by simp
  have "toFixed2 (js_add (js_or0 (parseFloat (Dec p))) (parseFloat (Dec x))) = Dec (p + x)"
    using js_add_hundredths [OF bp bx] by (simp add: kp kx add_divide_distrib js_or0_id)
  moreover have "\<bar>of_int (kp + kx) / 100 :: rat\<bar> \<le> 2 * 10 ^ 13"
    using bp bx by (simp add: add_divide_distrib)
  from toFixed2_parseFloat [OF this]
  have "toFixed2 (parseFloat (Dec (p + x))) = Dec (p + x)"
    by (simp add: kp kx add_divide_distrib)
  ultimately show ?thesis by (simp del: toFixed2.simps parseFloat.simps)
qed

text \<open>
  Claim C1, amended. When no store write fails, any sequence of visits of the queue
  worker to a deposit stored under its id either leaves every balance as it was or
  increments the user's available balance by the deposit amount exactly once, leaves
  the frozen amount and every other balance record alone, stores the deposit as credited
  and removes it from the pending queue, so that no later visit processes it. The new
  available is the sum of the two doubles printed with two decimals, and it and the
  frozen amount are read and printed once more by \<^verbatim>\<open>updateBalance\<close>; when the stored
  amounts and the deposit amount have at most two decimals and lie between 0 and \<open>10\<^sup>1\<^sup>3\<close>
  the new available is exactly the old one plus the deposit amount and the frozen amount
  is the old one.
\<close>

theorem deposit_credited_at_most_once:
  assumes nofail: "write_failures st = []"
    and dep: "deposits st txHash = Some d"
    and id: "dep_id d = txHash"
    and coh: "cache_coherent txHash st"
  shows "let st' = workerVisits envs txHash network currency st;
             before = getBalance (dep_username d) (dep_blockchain d) (dep_currency d) st;
             after = getBalance (dep_username d) (dep_blockchain d) (dep_currency d) st'
         in balances st' = balances st \<or>
            (amount after =
               toFixed2 (parseFloat (toFixed2
                 (js_add (js_or0 (parseFloat (amount before))) (parseFloat (dep_amount d))))) \<and>
             frozenAmount after =
               toFixed2 (parseFloat (toFixed2 (parseFloat (frozenAmount before)))) \<and>
             (\<forall>p x. amount before = Dec p \<and> dep_amount d = Dec x \<and>
                    ledger_amount (amount before) \<and> ledger_amount (dep_amount d) \<longrightarrow>
                    amount after = Dec (p + x)) \<and>
             (ledger_amount (frozenAmount before) \<longrightarrow> frozenAmount after = frozenAmount before) \<and>
             (\<forall>k. k \<noteq> balance_key (dep_username d) (dep_blockchain d) (dep_currency d) \<longrightarrow>
                  balances st' k = balances st k) \<and>
             map_option dep_status (deposits st' txHash) = Some credited \<and>
             txHash \<notin> pendingQueues st' (network @ '':'' @ currency))"
proof -
  let ?st' = "workerVisits envs txHash network currency st"
  let ?before = "getBalance (dep_username d) (dep_blockchain d) (dep_currency d) st"
  let ?after = "getBalance (dep_username d) (dep_blockchain d) (dep_currency d) ?st'"
  have "visit_inv txHash (network @ '':'' @ currency) d st st"
    using nofail dep coh by (simp add: visit_inv_def)
  from visit_inv_run [OF this id, where envs = envs]
  have main: "balances ?st' = balances st \<or>
            (amount ?after =
               toFixed2 (parseFloat (toFixed2
                 (js_add (js_or0 (parseFloat (amount ?before))) (parseFloat (dep_amount d))))) \<and>
             frozenAmount ?after =
               toFixed2 (parseFloat (toFixed2 (parseFloat (frozenAmount ?before)))) \<and>
             (\<forall>k. k \<noteq> balance_key (dep_username d) (dep_blockchain d) (dep_currency d) \<longrightarrow>
                  balances ?st' k = balances st k) \<and>
             map_option dep_status (deposits ?st' txHash) = Some credited \<and>
             txHash \<notin> pendingQueues ?st' (network @ '':'' @ currency))"
    by (auto simp: visit_inv_def Let_def getBalance_def credited_balance_def
        simp del: toFixed2.simps parseFloat.simps)
  have exact: "toFixed2 (parseFloat (toFixed2
       (js_add (js_or0 (parseFloat (amount ?before))) (parseFloat (dep_amount d))))) = Dec (p + x)"
    if h: "amount ?before = Dec p \<and> dep_amount d = Dec x \<and>
        ledger_amount (amount ?before) \<and> ledger_amount (dep_amount d)" for p x
  proof -
    from h have e: "amount ?before = Dec p" "dep_amount d = Dec x" by blast+
    from h have "ledger_amount (Dec p)" "ledger_amount (Dec x)" unfolding e by blast+
    from credit_exact [OF this] show ?thesis unfolding e .
  qed
  have frozen: "toFixed2 (parseFloat (toFixed2 (parseFloat (frozenAmount ?before)))) =
                frozenAmount ?before"
    if "ledger_amount (frozenAmount ?before)"
    using ledger_amount_stored(1) [OF that] by (simp del: toFixed2.simps parseFloat.simps)
  from main exact frozen show ?thesis
    unfolding Let_def by (metis (no_types, lifting))
qed

text \<open>
  The theorem on a deposit of 5.00 MIND whose sweep times out at head 109, which is
  stored as confirming at head 110 and swept and credited at head 111: the balance
  changes, so it is 5.00, and the deposit is credited and out of the queue.
\<close>

theorem deposit_credited_at_most_once_witness:
  "write_failures (indexer_with (deposit_T1 pending (Num 1) 0) []) = [] \<and>
   deposits (indexer_with (deposit_T1 pending (Num 1) 0) []) ''0xT1'' =
     Some (deposit_T1 pending (Num 1) 0) \<and>
   dep_id (deposit_T1 pending (Num 1) 0) = ''0xT1'' \<and>
   cache_coherent ''0xT1'' (indexer_with (deposit_T1 pending (Num 1) 0) []) \<and>
   balances (workerVisits [chain_sweep_fails 109, chain_sweeps 110, chain_sweeps 111]
               ''0xT1'' ''mind'' ''MIND'' (indexer_with (deposit_T1 pending (Num 1) 0) [])) \<noteq>
     balances (indexer_with (deposit_T1 pending (Num 1) 0) []) \<and>
   amount (getBalance ''alice'' ''mind'' ''MIND''
     (workerVisits [chain_sweep_fails 109, chain_sweeps 110, chain_sweeps 111]
        ''0xT1'' ''mind'' ''MIND'' (indexer_with (deposit_T1 pending (Num 1) 0) []))) = Dec 5 \<and>
   map_option dep_status
     (deposits (workerVisits [chain_sweep_fails 109, chain_sweeps 110, chain_sweeps 111]
        ''0xT1'' ''mind'' ''MIND'' (indexer_with (deposit_T1 pending (Num 1) 0) [])) ''0xT1'') =
     Some credited \<and>
   ''0xT1'' \<notin> pendingQueues
     (workerVisits [chain_sweep_fails 109, chain_sweeps 110, chain_sweeps 111]
        ''0xT1'' ''mind'' ''MIND'' (indexer_with (deposit_T1 pending (Num 1) 0) []))
     (''mind'' @ '':'' @ ''MIND'')"
proof -
  let ?d = "deposit_T1 pending (Num 1) 0"
  let ?st = "indexer_with ?d []"
  let ?st' = "workerVisits [chain_sweep_fails 109, chain_sweeps 110, chain_sweeps 111]
               ''0xT1'' ''mind'' ''MIND'' ?st"
  have h1: "write_failures ?st = []" by (simp add: indexer_with_def init_state_def)
  have h2: "deposits ?st ''0xT1'' = Some ?d" by (simp add: indexer_with_def init_state_def)
  have h3: "dep_id ?d = ''0xT1''" by (simp add: deposit_T1_def)
  have h4: "cache_coherent ''0xT1'' ?st"
    by (simp add: cache_coherent_def indexer_with_def init_state_def)
  have "balances ?st' (balance_key ''alice'' ''mind'' ''MIND'') \<noteq> None"
    by (simp add: deposit_eval)
  moreover have "balances ?st (balance_key ''alice'' ''mind'' ''MIND'') = None"
    by (simp add: indexer_with_def init_state_def)
  ultimately have changed: "balances ?st' \<noteq> balances ?st" by metis
  have fields: "dep_username ?d = ''alice''" "dep_blockchain ?d = ''mind''"
    "dep_currency ?d = ''MIND''" "dep_amount ?d = Dec 5"
    by (simp_all add: deposit_T1_def)
  have before: "getBalance ''alice'' ''mind'' ''MIND'' ?st =
      \<lparr>bal_username = ''alice'', bal_blockchain = ''mind'', bal_currency = ''MIND'',
       amount = Dec 0, frozenAmount = Dec 0\<rparr>"
    by (simp add: getBalance_def indexer_with_def init_state_def)
  from deposit_credited_at_most_once [OF h1 h2 h3 h4, where envs =
      "[chain_sweep_fails 109, chain_sweeps 110, chain_sweeps 111]" and network = "''mind''"
      and currency = "''MIND''"] changed
  have "amount (getBalance ''alice'' ''mind'' ''MIND'' ?st') = Dec 5 \<and>
        map_option dep_status (deposits ?st' ''0xT1'') = Some credited \<and>
        ''0xT1'' \<notin> pendingQueues ?st' (''mind'' @ '':'' @ ''MIND'')"
    unfolding Let_def fields before by (simp add: round2_def)
  with h1 h2 h3 h4 changed show ?thesis by simp
qed

text \<open>
  Claim C1 as stated fails. The balance and the credited deposit are two writes. Here
  the visit at head 109 writes the deposit as confirmed, sweeps and writes the balance
  5.00, and the write of the credited deposit is rejected. The \<^verbatim>\<open>catch\<close> reads the cached
  object, whose status was already assigned, and stores it with the retry count; the
  hash stays in the queue. The visit at head 110 finds a status other than confirmed,
  sweeps and credits again: the balance is 10.00 for one deposit of 5.00.
\<close>

theorem deposit_credited_twice_counterexample:
  "\<not> (\<forall>envs txHash network currency st d.
        deposits st txHash = Some d \<longrightarrow>
        (let st' = workerVisits envs txHash network currency st;
             before = getBalance (dep_username d) (dep_blockchain d) (dep_currency d) st;
             after = getBalance (dep_username d) (dep_blockchain d) (dep_currency d) st'
         in amount after = amount before \<or>
            amount after =
              toFixed2 (parseFloat (toFixed2
                (js_add (js_or0 (parseFloat (amount before))) (parseFloat (dep_amount d)))))))"
proof
  assume claim: "\<forall>envs txHash network currency st d.
        deposits st txHash = Some d \<longrightarrow>
        (let st' = workerVisits envs txHash network currency st;
             before = getBalance (dep_username d) (dep_blockchain d) (dep_currency d) st;
             after = getBalance (dep_username d) (dep_blockchain d) (dep_currency d) st'
         in amount after = amount before \<or>
            amount after =
              toFixed2 (parseFloat (toFixed2
                (js_add (js_or0 (parseFloat (amount before))) (parseFloat (dep_amount d))))))"
  let ?d = "deposit_T1 pending (Num 1) 0"
  let ?st = "indexer_with ?d [None, None, Some ''IO error'']"
  let ?st' = "workerVisits [chain_sweeps 109, chain_sweeps 110, chain_sweeps 111]
                ''0xT1'' ''mind'' ''MIND'' ?st"
  have h: "deposits ?st ''0xT1'' = Some ?d" by (simp add: indexer_with_def init_state_def)
  have fields: "dep_username ?d = ''alice''" "dep_blockchain ?d = ''mind''"
    "dep_currency ?d = ''MIND''" "dep_amount ?d = Dec 5"
    by (simp_all add: deposit_T1_def)
  have before: "amount (getBalance ''alice'' ''mind'' ''MIND'' ?st) = Dec 0"
    by (simp add: getBalance_def indexer_with_def init_state_def)
  have after: "amount (getBalance ''alice'' ''mind'' ''MIND'' ?st') = Dec 10"
    by (simp add: deposit_eval)
  from claim [rule_format, OF h, where envs =
      "[chain_sweeps 109, chain_sweeps 110, chain_sweeps 111]"
      and network = "''mind''" and currency = "''MIND''"]
  show False
    unfolding Let_def fields before after by (simp add: round2_def)
qed

text \<open>
  After the first of these two visits alone the balance is already 5.00 although the
  write of the credited deposit was rejected, and the hash is still queued.
\<close>

lemma deposit_write_rejected_after_credit:
  "amount (getBalance ''alice'' ''mind'' ''MIND''
     (workerVisits [chain_sweeps 109] ''0xT1'' ''mind'' ''MIND''
        (indexer_with (deposit_T1 pending (Num 1) 0) [None, None, Some ''IO error'']))) = Dec 5 \<and>
   ''0xT1'' \<in> pendingQueues
     (workerVisits [chain_sweeps 109] ''0xT1'' ''mind'' ''MIND''
        (indexer_with (deposit_T1 pending (Num 1) 0) [None, None, Some ''IO error'']))
     ''mind:MIND''"
  by (simp add: deposit_eval)

text \<open>
  Claim C7, at the input where the code departs from it. The deposit reaches 10
  confirmations at head 109 and is stored as confirmed; the sweep times out and the
  \<^verbatim>\<open>catch\<close> stores the retry count. At head 110 the first branch is skipped because the
  status is confirmed, the second branch sees a changed confirmation count, and the
  deposit is stored as confirming.
\<close>

theorem confirmed_deposit_stored_confirming:
  "map_option dep_status
     (deposits (workerVisits [chain_sweep_fails 109] ''0xT1'' ''mind'' ''MIND''
                 (indexer_with (deposit_T1 pending (Num 1) 0) [])) ''0xT1'') = Some confirmed \<and>
   map_option dep_status
     (deposits (workerVisits [chain_sweep_fails 109, chain_sweeps 110] ''0xT1'' ''mind'' ''MIND''
                 (indexer_with (deposit_T1 pending (Num 1) 0) [])) ''0xT1'') = Some confirming"
  by (simp add: deposit_eval)

section \<open>Bucket settlement\<close>

lemmas bucket_eval =
  processBucket_def processBucket_try_def settleBucket_def settleWithdrawal_def
  failWithdrawal_def unfreezeBalance_def updateBalance_def updateWithdrawal_def
  updateBucket_def assign_withdrawal_def findWithdrawal_def unitsOf_def parseUnits_def
  bucket_id_def BUCKET_DURATION_MS_def decimal.simps digit_def db_write_def getBalance_def
  balance_key_def networks_def Let_def round2_def
  withdrawal_50_def bucket_state_def gas_price_fails_def batch_succeeds_def init_state_def

text \<open>
  Claim C2, at an input where the code departs from it. A bucket holds one withdrawal of
  50.00 USDT with 51.00 frozen for it. Settlement stores the withdrawal as processing,
  then \<^verbatim>\<open>provider.getGasPrice\<close> throws, outside the inner \<^verbatim>\<open>try\<close>: the outer \<^verbatim>\<open>catch\<close> only
  logs. The withdrawal stays processing, which no later settlement picks up, and the
  51.00 stay frozen: neither the unfreeze nor the settle is applied.
\<close>

theorem withdrawal_left_processing:
  "map_option wd_status
     (withdrawals (processBucket gas_price_fails ''mind:USDT:1'' (bucket_state [''w1''] (Dec 51) []))
        ''w1'') = Some processing \<and>
   getBalance ''alice'' ''mind'' ''USDT''
     (processBucket gas_price_fails ''mind:USDT:1'' (bucket_state [''w1''] (Dec 51) [])) =
     \<lparr>bal_username = ''alice'', bal_blockchain = ''mind'', bal_currency = ''USDT'',
      amount = Dec 0, frozenAmount = Dec 51\<rparr>"
  by (simp add: bucket_eval)

text \<open>
  The same claim fails the other way too. Two withdrawals of 50.00 USDT, 102.00 frozen,
  and a batch that succeeds. The first withdrawal is settled (frozen 51.00 left); the
  balance write of the second is rejected, and the \<^verbatim>\<open>catch\<close> loop then unfreezes every
  valid withdrawal, the settled one included: its 51.00 go back to available, after
  which nothing is left to unfreeze for the second.
\<close>

lemma settled_withdrawal_unfrozen:
  "getBalance ''alice'' ''mind'' ''USDT''
     (processBucket batch_succeeds ''mind:USDT:1''
        (bucket_state [''w1'', ''w2''] (Dec 102) [None, None, None, None, Some ''IO error''])) =
     \<lparr>bal_username = ''alice'', bal_blockchain = ''mind'', bal_currency = ''USDT'',
      amount = Dec 51, frozenAmount = Dec 0\<rparr>"
  by (simp add: bucket_eval)

end
